theory Spec2Isabelle
  imports Main "HOL-Library.Word" "HOL-Library.Monad_Syntax"
begin

section \<open>The virtio-mem driver (drivers/virtio/virtio_mem.c)\<close>

text \<open>
  A shallow embedding of the memory hot(un)plug state machine of
  \<^verbatim>\<open>drivers/virtio/virtio_mem.c\<close>. Every C function that is modelled keeps its name.
  \<^item> \<^verbatim>\<open>uint64_t\<close> and \<^verbatim>\<open>unsigned long\<close> are 64-bit words (arithmetic wraps);
    \<^verbatim>\<open>int\<close> return codes are integers; small \<^verbatim>\<open>int\<close> counters (subblock ids and
    counts) are integers or naturals.
  \<^item> \<^verbatim>\<open>struct virtio_mem\<close> is one record; the members of \<^verbatim>\<open>vm->sbm\<close> and
    \<^verbatim>\<open>vm->bbm\<close> carry the prefixes \<open>sbm_\<close> and \<open>bbm_\<close>.
  \<^item> A function returns \<open>None\<close> where the kernel stops (\<^verbatim>\<open>BUG_ON\<close>, \<^verbatim>\<open>BUG\<close>), where
    the C program reads or writes outside an allocation, or where a loop never ends.
  \<^item> Calls into the rest of the kernel and into the hypervisor take their results from an
    environment: the result of the \<open>n\<close>-th such call is \<open>ret e n\<close>, and the record logs
    the calls made so far in \<open>trace\<close>. Quantifying over the environment covers every
    behaviour of the callees.
\<close>

unbundle bit_operations_syntax

type_synonym u64 = "64 word"
type_synonym u32 = "32 word"

text \<open>
  \<open>ret e n\<close> is the result of the \<open>n\<close>-th call out of the driver (an error number, a
  truth value as zero or non-zero, or a handle). \<open>async_config e n\<close> says that
  \<^verbatim>\<open>virtio_mem_config_changed\<close> ran on another CPU while that call was in progress.
\<close>

record env =
  ret :: "nat \<Rightarrow> int"
  async_config :: "nat \<Rightarrow> bool"

text \<open>The calls out of the driver, with their arguments.\<close>

datatype ext_event =
    EV_kzalloc
  | EV_vzalloc
  | EV_kstrdup_const
  | EV_mem_buf_alloc u64
  | EV_xa_store u64
  | EV_mem_buf_free nat
  | EV_add_memory_driver_managed u64 u64
  | EV_remove_memory u64 u64
  | EV_offline_and_remove_memory u64 u64
  | EV_alloc_contig_range u64 u64
  | EV_free_contig_range u64 u64
  | EV_generic_online_page u64 nat
  | EV_pfn_to_online_page u64
  | EV_is_zone_movable_page u64
  | EV_dump_page u64

subsection \<open>Error numbers\<close>

definition EAGAIN :: int where "EAGAIN = 11"
definition ENOMEM :: int where "ENOMEM = 12"
definition EBUSY :: int where "EBUSY = 16"
definition EINVAL :: int where "EINVAL = 22"
definition ETXTBSY :: int where "ETXTBSY = 26"
definition ENOSPC :: int where "ENOSPC = 28"

lemmas errno_defs = EAGAIN_def ENOMEM_def EBUSY_def EINVAL_def ETXTBSY_def ENOSPC_def

subsection \<open>Block states\<close>

text \<open>
  The enumerations \<^verbatim>\<open>virtio_mem_sbm_mb_state\<close> and \<^verbatim>\<open>virtio_mem_bbm_bb_state\<close> are
  declared in \<^verbatim>\<open>qti_virtio_mem.h\<close>; the constructors are the enumerators the driver
  uses. \<^verbatim>\<open>vzalloc\<close> returns zeroed memory and the driver treats a fresh entry as
  \<^verbatim>\<open>UNUSED\<close>, so \<^verbatim>\<open>UNUSED\<close> is the enumerator 0 in both.
\<close>

datatype virtio_mem_sbm_mb_state =
    VIRTIO_MEM_SBM_MB_UNUSED
  | VIRTIO_MEM_SBM_MB_PLUGGED
  | VIRTIO_MEM_SBM_MB_OFFLINE
  | VIRTIO_MEM_SBM_MB_OFFLINE_PARTIAL
  | VIRTIO_MEM_SBM_MB_KERNEL
  | VIRTIO_MEM_SBM_MB_KERNEL_PARTIAL
  | VIRTIO_MEM_SBM_MB_MOVABLE
  | VIRTIO_MEM_SBM_MB_MOVABLE_PARTIAL

datatype virtio_mem_bbm_bb_state =
    VIRTIO_MEM_BBM_BB_UNUSED
  | VIRTIO_MEM_BBM_BB_PLUGGED
  | VIRTIO_MEM_BBM_BB_ADDED
  | VIRTIO_MEM_BBM_BB_FAKE_OFFLINE

subsection \<open>Constants of the kernel configuration\<close>

text \<open>
  Macros and settings that the driver reads but that are defined outside this file are
  parameters of the model.
\<close>

record kconf =
  PAGE_SIZE :: u64
  PAGES_PER_SECTION :: u64
  MAX_ORDER :: nat
  memory_block_size_bytes :: u64
  sizeof_struct_page :: u64
  pageblock_nr_pages :: u64
  pluggable_range_end :: u64
  unplug_online :: bool
  VIRTIO_MEM_RETRY_TIMER_MIN_MS :: u32
  VIRTIO_MEM_RETRY_TIMER_MAX_MS :: u32
  NOTIFY_DONE :: int
  NOTIFY_OK :: int
  NOTIFY_BAD :: int
  notifier_from_errno :: "int \<Rightarrow> int"

subsection \<open>The device\<close>

record virtio_mem =
  trace :: "ext_event list"
  in_kdump :: bool
  broken :: bool
  removing :: bool
  hotplug_active :: bool
  in_sbm :: bool
  memmap_on_memory :: bool
  unplug_all_required :: bool
  config_changed :: bool
  wq_active :: bool
  wq_queued :: bool
  resource_name :: bool
  retry_timer :: "u32 option"
  retry_timer_ms :: u32
  addr :: u64
  region_size :: u64
  device_block_size :: u64
  requested_size :: u64
  plugged_size :: u64
  offline_size :: u64
  offline_threshold :: u64
  xa_membuf :: "u64 \<rightharpoonup> nat"
  sbm_sb_size :: u64
  sbm_sbs_per_mb :: nat
  sbm_first_mb_id :: u64
  sbm_next_mb_id :: u64
  sbm_last_usable_mb_id :: u64
  sbm_mb_states :: "virtio_mem_sbm_mb_state list"
  sbm_mb_count :: "virtio_mem_sbm_mb_state \<Rightarrow> u64"
  sbm_sb_states :: "bool list"
  sbm_have_unplugged_mb :: bool
  bbm_bb_size :: u64
  bbm_first_bb_id :: u64
  bbm_next_bb_id :: u64
  bbm_last_usable_bb_id :: u64
  bbm_bb_states :: "virtio_mem_bbm_bb_state list"
  bbm_bb_count :: "virtio_mem_bbm_bb_state \<Rightarrow> u64"
  PageOffline :: "u64 \<Rightarrow> bool"
  PageDirty :: "u64 \<Rightarrow> bool"
  PageReserved :: "u64 \<Rightarrow> bool"
  page_ref :: "u64 \<Rightarrow> int"
  managed_pages :: int

text \<open>
  \<open>trace\<close> logs the calls out of the driver. \<open>retry_timer\<close> is the hrtimer:
  \<open>Some ms\<close> while it is armed. \<open>wq_queued\<close> says that the work item is queued.
  \<open>resource_name\<close> says that \<^verbatim>\<open>vm->resource_name\<close> is allocated. \<open>xa_membuf\<close> is the
  xarray of mem-buf handles.
  The arrays \<open>sbm_mb_states\<close>, \<open>sbm_sb_states\<close> and \<open>bbm_bb_states\<close> are lists as long as
  their allocation (the empty list is the \<^verbatim>\<open>NULL\<close> pointer). The page flags, reference
  counts and the managed page counter belong to the memory manager.
\<close>

definition virtio_mem_retry :: "virtio_mem \<Rightarrow> virtio_mem" where
  "virtio_mem_retry vm = (if \<not> removing vm then vm\<lparr>wq_queued := True\<rparr> else vm)"

definition virtio_mem_config_changed :: "virtio_mem \<Rightarrow> virtio_mem" where
  "virtio_mem_config_changed vm =
     (if in_kdump vm then vm else virtio_mem_retry (vm\<lparr>config_changed := True\<rparr>))"

text \<open>
  A call out of the driver: the event is logged, the result is read from the environment,
  and a concurrent \<^verbatim>\<open>virtio_mem_config_changed\<close> takes effect.
\<close>

definition ext_call :: "env \<Rightarrow> ext_event \<Rightarrow> virtio_mem \<Rightarrow> int \<times> virtio_mem" where
  "ext_call e ev vm =
     (let n = length (trace vm);
          vm = vm\<lparr>trace := trace vm @ [ev]\<rparr>
      in (ret e n, if async_config e n then virtio_mem_config_changed vm else vm))"

subsection \<open>Unit translation\<close>

definition PFN_UP :: "kconf \<Rightarrow> u64 \<Rightarrow> u64" where
  "PFN_UP k x = (x + PAGE_SIZE k - 1) div PAGE_SIZE k"

definition PFN_DOWN :: "kconf \<Rightarrow> u64 \<Rightarrow> u64" where
  "PFN_DOWN k x = x div PAGE_SIZE k"

definition virtio_mem_phys_to_mb_id :: "kconf \<Rightarrow> u64 \<Rightarrow> u64" where
  "virtio_mem_phys_to_mb_id k a = a div memory_block_size_bytes k"

definition virtio_mem_mb_id_to_phys :: "kconf \<Rightarrow> u64 \<Rightarrow> u64" where
  "virtio_mem_mb_id_to_phys k mb_id = mb_id * memory_block_size_bytes k"

definition virtio_mem_sb_id_to_phys :: "kconf \<Rightarrow> virtio_mem \<Rightarrow> u64 \<Rightarrow> int \<Rightarrow> u64" where
  "virtio_mem_sb_id_to_phys k vm mb_id sb_id =
     (let sb_id = (if memmap_on_memory vm then sb_id + 1 else sb_id)
      in mb_id * memory_block_size_bytes k + of_int sb_id * sbm_sb_size vm)"

definition virtio_mem_phys_to_bb_id :: "virtio_mem \<Rightarrow> u64 \<Rightarrow> u64" where
  "virtio_mem_phys_to_bb_id vm a = a div bbm_bb_size vm"

definition virtio_mem_bb_id_to_phys :: "virtio_mem \<Rightarrow> u64 \<Rightarrow> u64" where
  "virtio_mem_bb_id_to_phys vm bb_id = bb_id * bbm_bb_size vm"

subsection \<open>The block state tables\<close>

definition virtio_mem_bbm_set_bb_state ::
  "virtio_mem \<Rightarrow> u64 \<Rightarrow> virtio_mem_bbm_bb_state \<Rightarrow> virtio_mem option" where
  "virtio_mem_bbm_set_bb_state vm bb_id state =
     (let idx = unat (bb_id - bbm_first_bb_id vm) in
      if length (bbm_bb_states vm) \<le> idx then None
      else
        let old_state = bbm_bb_states vm ! idx;
            vm = vm\<lparr>bbm_bb_states := (bbm_bb_states vm)[idx := state]\<rparr>
        in if bbm_bb_count vm old_state = 0 then None
           else
             let vm = vm\<lparr>bbm_bb_count :=
                         (bbm_bb_count vm)(old_state := bbm_bb_count vm old_state - 1)\<rparr>
             in Some (vm\<lparr>bbm_bb_count :=
                         (bbm_bb_count vm)(state := bbm_bb_count vm state + 1)\<rparr>))"

definition virtio_mem_bbm_get_bb_state ::
  "virtio_mem \<Rightarrow> u64 \<Rightarrow> virtio_mem_bbm_bb_state option" where
  "virtio_mem_bbm_get_bb_state vm bb_id =
     (let idx = unat (bb_id - bbm_first_bb_id vm) in
      if length (bbm_bb_states vm) \<le> idx then None else Some (bbm_bb_states vm ! idx))"

definition virtio_mem_sbm_set_mb_state ::
  "virtio_mem \<Rightarrow> u64 \<Rightarrow> virtio_mem_sbm_mb_state \<Rightarrow> virtio_mem option" where
  "virtio_mem_sbm_set_mb_state vm mb_id state =
     (let idx = unat (mb_id - sbm_first_mb_id vm) in
      if length (sbm_mb_states vm) \<le> idx then None
      else
        let old_state = sbm_mb_states vm ! idx;
            vm = vm\<lparr>sbm_mb_states := (sbm_mb_states vm)[idx := state]\<rparr>
        in if sbm_mb_count vm old_state = 0 then None
           else
             let vm = vm\<lparr>sbm_mb_count :=
                         (sbm_mb_count vm)(old_state := sbm_mb_count vm old_state - 1)\<rparr>
             in Some (vm\<lparr>sbm_mb_count :=
                         (sbm_mb_count vm)(state := sbm_mb_count vm state + 1)\<rparr>))"

definition virtio_mem_sbm_get_mb_state ::
  "virtio_mem \<Rightarrow> u64 \<Rightarrow> virtio_mem_sbm_mb_state option" where
  "virtio_mem_sbm_get_mb_state vm mb_id =
     (let idx = unat (mb_id - sbm_first_mb_id vm) in
      if length (sbm_mb_states vm) \<le> idx then None else Some (sbm_mb_states vm ! idx))"

text \<open>
  Growing an array: \<^verbatim>\<open>vzalloc\<close> of \<open>new_pages\<close> pages, \<^verbatim>\<open>memcpy\<close> of the first
  \<open>old_pages\<close> pages of the old array (a read outside the old allocation is \<open>None\<close>).
\<close>

definition grow_array :: "'a \<Rightarrow> nat \<Rightarrow> nat \<Rightarrow> 'a list \<Rightarrow> 'a list option" where
  "grow_array z old_len new_len xs =
     (if xs = [] then Some (replicate new_len z)
      else if length xs < old_len \<or> new_len < old_len then None
      else Some (take old_len xs @ replicate (new_len - old_len) z))"

definition virtio_mem_bbm_bb_states_prepare_next_bb ::
  "kconf \<Rightarrow> env \<Rightarrow> virtio_mem \<Rightarrow> (int \<times> virtio_mem) option" where
  "virtio_mem_bbm_bb_states_prepare_next_bb k e vm =
     (let old_bytes = bbm_next_bb_id vm - bbm_first_bb_id vm;
          new_bytes = old_bytes + 1;
          old_pages = unat (PFN_UP k old_bytes);
          new_pages = unat (PFN_UP k new_bytes)
      in if bbm_bb_states vm \<noteq> [] \<and> old_pages = new_pages then Some (0, vm)
         else
           let (r, vm) = ext_call e EV_vzalloc vm
           in if r \<noteq> 0 then Some (- ENOMEM, vm)
              else
                do {
                  new_array \<leftarrow> grow_array VIRTIO_MEM_BBM_BB_UNUSED
                     (old_pages * unat (PAGE_SIZE k)) (new_pages * unat (PAGE_SIZE k))
                     (bbm_bb_states vm);
                  Some (0, vm\<lparr>bbm_bb_states := new_array\<rparr>)
                })"

definition virtio_mem_sbm_mb_states_prepare_next_mb ::
  "kconf \<Rightarrow> env \<Rightarrow> virtio_mem \<Rightarrow> (int \<times> virtio_mem) option" where
  "virtio_mem_sbm_mb_states_prepare_next_mb k e vm =
     (let old_pages = unat (PFN_UP k (sbm_next_mb_id vm - sbm_first_mb_id vm));
          new_pages = unat (PFN_UP k (sbm_next_mb_id vm - sbm_first_mb_id vm + 1))
      in if sbm_mb_states vm \<noteq> [] \<and> old_pages = new_pages then Some (0, vm)
         else
           let (r, vm) = ext_call e EV_vzalloc vm
           in if r \<noteq> 0 then Some (- ENOMEM, vm)
              else
                do {
                  new_array \<leftarrow> grow_array VIRTIO_MEM_SBM_MB_UNUSED
                     (old_pages * unat (PAGE_SIZE k)) (new_pages * unat (PAGE_SIZE k))
                     (sbm_mb_states vm);
                  Some (0, vm\<lparr>sbm_mb_states := new_array\<rparr>)
                })"

subsection \<open>The subblock bitmap\<close>

text \<open>
  The bitmap \<^verbatim>\<open>vm->sbm.sb_states\<close> is a list of bits. The kernel's bitmap helpers
  (\<^verbatim>\<open>__bitmap_set\<close>, \<^verbatim>\<open>__bitmap_clear\<close>, \<^verbatim>\<open>test_bit\<close>,
  \<^verbatim>\<open>find_next_zero_bit\<close>, \<^verbatim>\<open>find_next_bit\<close>) are modelled on it; a range that leaves
  the allocation gives \<open>None\<close>.
\<close>

definition bitmap_fill :: "bool list \<Rightarrow> int \<Rightarrow> int \<Rightarrow> bool \<Rightarrow> bool list option" where
  "bitmap_fill m start len v =
     (if start < 0 \<or> len < 0 \<or> int (length m) < start + len then None
      else Some (take (nat start) m @ replicate (nat len) v @ drop (nat (start + len)) m))"

definition test_bit :: "int \<Rightarrow> bool list \<Rightarrow> bool option" where
  "test_bit nr m = (if nr < 0 \<or> int (length m) \<le> nr then None else Some (m ! nat nr))"

definition find_next_val :: "bool \<Rightarrow> bool list \<Rightarrow> int \<Rightarrow> int \<Rightarrow> int option" where
  "find_next_val v m sz offset =
     (if offset < 0 \<or> int (length m) < sz then None
      else case filter (\<lambda>i. m ! i = v) [nat offset..<nat sz] of
             [] \<Rightarrow> Some sz
           | i # _ \<Rightarrow> Some (int i))"

definition find_next_zero_bit :: "bool list \<Rightarrow> int \<Rightarrow> int \<Rightarrow> int option" where
  "find_next_zero_bit = find_next_val False"

definition find_next_bit :: "bool list \<Rightarrow> int \<Rightarrow> int \<Rightarrow> int option" where
  "find_next_bit = find_next_val True"

text \<open>
  \<^verbatim>\<open>virtio_mem_sbm_sb_state_bit_nr\<close> computes in \<^verbatim>\<open>unsigned long\<close> and returns \<^verbatim>\<open>int\<close>: the
  result is the low 32 bits of the 64-bit value, read as a signed number.
\<close>

definition virtio_mem_sbm_sb_state_bit_nr :: "virtio_mem \<Rightarrow> u64 \<Rightarrow> int \<Rightarrow> int" where
  "virtio_mem_sbm_sb_state_bit_nr vm mb_id sb_id =
     sint (ucast ((mb_id - sbm_first_mb_id vm) * of_nat (sbm_sbs_per_mb vm) + of_int sb_id :: u64)
            :: 32 word)"

definition virtio_mem_sbm_set_sb_plugged ::
  "virtio_mem \<Rightarrow> u64 \<Rightarrow> int \<Rightarrow> int \<Rightarrow> virtio_mem option" where
  "virtio_mem_sbm_set_sb_plugged vm mb_id sb_id count =
     do {
       m \<leftarrow> bitmap_fill (sbm_sb_states vm) (virtio_mem_sbm_sb_state_bit_nr vm mb_id sb_id) count True;
       Some (vm\<lparr>sbm_sb_states := m\<rparr>)
     }"

definition virtio_mem_sbm_set_sb_unplugged ::
  "virtio_mem \<Rightarrow> u64 \<Rightarrow> int \<Rightarrow> int \<Rightarrow> virtio_mem option" where
  "virtio_mem_sbm_set_sb_unplugged vm mb_id sb_id count =
     do {
       m \<leftarrow> bitmap_fill (sbm_sb_states vm) (virtio_mem_sbm_sb_state_bit_nr vm mb_id sb_id) count False;
       Some (vm\<lparr>sbm_sb_states := m\<rparr>)
     }"

definition virtio_mem_sbm_test_sb_plugged ::
  "virtio_mem \<Rightarrow> u64 \<Rightarrow> int \<Rightarrow> int \<Rightarrow> bool option" where
  "virtio_mem_sbm_test_sb_plugged vm mb_id sb_id count =
     (let bit = virtio_mem_sbm_sb_state_bit_nr vm mb_id sb_id in
      if count = 1 then test_bit bit (sbm_sb_states vm)
      else do {
        r \<leftarrow> find_next_zero_bit (sbm_sb_states vm) (bit + count) bit;
        Some (bit + count \<le> r)
      })"

definition virtio_mem_sbm_test_sb_unplugged ::
  "virtio_mem \<Rightarrow> u64 \<Rightarrow> int \<Rightarrow> int \<Rightarrow> bool option" where
  "virtio_mem_sbm_test_sb_unplugged vm mb_id sb_id count =
     (let bit = virtio_mem_sbm_sb_state_bit_nr vm mb_id sb_id in
      do {
        r \<leftarrow> find_next_bit (sbm_sb_states vm) (bit + count) bit;
        Some (bit + count \<le> r)
      })"

definition virtio_mem_sbm_first_unplugged_sb :: "virtio_mem \<Rightarrow> u64 \<Rightarrow> int option" where
  "virtio_mem_sbm_first_unplugged_sb vm mb_id =
     (let bit = virtio_mem_sbm_sb_state_bit_nr vm mb_id 0 in
      do {
        r \<leftarrow> find_next_zero_bit (sbm_sb_states vm) (bit + int (sbm_sbs_per_mb vm)) bit;
        Some (r - bit)
      })"

definition BITS_TO_LONGS :: "u64 \<Rightarrow> u64" where
  "BITS_TO_LONGS n = (n + 63) div 64"

definition virtio_mem_sbm_sb_states_prepare_next_mb ::
  "kconf \<Rightarrow> env \<Rightarrow> virtio_mem \<Rightarrow> (int \<times> virtio_mem) option" where
  "virtio_mem_sbm_sb_states_prepare_next_mb k e vm =
     (let old_nb_mb = sbm_next_mb_id vm - sbm_first_mb_id vm;
          old_nb_bits = old_nb_mb * of_nat (sbm_sbs_per_mb vm);
          new_nb_bits = (old_nb_mb + 1) * of_nat (sbm_sbs_per_mb vm);
          old_pages = unat (PFN_UP k (BITS_TO_LONGS old_nb_bits * 8));
          new_pages = unat (PFN_UP k (BITS_TO_LONGS new_nb_bits * 8))
      in if sbm_sb_states vm \<noteq> [] \<and> old_pages = new_pages then Some (0, vm)
         else
           let (r, vm) = ext_call e EV_vzalloc vm
           in if r \<noteq> 0 then Some (- ENOMEM, vm)
              else
                do {
                  new_bitmap \<leftarrow> grow_array False
                     (old_pages * unat (PAGE_SIZE k) * 8) (new_pages * unat (PAGE_SIZE k) * 8)
                     (sbm_sb_states vm);
                  Some (0, vm\<lparr>sbm_sb_states := new_bitmap\<rparr>)
                })"

subsection \<open>Preparing the next block\<close>

definition virtio_mem_sbm_prepare_next_mb ::
  "kconf \<Rightarrow> env \<Rightarrow> virtio_mem \<Rightarrow> u64 \<Rightarrow> (int \<times> u64 \<times> virtio_mem) option" where
  "virtio_mem_sbm_prepare_next_mb k e vm mb_id =
     (if sbm_last_usable_mb_id vm < sbm_next_mb_id vm then Some (- ENOSPC, mb_id, vm)
      else do {
        (rc, vm) \<leftarrow> virtio_mem_sbm_mb_states_prepare_next_mb k e vm;
        if rc \<noteq> 0 then Some (rc, mb_id, vm)
        else do {
          (rc, vm) \<leftarrow> virtio_mem_sbm_sb_states_prepare_next_mb k e vm;
          if rc \<noteq> 0 then Some (rc, mb_id, vm)
          else
            let vm = vm\<lparr>sbm_mb_count := (sbm_mb_count vm)(VIRTIO_MEM_SBM_MB_UNUSED :=
                         sbm_mb_count vm VIRTIO_MEM_SBM_MB_UNUSED + 1)\<rparr>;
                mb_id = sbm_next_mb_id vm;
                vm = vm\<lparr>sbm_next_mb_id := sbm_next_mb_id vm + 1\<rparr>
            in Some (0, mb_id, vm)
        }
      })"

definition virtio_mem_bbm_prepare_next_bb ::
  "kconf \<Rightarrow> env \<Rightarrow> virtio_mem \<Rightarrow> u64 \<Rightarrow> (int \<times> u64 \<times> virtio_mem) option" where
  "virtio_mem_bbm_prepare_next_bb k e vm bb_id =
     (if bbm_last_usable_bb_id vm < bbm_next_bb_id vm then Some (- ENOSPC, bb_id, vm)
      else do {
        (rc, vm) \<leftarrow> virtio_mem_bbm_bb_states_prepare_next_bb k e vm;
        if rc \<noteq> 0 then Some (rc, bb_id, vm)
        else
          let vm = vm\<lparr>bbm_bb_count := (bbm_bb_count vm)(VIRTIO_MEM_BBM_BB_UNUSED :=
                       bbm_bb_count vm VIRTIO_MEM_BBM_BB_UNUSED + 1)\<rparr>;
              bb_id = bbm_next_bb_id vm;
              vm = vm\<lparr>bbm_next_bb_id := bbm_next_bb_id vm + 1\<rparr>
          in Some (0, bb_id, vm)
      })"

text \<open>The sum of the per-state counters of each mode.\<close>

definition sbm_mb_count_sum :: "virtio_mem \<Rightarrow> u64" where
  "sbm_mb_count_sum vm =
     sbm_mb_count vm VIRTIO_MEM_SBM_MB_UNUSED + sbm_mb_count vm VIRTIO_MEM_SBM_MB_PLUGGED
     + sbm_mb_count vm VIRTIO_MEM_SBM_MB_OFFLINE + sbm_mb_count vm VIRTIO_MEM_SBM_MB_OFFLINE_PARTIAL
     + sbm_mb_count vm VIRTIO_MEM_SBM_MB_KERNEL + sbm_mb_count vm VIRTIO_MEM_SBM_MB_KERNEL_PARTIAL
     + sbm_mb_count vm VIRTIO_MEM_SBM_MB_MOVABLE + sbm_mb_count vm VIRTIO_MEM_SBM_MB_MOVABLE_PARTIAL"

definition bbm_bb_count_sum :: "virtio_mem \<Rightarrow> u64" where
  "bbm_bb_count_sum vm =
     bbm_bb_count vm VIRTIO_MEM_BBM_BB_UNUSED + bbm_bb_count vm VIRTIO_MEM_BBM_BB_PLUGGED
     + bbm_bb_count vm VIRTIO_MEM_BBM_BB_ADDED + bbm_bb_count vm VIRTIO_MEM_BBM_BB_FAKE_OFFLINE"

definition sbm_counters_sum_inv :: "virtio_mem \<Rightarrow> bool" where
  "sbm_counters_sum_inv vm \<longleftrightarrow> sbm_mb_count_sum vm = sbm_next_mb_id vm - sbm_first_mb_id vm"

definition bbm_counters_sum_inv :: "virtio_mem \<Rightarrow> bool" where
  "bbm_counters_sum_inv vm \<longleftrightarrow> bbm_bb_count_sum vm = bbm_next_bb_id vm - bbm_first_bb_id vm"

subsection \<open>Requests to the hypervisor\<close>

definition virtio_mem_convert_error_code :: "int \<Rightarrow> int" where
  "virtio_mem_convert_error_code rc =
     (if rc = - ENOSPC \<or> rc = - ETXTBSY \<or> rc = - EBUSY \<or> rc = - EAGAIN then rc
      else - ENOMEM)"

text \<open>
  The loop of \<^verbatim>\<open>virtio_mem_send_unplug_request\<close>. \<^verbatim>\<open>xa_load\<close> gives \<^verbatim>\<open>NULL\<close> for an
  address without an entry; the driver never erases an entry.
\<close>

partial_function (option) virtio_mem_send_unplug_request_loop ::
  "env \<Rightarrow> u64 \<Rightarrow> virtio_mem \<Rightarrow> u64 \<Rightarrow> u64 \<Rightarrow> (int \<times> virtio_mem) option" where
  "virtio_mem_send_unplug_request_loop e block_size vm a sz =
     (if sz = 0 then Some (0, vm)
      else case xa_membuf vm a of
             None \<Rightarrow> Some (- EINVAL, vm)
           | Some membuf \<Rightarrow>
               virtio_mem_send_unplug_request_loop e block_size
                 (snd (ext_call e (EV_mem_buf_free membuf) vm))
                 (a + block_size) (sz - block_size))"

definition virtio_mem_send_unplug_request ::
  "env \<Rightarrow> virtio_mem \<Rightarrow> u64 \<Rightarrow> u64 \<Rightarrow> bool \<Rightarrow> (int \<times> virtio_mem) option" where
  "virtio_mem_send_unplug_request e vm a sz memmap =
     do {
       (rc, vm) \<leftarrow> virtio_mem_send_unplug_request_loop e (device_block_size vm) vm a sz;
       if rc \<noteq> 0 then Some (rc, vm)
       else if \<not> memmap then Some (0, vm\<lparr>plugged_size := plugged_size vm - sz\<rparr>)
       else Some (0, vm)
     }"

text \<open>
  The loop of \<^verbatim>\<open>virtio_mem_send_plug_request\<close>: \<open>Inr\<close> when the loop ends, \<open>Inl\<close> with
  the error, the address reached and the state at the jump to \<^verbatim>\<open>err_mem_buf_alloc\<close>.
  \<^verbatim>\<open>mem_buf_alloc\<close> answers a negative number for \<^verbatim>\<open>ERR_PTR\<close>, anything else is a
  handle. \<^verbatim>\<open>xa_store\<close> can fail; the driver does not look at its result.
\<close>

partial_function (option) virtio_mem_send_plug_request_loop ::
  "env \<Rightarrow> u64 \<Rightarrow> bool \<Rightarrow> virtio_mem \<Rightarrow> u64 \<Rightarrow> u64 \<Rightarrow>
     ((int \<times> u64 \<times> virtio_mem) + virtio_mem) option" where
  "virtio_mem_send_plug_request_loop e block_size memmap vm a sz =
     (if sz = 0 then Some (Inr vm)
      else
        let (membuf, vm) = ext_call e (EV_mem_buf_alloc a) vm
        in if membuf < 0 then Some (Inl (virtio_mem_convert_error_code membuf, a, vm))
           else
             let (x, vm) = ext_call e (EV_xa_store a) vm;
                 vm = (if x = 0 then vm\<lparr>xa_membuf := (xa_membuf vm)(a \<mapsto> nat membuf)\<rparr> else vm);
                 vm = (if \<not> memmap then vm\<lparr>plugged_size := plugged_size vm + block_size\<rparr>
                       else vm)
             in virtio_mem_send_plug_request_loop e block_size memmap vm
                  (a + block_size) (sz - block_size))"

definition virtio_mem_send_plug_request ::
  "env \<Rightarrow> virtio_mem \<Rightarrow> u64 \<Rightarrow> u64 \<Rightarrow> bool \<Rightarrow> (int \<times> virtio_mem) option" where
  "virtio_mem_send_plug_request e vm a sz memmap =
     (let orig_addr = a;
          block_size = device_block_size vm;
          (gh_sgl, vm) = ext_call e EV_kzalloc vm
      in if gh_sgl \<noteq> 0 then Some (- ENOMEM, vm)
         else do {
           r \<leftarrow> virtio_mem_send_plug_request_loop e block_size memmap vm a sz;
           case r of
             Inr vm \<Rightarrow> Some (0, vm)
           | Inl (rc, a, vm) \<Rightarrow>
               if orig_addr < a
               then do {
                 (_, vm) \<leftarrow> virtio_mem_send_unplug_request e vm orig_addr (a - orig_addr) memmap;
                 Some (rc, vm)
               }
               else Some (rc, vm)
         })"

definition virtio_mem_send_unplug_all_request :: "virtio_mem \<Rightarrow> int" where
  "virtio_mem_send_unplug_all_request vm = - EINVAL"

subsection \<open>Adding memory to and removing memory from Linux\<close>

definition IS_ALIGNED :: "u64 \<Rightarrow> u64 \<Rightarrow> bool" where
  "IS_ALIGNED x a \<longleftrightarrow> x AND (a - 1) = 0"

definition pageblock_align :: "kconf \<Rightarrow> u64 \<Rightarrow> u64" where
  "pageblock_align k pfn =
     (pfn + (pageblock_nr_pages k - 1)) AND NOT (pageblock_nr_pages k - 1)"

definition virtio_mem_memory_block_vmemmap_size :: "kconf \<Rightarrow> u64" where
  "virtio_mem_memory_block_vmemmap_size k =
     (let vmemmap_size = PAGES_PER_SECTION k * sizeof_struct_page k;
          nr_pages = PFN_UP k vmemmap_size
      in pageblock_align k nr_pages * PAGE_SIZE k)"

definition virtio_mem_plug_memmap ::
  "kconf \<Rightarrow> env \<Rightarrow> virtio_mem \<Rightarrow> u64 \<Rightarrow> (int \<times> virtio_mem) option" where
  "virtio_mem_plug_memmap k e vm a =
     (if \<not> memmap_on_memory vm then Some (0, vm)
      else virtio_mem_send_plug_request e vm a (virtio_mem_memory_block_vmemmap_size k) True)"

definition virtio_mem_unplug_memmap ::
  "kconf \<Rightarrow> env \<Rightarrow> virtio_mem \<Rightarrow> u64 \<Rightarrow> virtio_mem option" where
  "virtio_mem_unplug_memmap k e vm a =
     (if \<not> memmap_on_memory vm then Some vm
      else do {
        (_, vm) \<leftarrow> virtio_mem_send_unplug_request e vm a
                     (virtio_mem_memory_block_vmemmap_size k) True;
        Some vm
      })"

definition virtio_mem_could_add_memory :: "virtio_mem \<Rightarrow> u64 \<Rightarrow> bool" where
  "virtio_mem_could_add_memory vm sz =
     (if offline_threshold vm < sz then False
      else offline_size vm + sz \<le> offline_threshold vm)"

definition virtio_mem_add_memory ::
  "kconf \<Rightarrow> env \<Rightarrow> virtio_mem \<Rightarrow> u64 \<Rightarrow> u64 \<Rightarrow> (int \<times> virtio_mem) option" where
  "virtio_mem_add_memory k e vm a sz =
     (let (named, vm) =
            (if \<not> resource_name vm
             then let (r, vm) = ext_call e EV_kstrdup_const vm
                  in if r \<noteq> 0 then (False, vm) else (True, vm\<lparr>resource_name := True\<rparr>)
             else (True, vm))
      in if \<not> named then Some (- ENOMEM, vm)
         else do {
           (rc, vm) \<leftarrow> virtio_mem_plug_memmap k e vm a;
           if rc \<noteq> 0 then Some (rc, vm)
           else
             let vm = vm\<lparr>offline_size := offline_size vm + sz\<rparr>;
                 (rc, vm) = ext_call e (EV_add_memory_driver_managed a sz) vm
             in if rc \<noteq> 0
                then do {
                  vm \<leftarrow> virtio_mem_unplug_memmap k e
                          (vm\<lparr>offline_size := offline_size vm - sz\<rparr>) a;
                  Some (rc, vm)
                }
                else Some (rc, vm)
         })"

definition virtio_mem_sbm_add_mb ::
  "kconf \<Rightarrow> env \<Rightarrow> virtio_mem \<Rightarrow> u64 \<Rightarrow> (int \<times> virtio_mem) option" where
  "virtio_mem_sbm_add_mb k e vm mb_id =
     virtio_mem_add_memory k e vm (virtio_mem_mb_id_to_phys k mb_id) (memory_block_size_bytes k)"

definition virtio_mem_bbm_add_bb ::
  "kconf \<Rightarrow> env \<Rightarrow> virtio_mem \<Rightarrow> u64 \<Rightarrow> (int \<times> virtio_mem) option" where
  "virtio_mem_bbm_add_bb k e vm bb_id =
     virtio_mem_add_memory k e vm (virtio_mem_bb_id_to_phys vm bb_id) (bbm_bb_size vm)"

definition virtio_mem_remove_memory ::
  "kconf \<Rightarrow> env \<Rightarrow> virtio_mem \<Rightarrow> u64 \<Rightarrow> u64 \<Rightarrow> (int \<times> virtio_mem) option" where
  "virtio_mem_remove_memory k e vm a sz =
     (let (rc, vm) = ext_call e (EV_remove_memory a sz) vm
      in if rc = 0
         then do {
           vm \<leftarrow> virtio_mem_unplug_memmap k e
                   (virtio_mem_retry (vm\<lparr>offline_size := offline_size vm - sz\<rparr>)) a;
           Some (rc, vm)
         }
         else Some (rc, vm))"

definition virtio_mem_sbm_remove_mb ::
  "kconf \<Rightarrow> env \<Rightarrow> virtio_mem \<Rightarrow> u64 \<Rightarrow> (int \<times> virtio_mem) option" where
  "virtio_mem_sbm_remove_mb k e vm mb_id =
     virtio_mem_remove_memory k e vm (virtio_mem_mb_id_to_phys k mb_id)
       (memory_block_size_bytes k)"

definition virtio_mem_offline_and_remove_memory ::
  "kconf \<Rightarrow> env \<Rightarrow> virtio_mem \<Rightarrow> u64 \<Rightarrow> u64 \<Rightarrow> (int \<times> virtio_mem) option" where
  "virtio_mem_offline_and_remove_memory k e vm a sz =
     (let (rc, vm) = ext_call e (EV_offline_and_remove_memory a sz) vm
      in if rc = 0
         then do {
           vm \<leftarrow> virtio_mem_unplug_memmap k e
                   (vm\<lparr>offline_size := offline_size vm - sz\<rparr>) a;
           Some (0, virtio_mem_retry vm)
         }
         else Some (if rc = - ENOMEM then - ENOMEM else - EBUSY, vm))"

definition virtio_mem_sbm_offline_and_remove_mb ::
  "kconf \<Rightarrow> env \<Rightarrow> virtio_mem \<Rightarrow> u64 \<Rightarrow> (int \<times> virtio_mem) option" where
  "virtio_mem_sbm_offline_and_remove_mb k e vm mb_id =
     virtio_mem_offline_and_remove_memory k e vm (virtio_mem_mb_id_to_phys k mb_id)
       (memory_block_size_bytes k)"

definition virtio_mem_sbm_try_remove_unplugged_mb ::
  "kconf \<Rightarrow> env \<Rightarrow> virtio_mem \<Rightarrow> u64 \<Rightarrow> (int \<times> virtio_mem) option" where
  "virtio_mem_sbm_try_remove_unplugged_mb k e vm mb_id =
     do {
       u \<leftarrow> virtio_mem_sbm_test_sb_unplugged vm mb_id 0 (int (sbm_sbs_per_mb vm));
       if \<not> u then Some (0, vm)
       else do {
         (rc, vm) \<leftarrow> virtio_mem_sbm_offline_and_remove_mb k e vm mb_id;
         if rc = 0
         then do {
           vm \<leftarrow> virtio_mem_sbm_set_mb_state vm mb_id VIRTIO_MEM_SBM_MB_UNUSED;
           Some (rc, vm)
         }
         else Some (rc, vm)
       }
     }"

definition virtio_mem_bbm_offline_and_remove_bb ::
  "kconf \<Rightarrow> env \<Rightarrow> virtio_mem \<Rightarrow> u64 \<Rightarrow> (int \<times> virtio_mem) option" where
  "virtio_mem_bbm_offline_and_remove_bb k e vm bb_id =
     virtio_mem_offline_and_remove_memory k e vm (virtio_mem_bb_id_to_phys vm bb_id)
       (bbm_bb_size vm)"

definition virtio_mem_overlaps_range :: "virtio_mem \<Rightarrow> u64 \<Rightarrow> u64 \<Rightarrow> bool" where
  "virtio_mem_overlaps_range vm start sz \<longleftrightarrow>
     start < addr vm + region_size vm \<and> addr vm < start + sz"

definition virtio_mem_contains_range :: "virtio_mem \<Rightarrow> u64 \<Rightarrow> u64 \<Rightarrow> bool" where
  "virtio_mem_contains_range vm start sz \<longleftrightarrow>
     addr vm \<le> start \<and> start + sz \<le> addr vm + region_size vm"

subsection \<open>Fake-offline pages\<close>

text \<open>
  The loops over single pages run \<open>nr_pages\<close> times; they are recursions on that
  number. \<^verbatim>\<open>adjust_managed_page_count\<close> changes the counter \<open>managed_pages\<close>.
\<close>

fun virtio_mem_set_fake_offline :: "virtio_mem \<Rightarrow> u64 \<Rightarrow> nat \<Rightarrow> bool \<Rightarrow> virtio_mem" where
  "virtio_mem_set_fake_offline vm pfn 0 onlined = vm"
| "virtio_mem_set_fake_offline vm pfn (Suc n) onlined =
     (let vm = vm\<lparr>PageOffline := (PageOffline vm)(pfn := True)\<rparr>;
          vm = (if \<not> onlined
                then vm\<lparr>PageDirty := (PageDirty vm)(pfn := True),
                        PageReserved := (PageReserved vm)(pfn := False)\<rparr>
                else vm)
      in virtio_mem_set_fake_offline vm (pfn + 1) n onlined)"

fun virtio_mem_clear_fake_offline :: "virtio_mem \<Rightarrow> u64 \<Rightarrow> nat \<Rightarrow> bool \<Rightarrow> virtio_mem" where
  "virtio_mem_clear_fake_offline vm pfn 0 onlined = vm"
| "virtio_mem_clear_fake_offline vm pfn (Suc n) onlined =
     (let vm = vm\<lparr>PageOffline := (PageOffline vm)(pfn := False)\<rparr>;
          vm = (if \<not> onlined then vm\<lparr>PageDirty := (PageDirty vm)(pfn := False)\<rparr> else vm)
      in virtio_mem_clear_fake_offline vm (pfn + 1) n onlined)"

text \<open>
  \<^verbatim>\<open>virtio_mem_fake_online\<close>: the largest order, from \<^verbatim>\<open>MAX_ORDER\<close> down, at which
  \<open>pfn | nr_pages\<close> is aligned, then one step per block of that order.
\<close>

fun fake_online_order :: "u64 \<Rightarrow> nat \<Rightarrow> nat" where
  "fake_online_order x 0 = 0"
| "fake_online_order x (Suc order) =
     (if \<not> IS_ALIGNED x (push_bit (Suc order) 1) then fake_online_order x order
      else Suc order)"

fun virtio_mem_fake_online_loop ::
  "env \<Rightarrow> nat \<Rightarrow> u64 \<Rightarrow> nat \<Rightarrow> virtio_mem \<Rightarrow> u64 \<Rightarrow> virtio_mem" where
  "virtio_mem_fake_online_loop e order pfn 0 vm i = vm"
| "virtio_mem_fake_online_loop e order pfn (Suc n) vm i =
     (let vm =
        (if PageDirty vm (pfn + i)
         then
           let vm = virtio_mem_clear_fake_offline vm (pfn + i) (2 ^ order) False
           in snd (ext_call e (EV_generic_online_page (pfn + i) order) vm)
         else
           let vm = virtio_mem_clear_fake_offline vm (pfn + i) (2 ^ order) True;
               vm = snd (ext_call e (EV_free_contig_range (pfn + i) (push_bit order 1)) vm)
           in vm\<lparr>managed_pages := managed_pages vm + 2 ^ order\<rparr>)
      in virtio_mem_fake_online_loop e order pfn n vm (i + push_bit order 1))"

definition virtio_mem_fake_online ::
  "kconf \<Rightarrow> env \<Rightarrow> virtio_mem \<Rightarrow> u64 \<Rightarrow> u64 \<Rightarrow> virtio_mem" where
  "virtio_mem_fake_online k e vm pfn nr_pages =
     (let order = fake_online_order (pfn OR nr_pages) (MAX_ORDER k)
      in virtio_mem_fake_online_loop e order pfn (unat nr_pages div 2 ^ order) vm 0)"

text \<open>
  \<^verbatim>\<open>virtio_mem_fake_offline\<close>: the loop counts \<open>retry_count\<close> from 0 while it is below 5.
\<close>

function virtio_mem_fake_offline_loop ::
  "env \<Rightarrow> virtio_mem \<Rightarrow> u64 \<Rightarrow> u64 \<Rightarrow> bool \<Rightarrow> nat \<Rightarrow> int \<times> virtio_mem" where
  "virtio_mem_fake_offline_loop e vm pfn nr_pages is_movable retry_count =
     (if retry_count < 5 then
        if config_changed vm then (- EAGAIN, vm)
        else
          let (rc, vm) = ext_call e (EV_alloc_contig_range pfn (pfn + nr_pages)) vm
          in if rc = - ENOMEM then (rc, vm)
             else if rc \<noteq> 0 \<and> \<not> is_movable then (- EBUSY, vm)
             else if rc \<noteq> 0
             then virtio_mem_fake_offline_loop e vm pfn nr_pages is_movable (retry_count + 1)
             else
               let vm = virtio_mem_set_fake_offline vm pfn (unat nr_pages) True
               in (0, vm\<lparr>managed_pages := managed_pages vm - int (unat nr_pages)\<rparr>)
      else (- EBUSY, vm))"
  by pat_completeness auto
termination
  by (relation "measure (\<lambda>(e, vm, pfn, nr_pages, is_movable, retry_count). 5 - retry_count)") auto

definition virtio_mem_fake_offline ::
  "env \<Rightarrow> virtio_mem \<Rightarrow> u64 \<Rightarrow> u64 \<Rightarrow> int \<times> virtio_mem" where
  "virtio_mem_fake_offline e vm pfn nr_pages =
     (let (m, vm) = ext_call e (EV_is_zone_movable_page pfn) vm
      in virtio_mem_fake_offline_loop e vm pfn nr_pages (m \<noteq> 0) 0)"

fun page_ref_dec_loop :: "env \<Rightarrow> virtio_mem \<Rightarrow> u64 \<Rightarrow> nat \<Rightarrow> virtio_mem" where
  "page_ref_dec_loop e vm pfn 0 = vm"
| "page_ref_dec_loop e vm pfn (Suc n) =
     (let vm = vm\<lparr>page_ref := (page_ref vm)(pfn := page_ref vm pfn - 1)\<rparr>;
          vm = (if page_ref vm pfn \<noteq> 0 then snd (ext_call e (EV_dump_page pfn) vm) else vm)
      in page_ref_dec_loop e vm (pfn + 1) n)"

definition virtio_mem_fake_offline_going_offline ::
  "env \<Rightarrow> virtio_mem \<Rightarrow> u64 \<Rightarrow> u64 \<Rightarrow> virtio_mem" where
  "virtio_mem_fake_offline_going_offline e vm pfn nr_pages =
     page_ref_dec_loop e (vm\<lparr>managed_pages := managed_pages vm + int (unat nr_pages)\<rparr>)
       pfn (unat nr_pages)"

fun page_ref_inc_loop :: "virtio_mem \<Rightarrow> u64 \<Rightarrow> nat \<Rightarrow> virtio_mem" where
  "page_ref_inc_loop vm pfn 0 = vm"
| "page_ref_inc_loop vm pfn (Suc n) =
     page_ref_inc_loop (vm\<lparr>page_ref := (page_ref vm)(pfn := page_ref vm pfn + 1)\<rparr>) (pfn + 1) n"

definition virtio_mem_fake_offline_cancel_offline ::
  "virtio_mem \<Rightarrow> u64 \<Rightarrow> u64 \<Rightarrow> virtio_mem" where
  "virtio_mem_fake_offline_cancel_offline vm pfn nr_pages =
     page_ref_inc_loop (vm\<lparr>managed_pages := managed_pages vm - int (unat nr_pages)\<rparr>)
       pfn (unat nr_pages)"

subsection \<open>The memory notifier\<close>

datatype memory_action =
    MEM_GOING_OFFLINE
  | MEM_GOING_ONLINE
  | MEM_OFFLINE
  | MEM_ONLINE
  | MEM_CANCEL_OFFLINE
  | MEM_CANCEL_ONLINE
  | MEM_OTHER

definition virtio_mem_sbm_notify_going_online ::
  "kconf \<Rightarrow> virtio_mem \<Rightarrow> u64 \<Rightarrow> int option" where
  "virtio_mem_sbm_notify_going_online k vm mb_id =
     do {
       s \<leftarrow> virtio_mem_sbm_get_mb_state vm mb_id;
       case s of
         VIRTIO_MEM_SBM_MB_OFFLINE_PARTIAL \<Rightarrow> Some (NOTIFY_OK k)
       | VIRTIO_MEM_SBM_MB_OFFLINE \<Rightarrow> Some (NOTIFY_OK k)
       | _ \<Rightarrow> Some (NOTIFY_BAD k)
     }"

definition virtio_mem_sbm_notify_offline :: "virtio_mem \<Rightarrow> u64 \<Rightarrow> virtio_mem option" where
  "virtio_mem_sbm_notify_offline vm mb_id =
     do {
       s \<leftarrow> virtio_mem_sbm_get_mb_state vm mb_id;
       case s of
         VIRTIO_MEM_SBM_MB_KERNEL_PARTIAL \<Rightarrow>
           virtio_mem_sbm_set_mb_state vm mb_id VIRTIO_MEM_SBM_MB_OFFLINE_PARTIAL
       | VIRTIO_MEM_SBM_MB_MOVABLE_PARTIAL \<Rightarrow>
           virtio_mem_sbm_set_mb_state vm mb_id VIRTIO_MEM_SBM_MB_OFFLINE_PARTIAL
       | VIRTIO_MEM_SBM_MB_KERNEL \<Rightarrow>
           virtio_mem_sbm_set_mb_state vm mb_id VIRTIO_MEM_SBM_MB_OFFLINE
       | VIRTIO_MEM_SBM_MB_MOVABLE \<Rightarrow>
           virtio_mem_sbm_set_mb_state vm mb_id VIRTIO_MEM_SBM_MB_OFFLINE
       | _ \<Rightarrow> None
     }"

definition virtio_mem_sbm_notify_online ::
  "env \<Rightarrow> virtio_mem \<Rightarrow> u64 \<Rightarrow> u64 \<Rightarrow> virtio_mem option" where
  "virtio_mem_sbm_notify_online e vm mb_id start_pfn =
     (let (m, vm) = ext_call e (EV_is_zone_movable_page start_pfn) vm;
          is_movable = (m \<noteq> 0)
      in do {
        s \<leftarrow> virtio_mem_sbm_get_mb_state vm mb_id;
        new_state \<leftarrow>
          (case s of
             VIRTIO_MEM_SBM_MB_OFFLINE_PARTIAL \<Rightarrow>
               Some (if is_movable then VIRTIO_MEM_SBM_MB_MOVABLE_PARTIAL
                     else VIRTIO_MEM_SBM_MB_KERNEL_PARTIAL)
           | VIRTIO_MEM_SBM_MB_OFFLINE \<Rightarrow>
               Some (if is_movable then VIRTIO_MEM_SBM_MB_MOVABLE
                     else VIRTIO_MEM_SBM_MB_KERNEL)
           | _ \<Rightarrow> None);
        virtio_mem_sbm_set_mb_state vm mb_id new_state
      })"

fun virtio_mem_sbm_notify_going_offline_loop ::
  "kconf \<Rightarrow> env \<Rightarrow> u64 \<Rightarrow> virtio_mem \<Rightarrow> int \<Rightarrow> nat \<Rightarrow> virtio_mem option" where
  "virtio_mem_sbm_notify_going_offline_loop k e mb_id vm sb_id 0 = Some vm"
| "virtio_mem_sbm_notify_going_offline_loop k e mb_id vm sb_id (Suc n) =
     do {
       p \<leftarrow> virtio_mem_sbm_test_sb_plugged vm mb_id sb_id 1;
       virtio_mem_sbm_notify_going_offline_loop k e mb_id
         (if p then vm
          else virtio_mem_fake_offline_going_offline e vm
                 (PFN_DOWN k (virtio_mem_sb_id_to_phys k vm mb_id sb_id))
                 (PFN_DOWN k (sbm_sb_size vm)))
         (sb_id + 1) n
     }"

definition virtio_mem_sbm_notify_going_offline ::
  "kconf \<Rightarrow> env \<Rightarrow> virtio_mem \<Rightarrow> u64 \<Rightarrow> virtio_mem option" where
  "virtio_mem_sbm_notify_going_offline k e vm mb_id =
     virtio_mem_sbm_notify_going_offline_loop k e mb_id vm 0 (sbm_sbs_per_mb vm)"

fun virtio_mem_sbm_notify_cancel_offline_loop ::
  "kconf \<Rightarrow> u64 \<Rightarrow> virtio_mem \<Rightarrow> int \<Rightarrow> nat \<Rightarrow> virtio_mem option" where
  "virtio_mem_sbm_notify_cancel_offline_loop k mb_id vm sb_id 0 = Some vm"
| "virtio_mem_sbm_notify_cancel_offline_loop k mb_id vm sb_id (Suc n) =
     do {
       p \<leftarrow> virtio_mem_sbm_test_sb_plugged vm mb_id sb_id 1;
       virtio_mem_sbm_notify_cancel_offline_loop k mb_id
         (if p then vm
          else virtio_mem_fake_offline_cancel_offline vm
                 (PFN_DOWN k (virtio_mem_sb_id_to_phys k vm mb_id sb_id))
                 (PFN_DOWN k (sbm_sb_size vm)))
         (sb_id + 1) n
     }"

definition virtio_mem_sbm_notify_cancel_offline ::
  "kconf \<Rightarrow> virtio_mem \<Rightarrow> u64 \<Rightarrow> virtio_mem option" where
  "virtio_mem_sbm_notify_cancel_offline k vm mb_id =
     virtio_mem_sbm_notify_cancel_offline_loop k mb_id vm 0 (sbm_sbs_per_mb vm)"

definition virtio_mem_bbm_notify_going_offline ::
  "env \<Rightarrow> virtio_mem \<Rightarrow> u64 \<Rightarrow> u64 \<Rightarrow> u64 \<Rightarrow> virtio_mem option" where
  "virtio_mem_bbm_notify_going_offline e vm bb_id pfn nr_pages =
     do {
       s \<leftarrow> virtio_mem_bbm_get_bb_state vm bb_id;
       if s \<noteq> VIRTIO_MEM_BBM_BB_FAKE_OFFLINE then Some vm
       else Some (virtio_mem_fake_offline_going_offline e vm pfn nr_pages)
     }"

definition virtio_mem_bbm_notify_cancel_offline ::
  "virtio_mem \<Rightarrow> u64 \<Rightarrow> u64 \<Rightarrow> u64 \<Rightarrow> virtio_mem option" where
  "virtio_mem_bbm_notify_cancel_offline vm bb_id pfn nr_pages =
     do {
       s \<leftarrow> virtio_mem_bbm_get_bb_state vm bb_id;
       if s \<noteq> VIRTIO_MEM_BBM_BB_FAKE_OFFLINE then Some vm
       else Some (virtio_mem_fake_offline_cancel_offline vm pfn nr_pages)
     }"

text \<open>
  \<^verbatim>\<open>virtio_mem_memory_notifier_cb\<close> with the fields \<^verbatim>\<open>start_pfn\<close> and \<^verbatim>\<open>nr_pages\<close> of
  its argument. The hotplug mutex it takes and releases is not part of the state.
\<close>

definition virtio_mem_memory_notifier_cb ::
  "kconf \<Rightarrow> env \<Rightarrow> virtio_mem \<Rightarrow> memory_action \<Rightarrow> u64 \<Rightarrow> u64 \<Rightarrow> (int \<times> virtio_mem) option" where
  "virtio_mem_memory_notifier_cb k e vm action start_pfn nr_pages =
     (let start = start_pfn * PAGE_SIZE k;
          sz = nr_pages * PAGE_SIZE k;
          rc = NOTIFY_OK k
      in if \<not> virtio_mem_overlaps_range vm start sz then Some (NOTIFY_DONE k, vm)
         else
           let expected_size = (if memmap_on_memory vm
                                then memory_block_size_bytes k - sbm_sb_size vm
                                else memory_block_size_bytes k);
               expected_offset = (if memmap_on_memory vm then sbm_sb_size vm else 0);
               id = (if in_sbm vm then virtio_mem_phys_to_mb_id k start
                     else virtio_mem_phys_to_bb_id vm start)
           in if in_sbm vm \<and> (sz \<noteq> expected_size \<or>
                  \<not> IS_ALIGNED (start - expected_offset) (memory_block_size_bytes k))
              then Some (NOTIFY_BAD k, vm)
              else if \<not> in_sbm vm \<and> id \<noteq> virtio_mem_phys_to_bb_id vm (start + sz - 1)
              then Some (NOTIFY_BAD k, vm)
              else
                case action of
                  MEM_GOING_OFFLINE \<Rightarrow>
                    if removing vm then Some (notifier_from_errno k (- EBUSY), vm)
                    else do {
                      vm \<leftarrow> (if in_sbm vm
                             then virtio_mem_sbm_notify_going_offline k e
                                    (vm\<lparr>hotplug_active := True\<rparr>) id
                             else virtio_mem_bbm_notify_going_offline e
                                    (vm\<lparr>hotplug_active := True\<rparr>) id start_pfn nr_pages);
                      Some (rc, vm)
                    }
                | MEM_GOING_ONLINE \<Rightarrow>
                    if removing vm then Some (notifier_from_errno k (- EBUSY), vm)
                    else
                      let vm = vm\<lparr>hotplug_active := True\<rparr>
                      in if in_sbm vm
                         then do {
                           rc \<leftarrow> virtio_mem_sbm_notify_going_online k vm id;
                           Some (rc, vm)
                         }
                         else Some (rc, vm)
                | MEM_OFFLINE \<Rightarrow>
                    do {
                      vm \<leftarrow> (if in_sbm vm then virtio_mem_sbm_notify_offline vm id else Some vm);
                      let vm = vm\<lparr>offline_size := offline_size vm + sz\<rparr>;
                          vm = (if \<not> unplug_online k then virtio_mem_retry vm else vm)
                      in Some (rc, vm\<lparr>hotplug_active := False\<rparr>)
                    }
                | MEM_ONLINE \<Rightarrow>
                    do {
                      vm \<leftarrow> (if in_sbm vm then virtio_mem_sbm_notify_online e vm id start_pfn
                             else Some vm);
                      let vm = vm\<lparr>offline_size := offline_size vm - sz\<rparr>;
                          vm = (if \<not> wq_active vm \<and>
                                   virtio_mem_could_add_memory vm (offline_threshold vm div 2)
                                then virtio_mem_retry vm else vm)
                      in Some (rc, vm\<lparr>hotplug_active := False\<rparr>)
                    }
                | MEM_CANCEL_OFFLINE \<Rightarrow>
                    if \<not> hotplug_active vm then Some (rc, vm)
                    else do {
                      vm \<leftarrow> (if in_sbm vm then virtio_mem_sbm_notify_cancel_offline k vm id
                             else virtio_mem_bbm_notify_cancel_offline vm id start_pfn nr_pages);
                      Some (rc, vm\<lparr>hotplug_active := False\<rparr>)
                    }
                | MEM_CANCEL_ONLINE \<Rightarrow>
                    if \<not> hotplug_active vm then Some (rc, vm)
                    else Some (rc, vm\<lparr>hotplug_active := False\<rparr>)
                | MEM_OTHER \<Rightarrow> Some (rc, vm))"

subsection \<open>Iterating over the blocks in a state\<close>

text \<open>
  The macros \<^verbatim>\<open>virtio_mem_sbm_for_each_mb\<close>, \<^verbatim>\<open>virtio_mem_sbm_for_each_mb_rev\<close>,
  \<^verbatim>\<open>virtio_mem_bbm_for_each_bb\<close> and \<^verbatim>\<open>virtio_mem_bbm_for_each_bb_rev\<close>. The loop body
  gets the block id, the local variables \<open>l\<close> of the enclosing function and the device;
  it answers \<open>Inr\<close> to go on with the next id and \<open>Inl\<close> to leave the enclosing function
  (\<^verbatim>\<open>return\<close>, \<^verbatim>\<open>goto\<close>). The loop condition reads the bound and the counter of the
  state again before every step, as the macro does. The caller passes the first id.
\<close>

partial_function (option) virtio_mem_sbm_for_each_mb ::
  "(u64 \<Rightarrow> 'l \<Rightarrow> virtio_mem \<Rightarrow> ('r + 'l \<times> virtio_mem) option) \<Rightarrow>
     virtio_mem_sbm_mb_state \<Rightarrow> u64 \<Rightarrow> 'l \<Rightarrow> virtio_mem \<Rightarrow> ('r + 'l \<times> virtio_mem) option" where
  "virtio_mem_sbm_for_each_mb body st mb_id l vm =
     (if mb_id < sbm_next_mb_id vm \<and> sbm_mb_count vm st \<noteq> 0
      then do {
        s \<leftarrow> virtio_mem_sbm_get_mb_state vm mb_id;
        r \<leftarrow> (if s = st then body mb_id l vm else Some (Inr (l, vm)));
        case r of
          Inl x \<Rightarrow> Some (Inl x)
        | Inr (l, vm) \<Rightarrow> virtio_mem_sbm_for_each_mb body st (mb_id + 1) l vm
      }
      else Some (Inr (l, vm)))"

partial_function (option) virtio_mem_sbm_for_each_mb_rev ::
  "(u64 \<Rightarrow> 'l \<Rightarrow> virtio_mem \<Rightarrow> ('r + 'l \<times> virtio_mem) option) \<Rightarrow>
     virtio_mem_sbm_mb_state \<Rightarrow> u64 \<Rightarrow> 'l \<Rightarrow> virtio_mem \<Rightarrow> ('r + 'l \<times> virtio_mem) option" where
  "virtio_mem_sbm_for_each_mb_rev body st mb_id l vm =
     (if sbm_first_mb_id vm \<le> mb_id \<and> sbm_mb_count vm st \<noteq> 0
      then do {
        s \<leftarrow> virtio_mem_sbm_get_mb_state vm mb_id;
        r \<leftarrow> (if s = st then body mb_id l vm else Some (Inr (l, vm)));
        case r of
          Inl x \<Rightarrow> Some (Inl x)
        | Inr (l, vm) \<Rightarrow> virtio_mem_sbm_for_each_mb_rev body st (mb_id - 1) l vm
      }
      else Some (Inr (l, vm)))"

partial_function (option) virtio_mem_bbm_for_each_bb ::
  "(u64 \<Rightarrow> 'l \<Rightarrow> virtio_mem \<Rightarrow> ('r + 'l \<times> virtio_mem) option) \<Rightarrow>
     virtio_mem_bbm_bb_state \<Rightarrow> u64 \<Rightarrow> 'l \<Rightarrow> virtio_mem \<Rightarrow> ('r + 'l \<times> virtio_mem) option" where
  "virtio_mem_bbm_for_each_bb body st bb_id l vm =
     (if bb_id < bbm_next_bb_id vm \<and> bbm_bb_count vm st \<noteq> 0
      then do {
        s \<leftarrow> virtio_mem_bbm_get_bb_state vm bb_id;
        r \<leftarrow> (if s = st then body bb_id l vm else Some (Inr (l, vm)));
        case r of
          Inl x \<Rightarrow> Some (Inl x)
        | Inr (l, vm) \<Rightarrow> virtio_mem_bbm_for_each_bb body st (bb_id + 1) l vm
      }
      else Some (Inr (l, vm)))"

partial_function (option) virtio_mem_bbm_for_each_bb_rev ::
  "(u64 \<Rightarrow> 'l \<Rightarrow> virtio_mem \<Rightarrow> ('r + 'l \<times> virtio_mem) option) \<Rightarrow>
     virtio_mem_bbm_bb_state \<Rightarrow> u64 \<Rightarrow> 'l \<Rightarrow> virtio_mem \<Rightarrow> ('r + 'l \<times> virtio_mem) option" where
  "virtio_mem_bbm_for_each_bb_rev body st bb_id l vm =
     (if bbm_first_bb_id vm \<le> bb_id \<and> bbm_bb_count vm st \<noteq> 0
      then do {
        s \<leftarrow> virtio_mem_bbm_get_bb_state vm bb_id;
        r \<leftarrow> (if s = st then body bb_id l vm else Some (Inr (l, vm)));
        case r of
          Inl x \<Rightarrow> Some (Inl x)
        | Inr (l, vm) \<Rightarrow> virtio_mem_bbm_for_each_bb_rev body st (bb_id - 1) l vm
      }
      else Some (Inr (l, vm)))"

text \<open>
  A \<^verbatim>\<open>for\<close> loop over an array of states, \<open>i\<close> being the index of the first one; the
  step gets the index and the state.
\<close>

fun for_each_state ::
  "(nat \<Rightarrow> 'st \<Rightarrow> 'l \<Rightarrow> virtio_mem \<Rightarrow> ('r + 'l \<times> virtio_mem) option) \<Rightarrow>
     nat \<Rightarrow> 'st list \<Rightarrow> 'l \<Rightarrow> virtio_mem \<Rightarrow> ('r + 'l \<times> virtio_mem) option" where
  "for_each_state step i [] l vm = Some (Inr (l, vm))"
| "for_each_state step i (st # sts) l vm =
     do {
       r \<leftarrow> step i st l vm;
       case r of
         Inl x \<Rightarrow> Some (Inl x)
       | Inr (l, vm) \<Rightarrow> for_each_state step (i + 1) sts l vm
     }"

subsection \<open>Plugging and unplugging subblocks and big blocks\<close>

text \<open>
  The conversion of a \<^verbatim>\<open>uint64_t\<close> to \<^verbatim>\<open>int\<close> (in \<^verbatim>\<open>min_t(int, ...)\<close>) keeps the low 32
  bits. An \<^verbatim>\<open>int\<close> that meets a \<^verbatim>\<open>uint64_t\<close> in arithmetic is sign-extended
  (\<open>of_int\<close>). The number of subblocks of a memory block, \<open>sbm_sbs_per_mb\<close>, is a natural
  number (the quotient of the memory block size and the subblock size, far below
  \<open>2^31\<close>).
\<close>

definition int_of_u64 :: "u64 \<Rightarrow> int" where
  "int_of_u64 x = sint (ucast x :: u32)"

definition virtio_mem_sbm_plug_sb ::
  "kconf \<Rightarrow> env \<Rightarrow> virtio_mem \<Rightarrow> u64 \<Rightarrow> int \<Rightarrow> int \<Rightarrow> (int \<times> virtio_mem) option" where
  "virtio_mem_sbm_plug_sb k e vm mb_id sb_id count =
     (let a = virtio_mem_sb_id_to_phys k vm mb_id sb_id;
          sz = of_int count * sbm_sb_size vm
      in do {
        (rc, vm) \<leftarrow> virtio_mem_send_plug_request e vm a sz False;
        if rc = 0
        then do {
          vm \<leftarrow> virtio_mem_sbm_set_sb_plugged vm mb_id sb_id count;
          Some (rc, vm)
        }
        else Some (rc, vm)
      })"

definition virtio_mem_sbm_unplug_sb ::
  "kconf \<Rightarrow> env \<Rightarrow> virtio_mem \<Rightarrow> u64 \<Rightarrow> int \<Rightarrow> int \<Rightarrow> (int \<times> virtio_mem) option" where
  "virtio_mem_sbm_unplug_sb k e vm mb_id sb_id count =
     (let a = virtio_mem_sb_id_to_phys k vm mb_id sb_id;
          sz = of_int count * sbm_sb_size vm
      in do {
        (rc, vm) \<leftarrow> virtio_mem_send_unplug_request e vm a sz False;
        if rc = 0
        then do {
          vm \<leftarrow> virtio_mem_sbm_set_sb_unplugged vm mb_id sb_id count;
          Some (rc, vm)
        }
        else Some (rc, vm)
      })"

definition virtio_mem_bbm_unplug_bb ::
  "env \<Rightarrow> virtio_mem \<Rightarrow> u64 \<Rightarrow> (int \<times> virtio_mem) option" where
  "virtio_mem_bbm_unplug_bb e vm bb_id =
     virtio_mem_send_unplug_request e vm (virtio_mem_bb_id_to_phys vm bb_id) (bbm_bb_size vm) False"

definition virtio_mem_bbm_plug_bb ::
  "env \<Rightarrow> virtio_mem \<Rightarrow> u64 \<Rightarrow> (int \<times> virtio_mem) option" where
  "virtio_mem_bbm_plug_bb e vm bb_id =
     virtio_mem_send_plug_request e vm (virtio_mem_bb_id_to_phys vm bb_id) (bbm_bb_size vm) False"

text \<open>
  \<^verbatim>\<open>virtio_mem_sbm_unplug_any_sb_raw\<close>. The first inner loop steps \<open>sb_id\<close> down over
  unplugged subblocks, the second one extends the candidate over plugged subblocks below
  it.
\<close>

partial_function (option) sbm_skip_unplugged_sb :: "virtio_mem \<Rightarrow> u64 \<Rightarrow> int \<Rightarrow> int option" where
  "sbm_skip_unplugged_sb vm mb_id sb_id =
     (if 0 \<le> sb_id
      then do {
        u \<leftarrow> virtio_mem_sbm_test_sb_unplugged vm mb_id sb_id 1;
        if u then sbm_skip_unplugged_sb vm mb_id (sb_id - 1) else Some sb_id
      }
      else Some sb_id)"

partial_function (option) sbm_extend_plugged_down ::
  "virtio_mem \<Rightarrow> u64 \<Rightarrow> u64 \<Rightarrow> int \<Rightarrow> int \<Rightarrow> (int \<times> int) option" where
  "sbm_extend_plugged_down vm mb_id nb_sb count sb_id =
     (if of_int count < nb_sb \<and> 0 < sb_id
      then do {
        p \<leftarrow> virtio_mem_sbm_test_sb_plugged vm mb_id (sb_id - 1) 1;
        if p then sbm_extend_plugged_down vm mb_id nb_sb (count + 1) (sb_id - 1)
        else Some (count, sb_id)
      }
      else Some (count, sb_id))"

partial_function (option) virtio_mem_sbm_unplug_any_sb_raw_loop ::
  "kconf \<Rightarrow> env \<Rightarrow> u64 \<Rightarrow> u64 \<Rightarrow> int \<Rightarrow> virtio_mem \<Rightarrow> (int \<times> u64 \<times> virtio_mem) option" where
  "virtio_mem_sbm_unplug_any_sb_raw_loop k e mb_id nb_sb sb_id vm =
     (if nb_sb \<noteq> 0
      then do {
        sb_id \<leftarrow> sbm_skip_unplugged_sb vm mb_id sb_id;
        if sb_id < 0 then Some (0, nb_sb, vm)
        else do {
          (count, sb_id) \<leftarrow> sbm_extend_plugged_down vm mb_id nb_sb 1 sb_id;
          (rc, vm) \<leftarrow> virtio_mem_sbm_unplug_sb k e vm mb_id sb_id count;
          if rc \<noteq> 0 then Some (rc, nb_sb, vm)
          else virtio_mem_sbm_unplug_any_sb_raw_loop k e mb_id (nb_sb - of_int count)
                 (sb_id - 1) vm
        }
      }
      else Some (0, nb_sb, vm))"

definition virtio_mem_sbm_unplug_any_sb_raw ::
  "kconf \<Rightarrow> env \<Rightarrow> virtio_mem \<Rightarrow> u64 \<Rightarrow> u64 \<Rightarrow> (int \<times> u64 \<times> virtio_mem) option" where
  "virtio_mem_sbm_unplug_any_sb_raw k e vm mb_id nb_sb =
     virtio_mem_sbm_unplug_any_sb_raw_loop k e mb_id nb_sb (int (sbm_sbs_per_mb vm) - 1) vm"

definition virtio_mem_sbm_unplug_mb ::
  "kconf \<Rightarrow> env \<Rightarrow> virtio_mem \<Rightarrow> u64 \<Rightarrow> (int \<times> virtio_mem) option" where
  "virtio_mem_sbm_unplug_mb k e vm mb_id =
     do {
       (rc, _, vm) \<leftarrow> virtio_mem_sbm_unplug_any_sb_raw k e vm mb_id (of_nat (sbm_sbs_per_mb vm));
       Some (rc, vm)
     }"

definition virtio_mem_sbm_plug_and_add_mb ::
  "kconf \<Rightarrow> env \<Rightarrow> virtio_mem \<Rightarrow> u64 \<Rightarrow> u64 \<Rightarrow> (int \<times> u64 \<times> virtio_mem) option" where
  "virtio_mem_sbm_plug_and_add_mb k e vm mb_id nb_sb =
     (let count = min (int_of_u64 nb_sb) (int (sbm_sbs_per_mb vm))
      in if count = 0 then Some (- EINVAL, nb_sb, vm)
         else do {
           (rc, vm) \<leftarrow> virtio_mem_sbm_plug_sb k e vm mb_id 0 count;
           if rc \<noteq> 0 then Some (rc, nb_sb, vm)
           else do {
             vm \<leftarrow> virtio_mem_sbm_set_mb_state vm mb_id
                     (if count = int (sbm_sbs_per_mb vm)
                      then VIRTIO_MEM_SBM_MB_OFFLINE
                      else VIRTIO_MEM_SBM_MB_OFFLINE_PARTIAL);
             (rc, vm) \<leftarrow> virtio_mem_sbm_add_mb k e vm mb_id;
             if rc \<noteq> 0
             then do {
               (urc, vm) \<leftarrow> virtio_mem_sbm_unplug_sb k e vm mb_id 0 count;
               vm \<leftarrow> virtio_mem_sbm_set_mb_state vm mb_id
                       (if urc \<noteq> 0 then VIRTIO_MEM_SBM_MB_PLUGGED
                        else VIRTIO_MEM_SBM_MB_UNUSED);
               Some (rc, nb_sb, vm)
             }
             else Some (0, nb_sb - of_int count, vm)
           }
         })"

text \<open>
  \<^verbatim>\<open>old_state - 1\<close> in \<^verbatim>\<open>virtio_mem_sbm_plug_any_sb\<close>: the enumeration lists every
  partially plugged state right after its fully plugged one, in the order of the
  datatype above; there is no state below \<^verbatim>\<open>UNUSED\<close>.
\<close>

fun mb_state_minus_one :: "virtio_mem_sbm_mb_state \<Rightarrow> virtio_mem_sbm_mb_state option" where
  "mb_state_minus_one VIRTIO_MEM_SBM_MB_UNUSED = None"
| "mb_state_minus_one VIRTIO_MEM_SBM_MB_PLUGGED = Some VIRTIO_MEM_SBM_MB_UNUSED"
| "mb_state_minus_one VIRTIO_MEM_SBM_MB_OFFLINE = Some VIRTIO_MEM_SBM_MB_PLUGGED"
| "mb_state_minus_one VIRTIO_MEM_SBM_MB_OFFLINE_PARTIAL = Some VIRTIO_MEM_SBM_MB_OFFLINE"
| "mb_state_minus_one VIRTIO_MEM_SBM_MB_KERNEL = Some VIRTIO_MEM_SBM_MB_OFFLINE_PARTIAL"
| "mb_state_minus_one VIRTIO_MEM_SBM_MB_KERNEL_PARTIAL = Some VIRTIO_MEM_SBM_MB_KERNEL"
| "mb_state_minus_one VIRTIO_MEM_SBM_MB_MOVABLE = Some VIRTIO_MEM_SBM_MB_KERNEL_PARTIAL"
| "mb_state_minus_one VIRTIO_MEM_SBM_MB_MOVABLE_PARTIAL = Some VIRTIO_MEM_SBM_MB_MOVABLE"

partial_function (option) sbm_extend_unplugged_up ::
  "virtio_mem \<Rightarrow> u64 \<Rightarrow> u64 \<Rightarrow> int \<Rightarrow> int \<Rightarrow> int option" where
  "sbm_extend_unplugged_up vm mb_id nb_sb sb_id count =
     (if of_int count < nb_sb \<and> sb_id + count < int (sbm_sbs_per_mb vm)
      then do {
        p \<leftarrow> virtio_mem_sbm_test_sb_plugged vm mb_id (sb_id + count) 1;
        if \<not> p then sbm_extend_unplugged_up vm mb_id nb_sb sb_id (count + 1)
        else Some count
      }
      else Some count)"

partial_function (option) virtio_mem_sbm_plug_any_sb_loop ::
  "kconf \<Rightarrow> env \<Rightarrow> u64 \<Rightarrow> virtio_mem_sbm_mb_state \<Rightarrow> u64 \<Rightarrow> virtio_mem \<Rightarrow>
     ((int \<times> u64 \<times> virtio_mem) + (u64 \<times> virtio_mem)) option" where
  "virtio_mem_sbm_plug_any_sb_loop k e mb_id old_state nb_sb vm =
     (if nb_sb \<noteq> 0
      then do {
        sb_id \<leftarrow> virtio_mem_sbm_first_unplugged_sb vm mb_id;
        if int (sbm_sbs_per_mb vm) \<le> sb_id then Some (Inr (nb_sb, vm))
        else do {
          count \<leftarrow> sbm_extend_unplugged_up vm mb_id nb_sb sb_id 1;
          (rc, vm) \<leftarrow> virtio_mem_sbm_plug_sb k e vm mb_id sb_id count;
          if rc \<noteq> 0 then Some (Inl (rc, nb_sb, vm))
          else
            virtio_mem_sbm_plug_any_sb_loop k e mb_id old_state (nb_sb - of_int count)
              (if old_state = VIRTIO_MEM_SBM_MB_OFFLINE_PARTIAL then vm
               else virtio_mem_fake_online k e vm
                      (PFN_DOWN k (virtio_mem_sb_id_to_phys k vm mb_id sb_id))
                      (PFN_DOWN k (of_int count * sbm_sb_size vm)))
        }
      }
      else Some (Inr (nb_sb, vm)))"

definition virtio_mem_sbm_plug_any_sb ::
  "kconf \<Rightarrow> env \<Rightarrow> virtio_mem \<Rightarrow> u64 \<Rightarrow> u64 \<Rightarrow> (int \<times> u64 \<times> virtio_mem) option" where
  "virtio_mem_sbm_plug_any_sb k e vm mb_id nb_sb =
     do {
       old_state \<leftarrow> virtio_mem_sbm_get_mb_state vm mb_id;
       if nb_sb = 0 then Some (- EINVAL, nb_sb, vm)
       else do {
         r \<leftarrow> virtio_mem_sbm_plug_any_sb_loop k e mb_id old_state nb_sb vm;
         case r of
           Inl x \<Rightarrow> Some x
         | Inr (nb_sb, vm) \<Rightarrow>
             do {
               p \<leftarrow> virtio_mem_sbm_test_sb_plugged vm mb_id 0 (int (sbm_sbs_per_mb vm));
               if p
               then do {
                 st \<leftarrow> mb_state_minus_one old_state;
                 vm \<leftarrow> virtio_mem_sbm_set_mb_state vm mb_id st;
                 Some (0, nb_sb, vm)
               }
               else Some (0, nb_sb, vm)
             }
       }
     }"

text \<open>
  The last loop of \<^verbatim>\<open>virtio_mem_sbm_plug_request\<close>: \<^verbatim>\<open>while (nb_sb)\<close>. The variable
  \<^verbatim>\<open>mb_id\<close> is written by \<^verbatim>\<open>virtio_mem_sbm_prepare_next_mb\<close> before it is read, so its
  value at the entry of the loop does not matter.
\<close>

definition virtio_mem_sbm_plug_request_new_body ::
  "kconf \<Rightarrow> env \<Rightarrow> u64 \<Rightarrow> u64 \<Rightarrow> virtio_mem \<Rightarrow>
     ((int \<times> virtio_mem) + (u64 \<times> u64 \<times> virtio_mem)) option" where
  "virtio_mem_sbm_plug_request_new_body k e mb_id nb_sb vm =
     (if \<not> virtio_mem_could_add_memory vm (memory_block_size_bytes k)
      then Some (Inl (- ENOSPC, vm))
      else do {
        (rc, mb_id, vm) \<leftarrow> virtio_mem_sbm_prepare_next_mb k e vm mb_id;
        if rc \<noteq> 0 then Some (Inl (rc, vm))
        else do {
          (rc, nb_sb, vm) \<leftarrow> virtio_mem_sbm_plug_and_add_mb k e vm mb_id nb_sb;
          if rc \<noteq> 0 then Some (Inl (rc, vm)) else Some (Inr (mb_id, nb_sb, vm))
        }
      })"

partial_function (option) virtio_mem_sbm_plug_request_new ::
  "kconf \<Rightarrow> env \<Rightarrow> u64 \<Rightarrow> u64 \<Rightarrow> virtio_mem \<Rightarrow> (int \<times> virtio_mem) option" where
  "virtio_mem_sbm_plug_request_new k e mb_id nb_sb vm =
     (if nb_sb \<noteq> 0
      then do {
        r \<leftarrow> virtio_mem_sbm_plug_request_new_body k e mb_id nb_sb vm;
        case r of
          Inl x \<Rightarrow> Some x
        | Inr (mb_id, nb_sb, vm) \<Rightarrow> virtio_mem_sbm_plug_request_new k e mb_id nb_sb vm
      }
      else Some (0, vm))"

definition virtio_mem_sbm_plug_request ::
  "kconf \<Rightarrow> env \<Rightarrow> virtio_mem \<Rightarrow> u64 \<Rightarrow> (int \<times> virtio_mem) option" where
  "virtio_mem_sbm_plug_request k e vm diff =
     (if sbm_sb_size vm = 0 then None
      else
        let nb_sb = diff div sbm_sb_size vm
        in if nb_sb = 0 then Some (0, vm)
           else do {
             r \<leftarrow> for_each_state
                    (\<lambda>i st. virtio_mem_sbm_for_each_mb
                       (\<lambda>mb_id nb_sb vm. do {
                          (rc, nb_sb, vm) \<leftarrow> virtio_mem_sbm_plug_any_sb k e vm mb_id nb_sb;
                          if rc \<noteq> 0 \<or> nb_sb = 0 then Some (Inl (rc, vm))
                          else Some (Inr (nb_sb, vm))
                        })
                       st (sbm_first_mb_id vm))
                    0
                    [VIRTIO_MEM_SBM_MB_KERNEL_PARTIAL, VIRTIO_MEM_SBM_MB_MOVABLE_PARTIAL,
                     VIRTIO_MEM_SBM_MB_OFFLINE_PARTIAL]
                    nb_sb vm;
             case r of
               Inl x \<Rightarrow> Some x
             | Inr (nb_sb, vm) \<Rightarrow>
                 do {
                   r \<leftarrow> virtio_mem_sbm_for_each_mb
                          (\<lambda>mb_id nb_sb vm.
                             if \<not> virtio_mem_could_add_memory vm (memory_block_size_bytes k)
                             then Some (Inl (- ENOSPC, vm))
                             else do {
                               (rc, nb_sb, vm) \<leftarrow>
                                 virtio_mem_sbm_plug_and_add_mb k e vm mb_id nb_sb;
                               if rc \<noteq> 0 \<or> nb_sb = 0 then Some (Inl (rc, vm))
                               else Some (Inr (nb_sb, vm))
                             })
                          VIRTIO_MEM_SBM_MB_UNUSED (sbm_first_mb_id vm) nb_sb vm;
                   case r of
                     Inl x \<Rightarrow> Some x
                   | Inr (nb_sb, vm) \<Rightarrow>
                       virtio_mem_sbm_plug_request_new k e 0 nb_sb vm
                 }
           })"

definition virtio_mem_bbm_plug_and_add_bb ::
  "kconf \<Rightarrow> env \<Rightarrow> virtio_mem \<Rightarrow> u64 \<Rightarrow> (int \<times> virtio_mem) option" where
  "virtio_mem_bbm_plug_and_add_bb k e vm bb_id =
     do {
       s \<leftarrow> virtio_mem_bbm_get_bb_state vm bb_id;
       if s \<noteq> VIRTIO_MEM_BBM_BB_UNUSED then Some (- EINVAL, vm)
       else do {
         (rc, vm) \<leftarrow> virtio_mem_bbm_plug_bb e vm bb_id;
         if rc \<noteq> 0 then Some (rc, vm)
         else do {
           vm \<leftarrow> virtio_mem_bbm_set_bb_state vm bb_id VIRTIO_MEM_BBM_BB_ADDED;
           (rc, vm) \<leftarrow> virtio_mem_bbm_add_bb k e vm bb_id;
           if rc \<noteq> 0
           then do {
             (urc, vm) \<leftarrow> virtio_mem_bbm_unplug_bb e vm bb_id;
             vm \<leftarrow> (if urc = 0
                    then virtio_mem_bbm_set_bb_state vm bb_id VIRTIO_MEM_BBM_BB_UNUSED
                    else virtio_mem_bbm_set_bb_state vm bb_id VIRTIO_MEM_BBM_BB_PLUGGED);
             Some (rc, vm)
           }
           else Some (0, vm)
         }
       }
     }"

definition virtio_mem_bbm_plug_request_new_body ::
  "kconf \<Rightarrow> env \<Rightarrow> u64 \<Rightarrow> u64 \<Rightarrow> virtio_mem \<Rightarrow>
     ((int \<times> virtio_mem) + (u64 \<times> u64 \<times> virtio_mem)) option" where
  "virtio_mem_bbm_plug_request_new_body k e bb_id nb_bb vm =
     (if \<not> virtio_mem_could_add_memory vm (bbm_bb_size vm) then Some (Inl (- ENOSPC, vm))
      else do {
        (rc, bb_id, vm) \<leftarrow> virtio_mem_bbm_prepare_next_bb k e vm bb_id;
        if rc \<noteq> 0 then Some (Inl (rc, vm))
        else do {
          (rc, vm) \<leftarrow> virtio_mem_bbm_plug_and_add_bb k e vm bb_id;
          if rc \<noteq> 0 then Some (Inl (rc, vm)) else Some (Inr (bb_id, nb_bb - 1, vm))
        }
      })"

partial_function (option) virtio_mem_bbm_plug_request_new ::
  "kconf \<Rightarrow> env \<Rightarrow> u64 \<Rightarrow> u64 \<Rightarrow> virtio_mem \<Rightarrow> (int \<times> virtio_mem) option" where
  "virtio_mem_bbm_plug_request_new k e bb_id nb_bb vm =
     (if nb_bb \<noteq> 0
      then do {
        r \<leftarrow> virtio_mem_bbm_plug_request_new_body k e bb_id nb_bb vm;
        case r of
          Inl x \<Rightarrow> Some x
        | Inr (bb_id, nb_bb, vm) \<Rightarrow> virtio_mem_bbm_plug_request_new k e bb_id nb_bb vm
      }
      else Some (0, vm))"

definition virtio_mem_bbm_plug_request ::
  "kconf \<Rightarrow> env \<Rightarrow> virtio_mem \<Rightarrow> u64 \<Rightarrow> (int \<times> virtio_mem) option" where
  "virtio_mem_bbm_plug_request k e vm diff =
     (if bbm_bb_size vm = 0 then None
      else
        let nb_bb = diff div bbm_bb_size vm
        in if nb_bb = 0 then Some (0, vm)
           else do {
             r \<leftarrow> virtio_mem_bbm_for_each_bb
                    (\<lambda>bb_id nb_bb vm.
                       if \<not> virtio_mem_could_add_memory vm (bbm_bb_size vm)
                       then Some (Inl (- ENOSPC, vm))
                       else do {
                         (rc, vm) \<leftarrow> virtio_mem_bbm_plug_and_add_bb k e vm bb_id;
                         let nb_bb = (if rc = 0 then nb_bb - 1 else nb_bb)
                         in if rc \<noteq> 0 \<or> nb_bb = 0 then Some (Inl (rc, vm))
                            else Some (Inr (nb_bb, vm))
                       })
                    VIRTIO_MEM_BBM_BB_UNUSED (bbm_first_bb_id vm) nb_bb vm;
             case r of
               Inl x \<Rightarrow> Some x
             | Inr (nb_bb, vm) \<Rightarrow>
                 virtio_mem_bbm_plug_request_new k e 0 nb_bb vm
           })"

definition virtio_mem_plug_request ::
  "kconf \<Rightarrow> env \<Rightarrow> virtio_mem \<Rightarrow> u64 \<Rightarrow> (int \<times> virtio_mem) option" where
  "virtio_mem_plug_request k e vm diff =
     (if in_sbm vm then virtio_mem_sbm_plug_request k e vm diff
      else virtio_mem_bbm_plug_request k e vm diff)"

subsection \<open>Unplug requests\<close>

definition virtio_mem_sbm_unplug_any_sb_offline ::
  "kconf \<Rightarrow> env \<Rightarrow> virtio_mem \<Rightarrow> u64 \<Rightarrow> u64 \<Rightarrow> (int \<times> u64 \<times> virtio_mem) option" where
  "virtio_mem_sbm_unplug_any_sb_offline k e vm mb_id nb_sb =
     do {
       (rc, nb_sb, vm) \<leftarrow> virtio_mem_sbm_unplug_any_sb_raw k e vm mb_id nb_sb;
       p \<leftarrow> virtio_mem_sbm_test_sb_plugged vm mb_id 0 (int (sbm_sbs_per_mb vm));
       vm \<leftarrow> (if \<not> p
              then virtio_mem_sbm_set_mb_state vm mb_id VIRTIO_MEM_SBM_MB_OFFLINE_PARTIAL
              else Some vm);
       if rc \<noteq> 0 then Some (rc, nb_sb, vm)
       else do {
         u \<leftarrow> virtio_mem_sbm_test_sb_unplugged vm mb_id 0 (int (sbm_sbs_per_mb vm));
         if u
         then do {
           vm \<leftarrow> virtio_mem_sbm_set_mb_state vm mb_id VIRTIO_MEM_SBM_MB_UNUSED;
           (rc, vm) \<leftarrow> virtio_mem_sbm_remove_mb k e vm mb_id;
           if rc \<noteq> 0 then None else Some (0, nb_sb, vm)
         }
         else Some (0, nb_sb, vm)
       }
     }"

definition virtio_mem_sbm_unplug_sb_online ::
  "kconf \<Rightarrow> env \<Rightarrow> virtio_mem \<Rightarrow> u64 \<Rightarrow> int \<Rightarrow> int \<Rightarrow> (int \<times> virtio_mem) option" where
  "virtio_mem_sbm_unplug_sb_online k e vm mb_id sb_id count =
     (let nr_pages = PFN_DOWN k (sbm_sb_size vm) * of_int count
      in do {
        old_state \<leftarrow> virtio_mem_sbm_get_mb_state vm mb_id;
        let start_pfn = PFN_DOWN k (virtio_mem_sb_id_to_phys k vm mb_id sb_id);
            (rc, vm) = virtio_mem_fake_offline e vm start_pfn nr_pages
        in if rc \<noteq> 0 then Some (rc, vm)
           else do {
             (rc, vm) \<leftarrow> virtio_mem_sbm_unplug_sb k e vm mb_id sb_id count;
             if rc \<noteq> 0 then Some (rc, virtio_mem_fake_online k e vm start_pfn nr_pages)
             else do {
               vm \<leftarrow> (case old_state of
                        VIRTIO_MEM_SBM_MB_KERNEL \<Rightarrow>
                          virtio_mem_sbm_set_mb_state vm mb_id VIRTIO_MEM_SBM_MB_KERNEL_PARTIAL
                      | VIRTIO_MEM_SBM_MB_MOVABLE \<Rightarrow>
                          virtio_mem_sbm_set_mb_state vm mb_id VIRTIO_MEM_SBM_MB_MOVABLE_PARTIAL
                      | _ \<Rightarrow> Some vm);
               Some (0, vm)
             }
           }
      })"

text \<open>
  \<^verbatim>\<open>virtio_mem_sbm_unplug_any_sb_online\<close>: the inner loop steps \<open>sb_id\<close> down to the next
  plugged subblock; the outer loop answers \<open>Inl\<close> for \<^verbatim>\<open>return rc\<close> and \<open>Inr\<close> when it
  ends.
\<close>

partial_function (option) sbm_skip_not_plugged_sb :: "virtio_mem \<Rightarrow> u64 \<Rightarrow> int \<Rightarrow> int option" where
  "sbm_skip_not_plugged_sb vm mb_id sb_id =
     (if 0 \<le> sb_id
      then do {
        p \<leftarrow> virtio_mem_sbm_test_sb_plugged vm mb_id sb_id 1;
        if \<not> p then sbm_skip_not_plugged_sb vm mb_id (sb_id - 1) else Some sb_id
      }
      else Some sb_id)"

partial_function (option) virtio_mem_sbm_unplug_any_sb_online_loop ::
  "kconf \<Rightarrow> env \<Rightarrow> u64 \<Rightarrow> u64 \<Rightarrow> int \<Rightarrow> virtio_mem \<Rightarrow>
     ((int \<times> u64 \<times> virtio_mem) + (u64 \<times> virtio_mem)) option" where
  "virtio_mem_sbm_unplug_any_sb_online_loop k e mb_id nb_sb sb_id vm =
     (if 0 \<le> sb_id \<and> nb_sb \<noteq> 0
      then do {
        sb_id \<leftarrow> sbm_skip_not_plugged_sb vm mb_id sb_id;
        if sb_id < 0 then Some (Inr (nb_sb, vm))
        else do {
          (rc, vm) \<leftarrow> virtio_mem_sbm_unplug_sb_online k e vm mb_id sb_id 1;
          if rc = - EBUSY
          then virtio_mem_sbm_unplug_any_sb_online_loop k e mb_id nb_sb (sb_id - 1) vm
          else if rc \<noteq> 0 then Some (Inl (rc, nb_sb, vm))
          else virtio_mem_sbm_unplug_any_sb_online_loop k e mb_id (nb_sb - 1) (sb_id - 1) vm
        }
      }
      else Some (Inr (nb_sb, vm)))"

definition virtio_mem_sbm_unplug_any_sb_online_unplugged ::
  "kconf \<Rightarrow> env \<Rightarrow> virtio_mem \<Rightarrow> u64 \<Rightarrow> u64 \<Rightarrow> (int \<times> u64 \<times> virtio_mem) option" where
  "virtio_mem_sbm_unplug_any_sb_online_unplugged k e vm mb_id nb_sb =
     do {
       (rc, vm) \<leftarrow> virtio_mem_sbm_try_remove_unplugged_mb k e vm mb_id;
       Some (0, nb_sb, if rc \<noteq> 0 then vm\<lparr>sbm_have_unplugged_mb := True\<rparr> else vm)
     }"

definition virtio_mem_sbm_unplug_any_sb_online_fallback ::
  "kconf \<Rightarrow> env \<Rightarrow> virtio_mem \<Rightarrow> u64 \<Rightarrow> u64 \<Rightarrow> (int \<times> u64 \<times> virtio_mem) option" where
  "virtio_mem_sbm_unplug_any_sb_online_fallback k e vm mb_id nb_sb =
     do {
       r \<leftarrow> virtio_mem_sbm_unplug_any_sb_online_loop k e mb_id nb_sb
              (int (sbm_sbs_per_mb vm) - 1) vm;
       case r of
         Inl x \<Rightarrow> Some x
       | Inr (nb_sb, vm) \<Rightarrow> virtio_mem_sbm_unplug_any_sb_online_unplugged k e vm mb_id nb_sb
     }"

definition virtio_mem_sbm_unplug_any_sb_online ::
  "kconf \<Rightarrow> env \<Rightarrow> virtio_mem \<Rightarrow> u64 \<Rightarrow> u64 \<Rightarrow> (int \<times> u64 \<times> virtio_mem) option" where
  "virtio_mem_sbm_unplug_any_sb_online k e vm mb_id nb_sb =
     do {
       whole \<leftarrow> (if of_nat (sbm_sbs_per_mb vm) \<le> nb_sb
                 then virtio_mem_sbm_test_sb_plugged vm mb_id 0 (int (sbm_sbs_per_mb vm))
                 else Some False);
       if whole
       then do {
         (rc, vm) \<leftarrow> virtio_mem_sbm_unplug_sb_online k e vm mb_id 0 (int (sbm_sbs_per_mb vm));
         if rc = 0
         then virtio_mem_sbm_unplug_any_sb_online_unplugged k e vm mb_id
                (nb_sb - of_nat (sbm_sbs_per_mb vm))
         else if rc \<noteq> - EBUSY \<and> rc \<noteq> - ENOMEM then Some (rc, nb_sb, vm)
         else virtio_mem_sbm_unplug_any_sb_online_fallback k e vm mb_id nb_sb
       }
       else virtio_mem_sbm_unplug_any_sb_online_fallback k e vm mb_id nb_sb
     }"

definition virtio_mem_sbm_unplug_any_sb ::
  "kconf \<Rightarrow> env \<Rightarrow> virtio_mem \<Rightarrow> u64 \<Rightarrow> u64 \<Rightarrow> (int \<times> u64 \<times> virtio_mem) option" where
  "virtio_mem_sbm_unplug_any_sb k e vm mb_id nb_sb =
     do {
       old_state \<leftarrow> virtio_mem_sbm_get_mb_state vm mb_id;
       case old_state of
         VIRTIO_MEM_SBM_MB_KERNEL_PARTIAL \<Rightarrow>
           virtio_mem_sbm_unplug_any_sb_online k e vm mb_id nb_sb
       | VIRTIO_MEM_SBM_MB_KERNEL \<Rightarrow>
           virtio_mem_sbm_unplug_any_sb_online k e vm mb_id nb_sb
       | VIRTIO_MEM_SBM_MB_MOVABLE_PARTIAL \<Rightarrow>
           virtio_mem_sbm_unplug_any_sb_online k e vm mb_id nb_sb
       | VIRTIO_MEM_SBM_MB_MOVABLE \<Rightarrow>
           virtio_mem_sbm_unplug_any_sb_online k e vm mb_id nb_sb
       | VIRTIO_MEM_SBM_MB_OFFLINE_PARTIAL \<Rightarrow>
           virtio_mem_sbm_unplug_any_sb_offline k e vm mb_id nb_sb
       | VIRTIO_MEM_SBM_MB_OFFLINE \<Rightarrow>
           virtio_mem_sbm_unplug_any_sb_offline k e vm mb_id nb_sb
       | _ \<Rightarrow> Some (- EINVAL, nb_sb, vm)
     }"

text \<open>
  \<^verbatim>\<open>virtio_mem_sbm_unplug_request\<close>. The local variables of the loops are \<^verbatim>\<open>nb_sb\<close> and,
  to observe the order of the candidates, the list of the blocks handed to
  \<^verbatim>\<open>virtio_mem_sbm_unplug_any_sb\<close> so far, each with the state it was found in.
\<close>

definition virtio_mem_sbm_unplug_request_visits ::
  "kconf \<Rightarrow> env \<Rightarrow> virtio_mem \<Rightarrow> u64 \<Rightarrow>
     (int \<times> (virtio_mem_sbm_mb_state \<times> u64) list \<times> virtio_mem) option" where
  "virtio_mem_sbm_unplug_request_visits k e vm diff =
     (if sbm_sb_size vm = 0 then None
      else
        let nb_sb = diff div sbm_sb_size vm
        in if nb_sb = 0 then Some (0, [], vm)
           else do {
             r \<leftarrow> for_each_state
                    (\<lambda>i st l vm. do {
                       r \<leftarrow> virtio_mem_sbm_for_each_mb_rev
                              (\<lambda>mb_id (nb_sb, visited) vm. do {
                                 (rc, nb_sb, vm) \<leftarrow>
                                   virtio_mem_sbm_unplug_any_sb k e vm mb_id nb_sb;
                                 if rc \<noteq> 0 \<or> nb_sb = 0
                                 then Some (Inl (rc, visited @ [(st, mb_id)], vm))
                                 else Some (Inr ((nb_sb, visited @ [(st, mb_id)]), vm))
                               })
                              st (sbm_next_mb_id vm - 1) l vm;
                       case r of
                         Inl x \<Rightarrow> Some (Inl x)
                       | Inr ((nb_sb, visited), vm) \<Rightarrow>
                           if \<not> unplug_online k \<and> i = 1 then Some (Inl (0, visited, vm))
                           else Some (Inr ((nb_sb, visited), vm))
                     })
                    0
                    [VIRTIO_MEM_SBM_MB_OFFLINE_PARTIAL, VIRTIO_MEM_SBM_MB_OFFLINE,
                     VIRTIO_MEM_SBM_MB_MOVABLE_PARTIAL, VIRTIO_MEM_SBM_MB_KERNEL_PARTIAL,
                     VIRTIO_MEM_SBM_MB_MOVABLE, VIRTIO_MEM_SBM_MB_KERNEL]
                    (nb_sb, []) vm;
             case r of
               Inl x \<Rightarrow> Some x
             | Inr ((nb_sb, visited), vm) \<Rightarrow>
                 Some (if nb_sb \<noteq> 0 then - EBUSY else 0, visited, vm)
           })"

definition virtio_mem_sbm_unplug_request ::
  "kconf \<Rightarrow> env \<Rightarrow> virtio_mem \<Rightarrow> u64 \<Rightarrow> (int \<times> virtio_mem) option" where
  "virtio_mem_sbm_unplug_request k e vm diff =
     map_option (\<lambda>(rc, visited, vm). (rc, vm)) (virtio_mem_sbm_unplug_request_visits k e vm diff)"

text \<open>
  \<^verbatim>\<open>virtio_mem_bbm_offline_remove_and_unplug_bb\<close>. The first loop fake-offlines the
  online sections and answers \<open>Inl\<close> with the error and the section reached when one of
  them fails; the loop after \<^verbatim>\<open>rollback:\<close> fake-onlines the sections below \<open>end_pfn\<close>.
\<close>

partial_function (option) bbm_fake_offline_sections ::
  "kconf \<Rightarrow> env \<Rightarrow> virtio_mem \<Rightarrow> u64 \<Rightarrow> u64 \<Rightarrow> ((int \<times> u64 \<times> virtio_mem) + virtio_mem) option" where
  "bbm_fake_offline_sections k e vm pfn end_pfn =
     (if pfn < end_pfn
      then
        let (page, vm) = ext_call e (EV_pfn_to_online_page pfn) vm
        in if page = 0
           then bbm_fake_offline_sections k e vm (pfn + PAGES_PER_SECTION k) end_pfn
           else
             let (rc, vm) = virtio_mem_fake_offline e vm pfn (PAGES_PER_SECTION k)
             in if rc \<noteq> 0 then Some (Inl (rc, pfn, vm))
                else bbm_fake_offline_sections k e vm (pfn + PAGES_PER_SECTION k) end_pfn
      else Some (Inr vm))"

partial_function (option) bbm_fake_online_sections ::
  "kconf \<Rightarrow> env \<Rightarrow> virtio_mem \<Rightarrow> u64 \<Rightarrow> u64 \<Rightarrow> virtio_mem option" where
  "bbm_fake_online_sections k e vm pfn end_pfn =
     (if pfn < end_pfn
      then
        let (page, vm) = ext_call e (EV_pfn_to_online_page pfn) vm
        in bbm_fake_online_sections k e
             (if page = 0 then vm else virtio_mem_fake_online k e vm pfn (PAGES_PER_SECTION k))
             (pfn + PAGES_PER_SECTION k) end_pfn
      else Some vm)"

definition virtio_mem_bbm_offline_remove_and_unplug_bb_rollback ::
  "kconf \<Rightarrow> env \<Rightarrow> virtio_mem \<Rightarrow> u64 \<Rightarrow> u64 \<Rightarrow> u64 \<Rightarrow> int \<Rightarrow> (int \<times> virtio_mem) option" where
  "virtio_mem_bbm_offline_remove_and_unplug_bb_rollback k e vm bb_id start_pfn end_pfn rc =
     do {
       vm \<leftarrow> bbm_fake_online_sections k e vm start_pfn end_pfn;
       vm \<leftarrow> virtio_mem_bbm_set_bb_state vm bb_id VIRTIO_MEM_BBM_BB_ADDED;
       Some (rc, vm)
     }"

definition virtio_mem_bbm_offline_remove_and_unplug_bb ::
  "kconf \<Rightarrow> env \<Rightarrow> virtio_mem \<Rightarrow> u64 \<Rightarrow> (int \<times> virtio_mem) option" where
  "virtio_mem_bbm_offline_remove_and_unplug_bb k e vm bb_id =
     (let start_pfn = PFN_DOWN k (virtio_mem_bb_id_to_phys vm bb_id);
          nr_pages = PFN_DOWN k (bbm_bb_size vm);
          end_pfn = start_pfn + nr_pages
      in do {
        s \<leftarrow> virtio_mem_bbm_get_bb_state vm bb_id;
        if s \<noteq> VIRTIO_MEM_BBM_BB_ADDED then Some (- EINVAL, vm)
        else do {
          vm \<leftarrow> virtio_mem_bbm_set_bb_state vm bb_id VIRTIO_MEM_BBM_BB_FAKE_OFFLINE;
          r \<leftarrow> bbm_fake_offline_sections k e vm start_pfn end_pfn;
          case r of
            Inl (rc, pfn, vm) \<Rightarrow>
              virtio_mem_bbm_offline_remove_and_unplug_bb_rollback k e vm bb_id start_pfn pfn rc
          | Inr vm \<Rightarrow>
              do {
                (rc, vm) \<leftarrow> virtio_mem_bbm_offline_and_remove_bb k e vm bb_id;
                if rc \<noteq> 0
                then virtio_mem_bbm_offline_remove_and_unplug_bb_rollback k e vm bb_id
                       start_pfn end_pfn rc
                else do {
                  (rc, vm) \<leftarrow> virtio_mem_bbm_unplug_bb e vm bb_id;
                  vm \<leftarrow> (if rc \<noteq> 0
                         then virtio_mem_bbm_set_bb_state vm bb_id VIRTIO_MEM_BBM_BB_PLUGGED
                         else virtio_mem_bbm_set_bb_state vm bb_id VIRTIO_MEM_BBM_BB_UNUSED);
                  Some (rc, vm)
                }
              }
        }
      })"

partial_function (option) virtio_mem_bbm_bb_is_offline_loop ::
  "kconf \<Rightarrow> env \<Rightarrow> virtio_mem \<Rightarrow> u64 \<Rightarrow> u64 \<Rightarrow> (bool \<times> virtio_mem) option" where
  "virtio_mem_bbm_bb_is_offline_loop k e vm pfn end_pfn =
     (if pfn < end_pfn
      then
        let (page, vm) = ext_call e (EV_pfn_to_online_page pfn) vm
        in if page \<noteq> 0 then Some (False, vm)
           else virtio_mem_bbm_bb_is_offline_loop k e vm (pfn + PAGES_PER_SECTION k) end_pfn
      else Some (True, vm))"

definition virtio_mem_bbm_bb_is_offline ::
  "kconf \<Rightarrow> env \<Rightarrow> virtio_mem \<Rightarrow> u64 \<Rightarrow> (bool \<times> virtio_mem) option" where
  "virtio_mem_bbm_bb_is_offline k e vm bb_id =
     (let start_pfn = PFN_DOWN k (virtio_mem_bb_id_to_phys vm bb_id);
          nr_pages = PFN_DOWN k (bbm_bb_size vm)
      in virtio_mem_bbm_bb_is_offline_loop k e vm start_pfn (start_pfn + nr_pages))"

partial_function (option) virtio_mem_bbm_bb_is_movable_loop ::
  "kconf \<Rightarrow> env \<Rightarrow> virtio_mem \<Rightarrow> u64 \<Rightarrow> u64 \<Rightarrow> (bool \<times> virtio_mem) option" where
  "virtio_mem_bbm_bb_is_movable_loop k e vm pfn end_pfn =
     (if pfn < end_pfn
      then
        let (page, vm) = ext_call e (EV_pfn_to_online_page pfn) vm
        in if page = 0
           then virtio_mem_bbm_bb_is_movable_loop k e vm (pfn + PAGES_PER_SECTION k) end_pfn
           else
             let (m, vm) = ext_call e (EV_is_zone_movable_page pfn) vm
             in if m = 0 then Some (False, vm)
                else virtio_mem_bbm_bb_is_movable_loop k e vm (pfn + PAGES_PER_SECTION k) end_pfn
      else Some (True, vm))"

definition virtio_mem_bbm_bb_is_movable ::
  "kconf \<Rightarrow> env \<Rightarrow> virtio_mem \<Rightarrow> u64 \<Rightarrow> (bool \<times> virtio_mem) option" where
  "virtio_mem_bbm_bb_is_movable k e vm bb_id =
     (let start_pfn = PFN_DOWN k (virtio_mem_bb_id_to_phys vm bb_id);
          nr_pages = PFN_DOWN k (bbm_bb_size vm)
      in virtio_mem_bbm_bb_is_movable_loop k e vm start_pfn (start_pfn + nr_pages))"

definition virtio_mem_bbm_unplug_request_body ::
  "kconf \<Rightarrow> env \<Rightarrow> nat \<Rightarrow> u64 \<Rightarrow> u64 \<Rightarrow> virtio_mem \<Rightarrow> ((int \<times> virtio_mem) + (u64 \<times> virtio_mem)) option" where
  "virtio_mem_bbm_unplug_request_body k e i bb_id nb_bb vm =
     do {
       (skip, vm) \<leftarrow>
         (if i = 0 then do {
            (b, vm) \<leftarrow> virtio_mem_bbm_bb_is_offline k e vm bb_id;
            Some (\<not> b, vm)
          }
          else if i = 1 then do {
            (b, vm) \<leftarrow> virtio_mem_bbm_bb_is_movable k e vm bb_id;
            Some (\<not> b, vm)
          }
          else Some (False, vm));
       if skip then Some (Inr (nb_bb, vm))
       else do {
         (rc, vm) \<leftarrow> virtio_mem_bbm_offline_remove_and_unplug_bb k e vm bb_id;
         if rc = - EBUSY then Some (Inr (nb_bb, vm))
         else
           let nb_bb = (if rc = 0 then nb_bb - 1 else nb_bb)
           in if rc \<noteq> 0 \<or> nb_bb = 0 then Some (Inl (rc, vm))
              else Some (Inr (nb_bb, vm))
       }
     }"

definition virtio_mem_bbm_unplug_request ::
  "kconf \<Rightarrow> env \<Rightarrow> virtio_mem \<Rightarrow> u64 \<Rightarrow> (int \<times> virtio_mem) option" where
  "virtio_mem_bbm_unplug_request k e vm diff =
     (if bbm_bb_size vm = 0 then None
      else
        let nb_bb = diff div bbm_bb_size vm
        in if nb_bb = 0 then Some (0, vm)
           else do {
             r \<leftarrow> for_each_state
                    (\<lambda>i st nb_bb vm. do {
                       r \<leftarrow> virtio_mem_bbm_for_each_bb_rev
                              (virtio_mem_bbm_unplug_request_body k e i)
                              st (bbm_next_bb_id vm - 1) nb_bb vm;
                       case r of
                         Inl x \<Rightarrow> Some (Inl x)
                       | Inr (nb_bb, vm) \<Rightarrow>
                           if i = 0 \<and> \<not> unplug_online k then Some (Inl (0, vm))
                           else Some (Inr (nb_bb, vm))
                     })
                    0
                    [VIRTIO_MEM_BBM_BB_ADDED, VIRTIO_MEM_BBM_BB_ADDED, VIRTIO_MEM_BBM_BB_ADDED]
                    nb_bb vm;
             case r of
               Inl x \<Rightarrow> Some x
             | Inr (nb_bb, vm) \<Rightarrow> Some (if nb_bb \<noteq> 0 then - EBUSY else 0, vm)
           })"

definition virtio_mem_unplug_request ::
  "kconf \<Rightarrow> env \<Rightarrow> virtio_mem \<Rightarrow> u64 \<Rightarrow> (int \<times> virtio_mem) option" where
  "virtio_mem_unplug_request k e vm diff =
     (if in_sbm vm then virtio_mem_sbm_unplug_request k e vm diff
      else virtio_mem_bbm_unplug_request k e vm diff)"

subsection \<open>The retry loop\<close>

definition virtio_mem_cleanup_pending_mb ::
  "kconf \<Rightarrow> env \<Rightarrow> virtio_mem \<Rightarrow> (int \<times> virtio_mem) option" where
  "virtio_mem_cleanup_pending_mb k e vm =
     (if \<not> in_sbm vm
      then do {
        r \<leftarrow> virtio_mem_bbm_for_each_bb
               (\<lambda>id (l :: unit) vm. do {
                  (rc, vm) \<leftarrow> virtio_mem_bbm_unplug_bb e vm id;
                  if rc \<noteq> 0 then Some (Inl (rc, vm))
                  else do {
                    vm \<leftarrow> virtio_mem_bbm_set_bb_state vm id VIRTIO_MEM_BBM_BB_UNUSED;
                    Some (Inr (l, vm))
                  }
                })
               VIRTIO_MEM_BBM_BB_PLUGGED (bbm_first_bb_id vm) () vm;
        case r of
          Inl x \<Rightarrow> Some x
        | Inr (_, vm) \<Rightarrow> Some (0, vm)
      }
      else do {
        r \<leftarrow> virtio_mem_sbm_for_each_mb
               (\<lambda>id (l :: unit) vm. do {
                  (rc, vm) \<leftarrow> virtio_mem_sbm_unplug_mb k e vm id;
                  if rc \<noteq> 0 then Some (Inl (rc, vm))
                  else do {
                    vm \<leftarrow> virtio_mem_sbm_set_mb_state vm id VIRTIO_MEM_SBM_MB_UNUSED;
                    Some (Inr (l, vm))
                  }
                })
               VIRTIO_MEM_SBM_MB_PLUGGED (sbm_first_mb_id vm) () vm;
        case r of
          Inl x \<Rightarrow> Some x
        | Inr (_, vm) \<Rightarrow>
            if \<not> sbm_have_unplugged_mb vm then Some (0, vm)
            else do {
              r \<leftarrow> for_each_state
                     (\<lambda>i st. virtio_mem_sbm_for_each_mb
                        (\<lambda>id (rc :: int) vm. do {
                           (r, vm) \<leftarrow> virtio_mem_sbm_try_remove_unplugged_mb k e vm id;
                           Some (Inr (rc OR r, vm))
                         })
                        st (sbm_first_mb_id vm))
                     0
                     [VIRTIO_MEM_SBM_MB_MOVABLE_PARTIAL, VIRTIO_MEM_SBM_MB_KERNEL_PARTIAL,
                      VIRTIO_MEM_SBM_MB_OFFLINE_PARTIAL]
                     0 (vm\<lparr>sbm_have_unplugged_mb := False\<rparr>);
              case r of
                Inl (x :: int \<times> virtio_mem) \<Rightarrow> Some x
              | Inr (rc, vm) \<Rightarrow>
                  Some (0, if rc \<noteq> 0 then vm\<lparr>sbm_have_unplugged_mb := True\<rparr> else vm)
            }
      })"

definition virtio_mem_refresh_config :: "kconf \<Rightarrow> virtio_mem \<Rightarrow> virtio_mem" where
  "virtio_mem_refresh_config k vm =
     (let end_addr = min (addr vm + region_size vm - 1) (pluggable_range_end k)
      in if in_sbm vm
         then
           let vm = vm\<lparr>sbm_last_usable_mb_id := virtio_mem_phys_to_mb_id k end_addr\<rparr>
           in if \<not> IS_ALIGNED (end_addr + 1) (memory_block_size_bytes k)
              then vm\<lparr>sbm_last_usable_mb_id := sbm_last_usable_mb_id vm - 1\<rparr>
              else vm
         else
           let vm = vm\<lparr>bbm_last_usable_bb_id := virtio_mem_phys_to_bb_id vm end_addr\<rparr>
           in if \<not> IS_ALIGNED (end_addr + 1) (bbm_bb_size vm)
              then vm\<lparr>bbm_last_usable_bb_id := bbm_last_usable_bb_id vm - 1\<rparr>
              else vm)"

text \<open>
  \<^verbatim>\<open>virtio_mem_run_wq\<close> is split at its label and at its \<^verbatim>\<open>switch\<close>:
  \<open>virtio_mem_run_wq_attempt\<close> is the code from \<^verbatim>\<open>retry:\<close> to the \<^verbatim>\<open>switch\<close> and gives
  \<open>rc\<close>; \<open>virtio_mem_run_wq_switch\<close> is the \<^verbatim>\<open>switch\<close>, which either jumps back to
  \<^verbatim>\<open>retry:\<close> or leaves with the device updated; \<open>virtio_mem_run_wq_retry\<close> is the loop the
  \<^verbatim>\<open>goto\<close> makes and gives the \<open>rc\<close> of the last attempt.
\<close>

datatype wq_next = Goto_retry | Leave virtio_mem

definition virtio_mem_run_wq_attempt ::
  "kconf \<Rightarrow> env \<Rightarrow> virtio_mem \<Rightarrow> (int \<times> virtio_mem) option" where
  "virtio_mem_run_wq_attempt k e vm =
     (let rc = (if unplug_all_required vm then virtio_mem_send_unplug_all_request vm else 0);
          vm = (if config_changed vm
                then virtio_mem_refresh_config k (vm\<lparr>config_changed := False\<rparr>)
                else vm)
      in do {
        (rc, vm) \<leftarrow> (if rc = 0 then virtio_mem_cleanup_pending_mb k e vm else Some (rc, vm));
        (rc, vm) \<leftarrow>
          (if rc = 0 \<and> requested_size vm \<noteq> plugged_size vm
           then if plugged_size vm < requested_size vm
                then virtio_mem_plug_request k e vm (requested_size vm - plugged_size vm)
                else virtio_mem_unplug_request k e vm (plugged_size vm - requested_size vm)
           else Some (rc, vm));
        Some (if rc = 0 \<and> in_sbm vm \<and> sbm_have_unplugged_mb vm then - EBUSY else rc, vm)
      })"

definition virtio_mem_run_wq_switch :: "kconf \<Rightarrow> int \<Rightarrow> virtio_mem \<Rightarrow> wq_next" where
  "virtio_mem_run_wq_switch k rc vm =
     (if rc = 0 then Leave (vm\<lparr>retry_timer_ms := VIRTIO_MEM_RETRY_TIMER_MIN_MS k\<rparr>)
      else if rc = - ENOSPC then Leave vm
      else if rc = - ETXTBSY \<or> rc = - EBUSY \<or> rc = - ENOMEM
      then Leave (vm\<lparr>retry_timer := Some (retry_timer_ms vm)\<rparr>)
      else if rc = - EAGAIN then Goto_retry
      else Leave (vm\<lparr>broken := True\<rparr>))"

partial_function (option) virtio_mem_run_wq_retry ::
  "kconf \<Rightarrow> env \<Rightarrow> virtio_mem \<Rightarrow> (int \<times> virtio_mem) option" where
  "virtio_mem_run_wq_retry k e vm =
     do {
       (rc, vm) \<leftarrow> virtio_mem_run_wq_attempt k e vm;
       case virtio_mem_run_wq_switch k rc vm of
         Goto_retry \<Rightarrow> virtio_mem_run_wq_retry k e vm
       | Leave vm \<Rightarrow> Some (rc, vm)
     }"


definition virtio_mem_timer_expired :: "kconf \<Rightarrow> virtio_mem \<Rightarrow> virtio_mem" where
  "virtio_mem_timer_expired k vm =
     (let vm = virtio_mem_retry (vm\<lparr>retry_timer := None\<rparr>)
      in vm\<lparr>retry_timer_ms := min (retry_timer_ms vm * 2) (VIRTIO_MEM_RETRY_TIMER_MAX_MS k)\<rparr>)"

text \<open>The device as \<^verbatim>\<open>kzalloc\<close> in \<^verbatim>\<open>virtio_mem_probe\<close> returns it: every member zero.\<close>

definition zeroed_virtio_mem :: virtio_mem where
  "zeroed_virtio_mem =
     \<lparr>trace = [], in_kdump = False, broken = False, removing = False, hotplug_active = False,
      in_sbm = False, memmap_on_memory = False, unplug_all_required = False,
      config_changed = False, wq_active = False, wq_queued = False, resource_name = False,
      retry_timer = None, retry_timer_ms = 0, addr = 0, region_size = 0, device_block_size = 0,
      requested_size = 0, plugged_size = 0, offline_size = 0, offline_threshold = 0,
      xa_membuf = Map.empty, sbm_sb_size = 0, sbm_sbs_per_mb = 0, sbm_first_mb_id = 0,
      sbm_next_mb_id = 0, sbm_last_usable_mb_id = 0, sbm_mb_states = [],
      sbm_mb_count = (\<lambda>_. 0), sbm_sb_states = [], sbm_have_unplugged_mb = False,
      bbm_bb_size = 0, bbm_first_bb_id = 0, bbm_next_bb_id = 0, bbm_last_usable_bb_id = 0,
      bbm_bb_states = [], bbm_bb_count = (\<lambda>_. 0), PageOffline = (\<lambda>_. False),
      PageDirty = (\<lambda>_. False), PageReserved = (\<lambda>_. False), page_ref = (\<lambda>_. 0),
      managed_pages = 0\<rparr>"

text \<open>
  Every block below \<open>next_id\<close> is in a state whose counter is not zero: the invariant
  under which \<^verbatim>\<open>BUG_ON\<close> in the two state setters cannot fire.
\<close>

definition sbm_occupied_states_counted :: "virtio_mem \<Rightarrow> bool" where
  "sbm_occupied_states_counted vm \<longleftrightarrow>
     (\<forall>i < unat (sbm_next_mb_id vm - sbm_first_mb_id vm).
        i < length (sbm_mb_states vm) \<and> sbm_mb_count vm (sbm_mb_states vm ! i) \<noteq> 0)"

definition bbm_occupied_states_counted :: "virtio_mem \<Rightarrow> bool" where
  "bbm_occupied_states_counted vm \<longleftrightarrow>
     (\<forall>i < unat (bbm_next_bb_id vm - bbm_first_bb_id vm).
        i < length (bbm_bb_states vm) \<and> bbm_bb_count vm (bbm_bb_states vm ! i) \<noteq> 0)"

subsection \<open>Example devices\<close>

text \<open>
  A kernel configuration with 4 KiB pages and 128 MiB memory blocks, an environment in
  which every call out of the driver succeeds and nothing happens concurrently, and
  devices to run the model on.
\<close>

definition example_kconf :: kconf where
  "example_kconf =
     \<lparr>PAGE_SIZE = 4096, PAGES_PER_SECTION = 32768, MAX_ORDER = 10,
      memory_block_size_bytes = 134217728, sizeof_struct_page = 64, pageblock_nr_pages = 512,
      pluggable_range_end = 0xFFFFFFFFFFFF, unplug_online = True,
      VIRTIO_MEM_RETRY_TIMER_MIN_MS = 50000, VIRTIO_MEM_RETRY_TIMER_MAX_MS = 300000,
      NOTIFY_DONE = 0, NOTIFY_OK = 1, NOTIFY_BAD = 32770,
      notifier_from_errno = (\<lambda>err. 32768 + (1 - err))\<rparr>"

definition calm_env :: env where
  "calm_env = \<lparr>ret = (\<lambda>_. 0), async_config = (\<lambda>_. False)\<rparr>"

definition one_unused_block :: virtio_mem where
  "one_unused_block =
     zeroed_virtio_mem\<lparr>
       sbm_sbs_per_mb := 64, sbm_next_mb_id := 1, sbm_last_usable_mb_id := 7,
       sbm_mb_states := [VIRTIO_MEM_SBM_MB_UNUSED],
       sbm_mb_count := (\<lambda>_. 0)(VIRTIO_MEM_SBM_MB_UNUSED := 1),
       bbm_next_bb_id := 1, bbm_last_usable_bb_id := 7,
       bbm_bb_states := [VIRTIO_MEM_BBM_BB_UNUSED],
       bbm_bb_count := (\<lambda>_. 0)(VIRTIO_MEM_BBM_BB_UNUSED := 1)\<rparr>"

text \<open>
  Every counter is the number of blocks below \<open>next_id\<close> that are in its state (the
  table is at least that long).
\<close>

definition bbm_counters_exact :: "virtio_mem \<Rightarrow> bool" where
  "bbm_counters_exact vm \<longleftrightarrow>
     (let n = unat (bbm_next_bb_id vm - bbm_first_bb_id vm)
      in n \<le> length (bbm_bb_states vm) \<and>
         (\<forall>s \<in> set [VIRTIO_MEM_BBM_BB_UNUSED, VIRTIO_MEM_BBM_BB_PLUGGED, VIRTIO_MEM_BBM_BB_ADDED,
                    VIRTIO_MEM_BBM_BB_FAKE_OFFLINE].
            unat (bbm_bb_count vm s) = count_list (take n (bbm_bb_states vm)) s))"

text \<open>What the functions leave unchanged, as projections of the device.\<close>

definition static_of where
  "static_of vm =
     (in_kdump vm, broken vm, removing vm, hotplug_active vm, in_sbm vm, memmap_on_memory vm,
      unplug_all_required vm, wq_active vm, retry_timer vm, retry_timer_ms vm, addr vm,
      region_size vm, device_block_size vm, requested_size vm, offline_threshold vm,
      sbm_sb_size vm, sbm_sbs_per_mb vm, sbm_first_mb_id vm, bbm_bb_size vm, bbm_first_bb_id vm)"

definition sbm_tables_of where
  "sbm_tables_of vm =
     (sbm_mb_states vm, sbm_mb_count vm, sbm_sb_states vm, sbm_next_mb_id vm,
      sbm_last_usable_mb_id vm, sbm_have_unplugged_mb vm)"

definition bbm_tables_of where
  "bbm_tables_of vm =
     (bbm_bb_states vm, bbm_bb_count vm, bbm_next_bb_id vm, bbm_last_usable_bb_id vm)"

definition pages_of where
  "pages_of vm = (PageOffline vm, PageDirty vm, PageReserved vm, page_ref vm, managed_pages vm)"

definition host_frame :: "virtio_mem \<Rightarrow> virtio_mem \<Rightarrow> bool" where
  "host_frame vm vm' \<longleftrightarrow>
     static_of vm' = static_of vm \<and> sbm_tables_of vm' = sbm_tables_of vm \<and>
     bbm_tables_of vm' = bbm_tables_of vm \<and> pages_of vm' = pages_of vm"

text \<open>
  A Big Block Mode device with one unused 128 MiB big block, and two environments: in the first
  one \<^verbatim>\<open>add_memory_driver_managed\<close> fails with \<^verbatim>\<open>-ENOMEM\<close> (the fifth call out of the
  driver), in the second one \<^verbatim>\<open>xa_store\<close> (the third call) fails as well, so that the handle
  of the plugged block is lost.
\<close>

definition one_big_block :: virtio_mem where
  "one_big_block =
     one_unused_block\<lparr>region_size := 0x40000000, device_block_size := 0x8000000,
       offline_threshold := 0x40000000, bbm_bb_size := 0x8000000\<rparr>"

definition add_memory_fails :: env where
  "add_memory_fails = \<lparr>ret = (\<lambda>n. if n = 4 then - 12 else 0), async_config = (\<lambda>_. False)\<rparr>"

definition xa_store_and_add_memory_fail :: env where
  "xa_store_and_add_memory_fail =
     \<lparr>ret = (\<lambda>n. if n = 2 \<or> n = 4 then - 12 else 0), async_config = (\<lambda>_. False)\<rparr>"

text \<open>
  A Big Block Mode device that was asked for one big block and whose retry delay stands at
  200 seconds; an environment whose first \<^verbatim>\<open>mem_buf_alloc\<close> answers \<^verbatim>\<open>-EAGAIN\<close>, and one in
  which every allocation fails.
\<close>

definition waiting_big_block :: virtio_mem where
  "waiting_big_block = one_big_block\<lparr>retry_timer_ms := 200000, requested_size := 0x8000000\<rparr>"

definition mem_buf_alloc_again_once :: env where
  "mem_buf_alloc_again_once =
     \<lparr>ret = (\<lambda>n. if n = 1 then - 11 else 0), async_config = (\<lambda>_. False)\<rparr>"

definition out_of_memory :: env where
  "out_of_memory = \<lparr>ret = (\<lambda>_. - 12), async_config = (\<lambda>_. False)\<rparr>"

text \<open>
  An environment in which the page is in \<^verbatim>\<open>ZONE_MOVABLE\<close> and every later call fails with
  \<^verbatim>\<open>-EBUSY\<close>.
\<close>

definition alloc_contig_range_busy :: env where
  "alloc_contig_range_busy =
     \<lparr>ret = (\<lambda>n. if n = 0 then 1 else - 16), async_config = (\<lambda>_. False)\<rparr>"

text \<open>
  A Sub Block Mode device at 2 GiB with two memory blocks: block 16 is unused, block 17 is
  offline with all its subblocks plugged.
\<close>

definition two_memory_blocks :: virtio_mem where
  "two_memory_blocks =
     zeroed_virtio_mem\<lparr>
       in_sbm := True, addr := 0x80000000, region_size := 0x40000000,
       device_block_size := 0x200000, sbm_sb_size := 0x200000, sbm_sbs_per_mb := 64,
       sbm_first_mb_id := 16, sbm_next_mb_id := 18, sbm_last_usable_mb_id := 23,
       sbm_mb_states := [VIRTIO_MEM_SBM_MB_UNUSED, VIRTIO_MEM_SBM_MB_OFFLINE],
       sbm_mb_count := (\<lambda>_. 0)(VIRTIO_MEM_SBM_MB_UNUSED := 1, VIRTIO_MEM_SBM_MB_OFFLINE := 1),
       sbm_sb_states := replicate 64 False @ replicate 64 True\<rparr>"

text \<open>
  A device whose tables fill one page each, as \<^verbatim>\<open>vzalloc\<close> hands them out: the first block
  exists and is unused, the other entries of the page are zero.
\<close>

definition one_page_of_states :: virtio_mem where
  "one_page_of_states =
     one_unused_block\<lparr>
       sbm_mb_states := replicate 4096 VIRTIO_MEM_SBM_MB_UNUSED,
       sbm_sb_states := replicate 32768 False,
       bbm_bb_states := replicate 4096 VIRTIO_MEM_BBM_BB_UNUSED\<rparr>"

text \<open>
  The calls a plug request makes for its first \<open>j\<close> blocks, and an environment in which the
  third \<^verbatim>\<open>mem_buf_alloc\<close> of a request fails with \<^verbatim>\<open>-EBUSY\<close>.
\<close>

definition plug_events :: "u64 \<Rightarrow> u64 \<Rightarrow> nat \<Rightarrow> ext_event list" where
  "plug_events a bs j =
     concat (map (\<lambda>i. [EV_mem_buf_alloc (a + of_nat i * bs), EV_xa_store (a + of_nat i * bs)])
       [0..<j])"

definition third_mem_buf_alloc_busy :: env where
  "third_mem_buf_alloc_busy =
     \<lparr>ret = (\<lambda>n. if n = 5 then - 16 else 0), async_config = (\<lambda>_. False)\<rparr>"


section \<open>Properties\<close>

subsection \<open>The state setters and their counters\<close>

lemma sbm_set_mb_state_zero_counter:
  assumes "unat (mb_id - sbm_first_mb_id vm) < length (sbm_mb_states vm)"
    and "sbm_mb_count vm (sbm_mb_states vm ! unat (mb_id - sbm_first_mb_id vm)) = 0"
  shows "virtio_mem_sbm_set_mb_state vm mb_id st = None"
  using assms by (simp add: virtio_mem_sbm_set_mb_state_def Let_def)

lemma bbm_set_bb_state_zero_counter:
  assumes "unat (bb_id - bbm_first_bb_id vm) < length (bbm_bb_states vm)"
    and "bbm_bb_count vm (bbm_bb_states vm ! unat (bb_id - bbm_first_bb_id vm)) = 0"
  shows "virtio_mem_bbm_set_bb_state vm bb_id st = None"
  using assms by (simp add: virtio_mem_bbm_set_bb_state_def Let_def)

lemma sbm_set_mb_state_positive_counter:
  assumes "unat (mb_id - sbm_first_mb_id vm) < length (sbm_mb_states vm)"
    and "sbm_mb_count vm (sbm_mb_states vm ! unat (mb_id - sbm_first_mb_id vm)) \<noteq> 0"
  shows "virtio_mem_sbm_set_mb_state vm mb_id st =
     (let idx = unat (mb_id - sbm_first_mb_id vm);
          old_state = sbm_mb_states vm ! idx;
          c = (sbm_mb_count vm)(old_state := sbm_mb_count vm old_state - 1)
      in Some (vm\<lparr>sbm_mb_states := (sbm_mb_states vm)[idx := st],
                   sbm_mb_count := c(st := c st + 1)\<rparr>))"
  using assms by (simp add: virtio_mem_sbm_set_mb_state_def Let_def)

lemma bbm_set_bb_state_positive_counter:
  assumes "unat (bb_id - bbm_first_bb_id vm) < length (bbm_bb_states vm)"
    and "bbm_bb_count vm (bbm_bb_states vm ! unat (bb_id - bbm_first_bb_id vm)) \<noteq> 0"
  shows "virtio_mem_bbm_set_bb_state vm bb_id st =
     (let idx = unat (bb_id - bbm_first_bb_id vm);
          old_state = bbm_bb_states vm ! idx;
          c = (bbm_bb_count vm)(old_state := bbm_bb_count vm old_state - 1)
      in Some (vm\<lparr>bbm_bb_states := (bbm_bb_states vm)[idx := st],
                   bbm_bb_count := c(st := c st + 1)\<rparr>))"
  using assms by (simp add: virtio_mem_bbm_set_bb_state_def Let_def)

text \<open>
  Claim C4. In Sub-Block Mode and in Big Block Mode alike, a call of the state setter on
  a block of the table whose old state has the counter zero stops the kernel (the model
  answers \<open>None\<close>). When the counter of the old state is not zero the call returns: the
  table holds the new state at the block's index, the counter of the old state is one
  lower and then the counter of the new state one higher. Under the invariant that every
  block below \<open>next_id\<close> is in a state with a counter that is not zero, the call for such
  a block returns.
\<close>

theorem set_state_aborts_iff_old_counter_zero:
  "(unat (mb_id - sbm_first_mb_id vm) < length (sbm_mb_states vm) \<longrightarrow>
      (sbm_mb_count vm (sbm_mb_states vm ! unat (mb_id - sbm_first_mb_id vm)) = 0 \<longrightarrow>
         virtio_mem_sbm_set_mb_state vm mb_id st = None) \<and>
      (sbm_mb_count vm (sbm_mb_states vm ! unat (mb_id - sbm_first_mb_id vm)) \<noteq> 0 \<longrightarrow>
         virtio_mem_sbm_set_mb_state vm mb_id st =
           (let idx = unat (mb_id - sbm_first_mb_id vm);
                old_state = sbm_mb_states vm ! idx;
                c = (sbm_mb_count vm)(old_state := sbm_mb_count vm old_state - 1)
            in Some (vm\<lparr>sbm_mb_states := (sbm_mb_states vm)[idx := st],
                         sbm_mb_count := c(st := c st + 1)\<rparr>)))) \<and>
   (unat (bb_id - bbm_first_bb_id vm) < length (bbm_bb_states vm) \<longrightarrow>
      (bbm_bb_count vm (bbm_bb_states vm ! unat (bb_id - bbm_first_bb_id vm)) = 0 \<longrightarrow>
         virtio_mem_bbm_set_bb_state vm bb_id bst = None) \<and>
      (bbm_bb_count vm (bbm_bb_states vm ! unat (bb_id - bbm_first_bb_id vm)) \<noteq> 0 \<longrightarrow>
         virtio_mem_bbm_set_bb_state vm bb_id bst =
           (let idx = unat (bb_id - bbm_first_bb_id vm);
                old_state = bbm_bb_states vm ! idx;
                c = (bbm_bb_count vm)(old_state := bbm_bb_count vm old_state - 1)
            in Some (vm\<lparr>bbm_bb_states := (bbm_bb_states vm)[idx := bst],
                         bbm_bb_count := c(bst := c bst + 1)\<rparr>)))) \<and>
   (sbm_occupied_states_counted vm \<and>
      unat (mb_id - sbm_first_mb_id vm) < unat (sbm_next_mb_id vm - sbm_first_mb_id vm) \<longrightarrow>
      virtio_mem_sbm_set_mb_state vm mb_id st \<noteq> None) \<and>
   (bbm_occupied_states_counted vm \<and>
      unat (bb_id - bbm_first_bb_id vm) < unat (bbm_next_bb_id vm - bbm_first_bb_id vm) \<longrightarrow>
      virtio_mem_bbm_set_bb_state vm bb_id bst \<noteq> None)"
proof (intro conjI impI)
  assume "sbm_occupied_states_counted vm \<and>
      unat (mb_id - sbm_first_mb_id vm) < unat (sbm_next_mb_id vm - sbm_first_mb_id vm)"
  then have "unat (mb_id - sbm_first_mb_id vm) < length (sbm_mb_states vm)"
    and "sbm_mb_count vm (sbm_mb_states vm ! unat (mb_id - sbm_first_mb_id vm)) \<noteq> 0"
    by (simp_all add: sbm_occupied_states_counted_def)
  then show "virtio_mem_sbm_set_mb_state vm mb_id st \<noteq> None"
    by (simp add: sbm_set_mb_state_positive_counter Let_def)
next
  assume "bbm_occupied_states_counted vm \<and>
      unat (bb_id - bbm_first_bb_id vm) < unat (bbm_next_bb_id vm - bbm_first_bb_id vm)"
  then have "unat (bb_id - bbm_first_bb_id vm) < length (bbm_bb_states vm)"
    and "bbm_bb_count vm (bbm_bb_states vm ! unat (bb_id - bbm_first_bb_id vm)) \<noteq> 0"
    by (simp_all add: bbm_occupied_states_counted_def)
  then show "virtio_mem_bbm_set_bb_state vm bb_id bst \<noteq> None"
    by (simp add: bbm_set_bb_state_positive_counter Let_def)
qed (simp_all add: sbm_set_mb_state_zero_counter bbm_set_bb_state_zero_counter
       sbm_set_mb_state_positive_counter bbm_set_bb_state_positive_counter)

theorem set_state_aborts_iff_old_counter_zero_witness:
  "sbm_occupied_states_counted one_unused_block \<and>
   virtio_mem_sbm_set_mb_state one_unused_block 0 VIRTIO_MEM_SBM_MB_OFFLINE \<noteq> None \<and>
   sbm_mb_count (the (virtio_mem_sbm_set_mb_state one_unused_block 0 VIRTIO_MEM_SBM_MB_OFFLINE))
     VIRTIO_MEM_SBM_MB_OFFLINE = 1 \<and>
   sbm_mb_count (the (virtio_mem_sbm_set_mb_state one_unused_block 0 VIRTIO_MEM_SBM_MB_OFFLINE))
     VIRTIO_MEM_SBM_MB_UNUSED = 0 \<and>
   virtio_mem_sbm_set_mb_state
     (one_unused_block\<lparr>sbm_mb_count := (\<lambda>_. 0)\<rparr>) 0 VIRTIO_MEM_SBM_MB_OFFLINE = None \<and>
   virtio_mem_bbm_set_bb_state
     (one_unused_block\<lparr>bbm_bb_count := (\<lambda>_. 0)\<rparr>) 0 VIRTIO_MEM_BBM_BB_ADDED = None"
  using set_state_aborts_iff_old_counter_zero [where vm = one_unused_block and mb_id = 0
          and bb_id = 0 and st = VIRTIO_MEM_SBM_MB_OFFLINE and bst = VIRTIO_MEM_BBM_BB_ADDED]
        set_state_aborts_iff_old_counter_zero
          [where vm = "one_unused_block\<lparr>sbm_mb_count := (\<lambda>_. 0), bbm_bb_count := (\<lambda>_. 0)\<rparr>"
             and mb_id = 0 and bb_id = 0 and st = VIRTIO_MEM_SBM_MB_OFFLINE
             and bst = VIRTIO_MEM_BBM_BB_ADDED]
  by (simp add: one_unused_block_def zeroed_virtio_mem_def sbm_occupied_states_counted_def
        virtio_mem_sbm_set_mb_state_def virtio_mem_bbm_set_bb_state_def Let_def)

subsection \<open>The sum of the counters\<close>

lemma sbm_set_mb_state_count_sum:
  assumes "virtio_mem_sbm_set_mb_state vm mb_id st = Some vm'"
  shows "sbm_mb_count_sum vm' = sbm_mb_count_sum vm"
proof -
  let ?old = "sbm_mb_states vm ! unat (mb_id - sbm_first_mb_id vm)"
  from assms have c: "sbm_mb_count vm' =
      ((sbm_mb_count vm)(?old := sbm_mb_count vm ?old - 1))
        (st := ((sbm_mb_count vm)(?old := sbm_mb_count vm ?old - 1)) st + 1)"
    by (auto simp: virtio_mem_sbm_set_mb_state_def Let_def split: if_splits)
  show ?thesis
    unfolding sbm_mb_count_sum_def c
    by (cases st; cases ?old) simp_all
qed

lemma bbm_set_bb_state_count_sum:
  assumes "virtio_mem_bbm_set_bb_state vm bb_id st = Some vm'"
  shows "bbm_bb_count_sum vm' = bbm_bb_count_sum vm"
proof -
  let ?old = "bbm_bb_states vm ! unat (bb_id - bbm_first_bb_id vm)"
  from assms have c: "bbm_bb_count vm' =
      ((bbm_bb_count vm)(?old := bbm_bb_count vm ?old - 1))
        (st := ((bbm_bb_count vm)(?old := bbm_bb_count vm ?old - 1)) st + 1)"
    by (auto simp: virtio_mem_bbm_set_bb_state_def Let_def split: if_splits)
  show ?thesis
    unfolding bbm_bb_count_sum_def c
    by (cases st; cases ?old) simp_all
qed

lemma sbm_set_mb_state_ids:
  "virtio_mem_sbm_set_mb_state vm mb_id st = Some vm' \<Longrightarrow>
     sbm_next_mb_id vm' = sbm_next_mb_id vm \<and> sbm_first_mb_id vm' = sbm_first_mb_id vm"
  by (auto simp: virtio_mem_sbm_set_mb_state_def Let_def split: if_splits)

lemma bbm_set_bb_state_ids:
  "virtio_mem_bbm_set_bb_state vm bb_id st = Some vm' \<Longrightarrow>
     bbm_next_bb_id vm' = bbm_next_bb_id vm \<and> bbm_first_bb_id vm' = bbm_first_bb_id vm"
  by (auto simp: virtio_mem_bbm_set_bb_state_def Let_def split: if_splits)

lemma ext_call_tables [simp]:
  "sbm_mb_count (snd (ext_call e ev vm)) = sbm_mb_count vm"
  "sbm_next_mb_id (snd (ext_call e ev vm)) = sbm_next_mb_id vm"
  "sbm_first_mb_id (snd (ext_call e ev vm)) = sbm_first_mb_id vm"
  "sbm_mb_states (snd (ext_call e ev vm)) = sbm_mb_states vm"
  "sbm_sb_states (snd (ext_call e ev vm)) = sbm_sb_states vm"
  "bbm_bb_count (snd (ext_call e ev vm)) = bbm_bb_count vm"
  "bbm_next_bb_id (snd (ext_call e ev vm)) = bbm_next_bb_id vm"
  "bbm_first_bb_id (snd (ext_call e ev vm)) = bbm_first_bb_id vm"
  "bbm_bb_states (snd (ext_call e ev vm)) = bbm_bb_states vm"
  by (simp_all add: ext_call_def Let_def virtio_mem_config_changed_def virtio_mem_retry_def)

lemma ext_call_snd: "ext_call e ev vm = (r, vm') \<Longrightarrow> vm' = snd (ext_call e ev vm)"
  by simp

lemma sbm_mb_states_prepare_next_mb_frame:
  "virtio_mem_sbm_mb_states_prepare_next_mb k e vm = Some (rc, vm') \<Longrightarrow>
     sbm_mb_count vm' = sbm_mb_count vm \<and> sbm_next_mb_id vm' = sbm_next_mb_id vm
     \<and> sbm_first_mb_id vm' = sbm_first_mb_id vm"
  by (auto simp: virtio_mem_sbm_mb_states_prepare_next_mb_def Let_def
           split: if_splits prod.splits Option.bind_splits dest!: ext_call_snd)

lemma sbm_sb_states_prepare_next_mb_frame:
  "virtio_mem_sbm_sb_states_prepare_next_mb k e vm = Some (rc, vm') \<Longrightarrow>
     sbm_mb_count vm' = sbm_mb_count vm \<and> sbm_next_mb_id vm' = sbm_next_mb_id vm
     \<and> sbm_first_mb_id vm' = sbm_first_mb_id vm"
  by (auto simp: virtio_mem_sbm_sb_states_prepare_next_mb_def Let_def
           split: if_splits prod.splits Option.bind_splits dest!: ext_call_snd)

lemma bbm_bb_states_prepare_next_bb_frame:
  "virtio_mem_bbm_bb_states_prepare_next_bb k e vm = Some (rc, vm') \<Longrightarrow>
     bbm_bb_count vm' = bbm_bb_count vm \<and> bbm_next_bb_id vm' = bbm_next_bb_id vm
     \<and> bbm_first_bb_id vm' = bbm_first_bb_id vm"
  by (auto simp: virtio_mem_bbm_bb_states_prepare_next_bb_def Let_def
           split: if_splits prod.splits Option.bind_splits dest!: ext_call_snd)

lemma sbm_prepare_next_mb_effect:
  assumes "virtio_mem_sbm_prepare_next_mb k e vm mb0 = Some (rc, mb_id, vm')"
  shows "sbm_first_mb_id vm' = sbm_first_mb_id vm \<and>
         (if rc = 0
          then sbm_next_mb_id vm' = sbm_next_mb_id vm + 1 \<and> mb_id = sbm_next_mb_id vm \<and>
               sbm_mb_count vm' = (sbm_mb_count vm)(VIRTIO_MEM_SBM_MB_UNUSED :=
                   sbm_mb_count vm VIRTIO_MEM_SBM_MB_UNUSED + 1)
          else sbm_next_mb_id vm' = sbm_next_mb_id vm \<and> sbm_mb_count vm' = sbm_mb_count vm)"
  using assms
  by (auto simp: virtio_mem_sbm_prepare_next_mb_def Let_def errno_defs
           split: if_splits prod.splits Option.bind_splits
           dest!: sbm_mb_states_prepare_next_mb_frame sbm_sb_states_prepare_next_mb_frame)

lemma bbm_prepare_next_bb_effect:
  assumes "virtio_mem_bbm_prepare_next_bb k e vm bb0 = Some (rc, bb_id, vm')"
  shows "bbm_first_bb_id vm' = bbm_first_bb_id vm \<and>
         (if rc = 0
          then bbm_next_bb_id vm' = bbm_next_bb_id vm + 1 \<and> bb_id = bbm_next_bb_id vm \<and>
               bbm_bb_count vm' = (bbm_bb_count vm)(VIRTIO_MEM_BBM_BB_UNUSED :=
                   bbm_bb_count vm VIRTIO_MEM_BBM_BB_UNUSED + 1)
          else bbm_next_bb_id vm' = bbm_next_bb_id vm \<and> bbm_bb_count vm' = bbm_bb_count vm)"
  using assms
  by (auto simp: virtio_mem_bbm_prepare_next_bb_def Let_def errno_defs
           split: if_splits prod.splits Option.bind_splits
           dest!: bbm_bb_states_prepare_next_bb_frame)

lemma sbm_prepare_next_mb_inv:
  "virtio_mem_sbm_prepare_next_mb k e vm mb0 = Some (rc, mb_id, vm') \<Longrightarrow>
     sbm_counters_sum_inv vm \<Longrightarrow> sbm_counters_sum_inv vm'"
  by (drule sbm_prepare_next_mb_effect)
     (auto simp: sbm_counters_sum_inv_def sbm_mb_count_sum_def add.assoc split: if_splits)

lemma bbm_prepare_next_bb_inv:
  "virtio_mem_bbm_prepare_next_bb k e vm bb0 = Some (rc, bb_id, vm') \<Longrightarrow>
     bbm_counters_sum_inv vm \<Longrightarrow> bbm_counters_sum_inv vm'"
  by (drule bbm_prepare_next_bb_effect)
     (auto simp: bbm_counters_sum_inv_def bbm_bb_count_sum_def add.assoc split: if_splits)

text \<open>
  Claim C9. In each mode the sum of the per-state counters equals
  \<open>next_id - first_id\<close>, and the two operations that write the counters keep it so. A
  state change stores the new state in the entry of the block, takes one from the counter
  of the state the block was in and adds one to the counter of the new state, and changes no
  other counter; so it leaves the sum, \<open>next_id\<close> and \<open>first_id\<close> as they are. Preparing
  the next block either fails and changes neither \<open>next_id\<close> nor a counter, or advances
  \<open>next_id\<close> by one and raises the counter of \<^verbatim>\<open>UNUSED\<close> by one.
\<close>

theorem counters_sum_invariant:
  "(virtio_mem_sbm_set_mb_state vm mb_id st = Some vm_a \<longrightarrow>
      sbm_mb_states vm_a = (sbm_mb_states vm)[unat (mb_id - sbm_first_mb_id vm) := st] \<and>
      (\<forall>s. sbm_mb_count vm_a s =
         sbm_mb_count vm s -
           (if s = sbm_mb_states vm ! unat (mb_id - sbm_first_mb_id vm) then 1 else 0) +
           (if s = st then 1 else 0)) \<and>
      sbm_mb_count_sum vm_a = sbm_mb_count_sum vm \<and>
      sbm_next_mb_id vm_a = sbm_next_mb_id vm \<and> sbm_first_mb_id vm_a = sbm_first_mb_id vm \<and>
      (sbm_counters_sum_inv vm \<longrightarrow> sbm_counters_sum_inv vm_a)) \<and>
   (virtio_mem_sbm_prepare_next_mb k e vm mb_in = Some (rc, mb, vm_b) \<longrightarrow>
      sbm_first_mb_id vm_b = sbm_first_mb_id vm \<and>
      (if rc = 0
       then sbm_next_mb_id vm_b = sbm_next_mb_id vm + 1 \<and>
            sbm_mb_count vm_b = (sbm_mb_count vm)(VIRTIO_MEM_SBM_MB_UNUSED :=
               sbm_mb_count vm VIRTIO_MEM_SBM_MB_UNUSED + 1)
       else sbm_next_mb_id vm_b = sbm_next_mb_id vm \<and> sbm_mb_count vm_b = sbm_mb_count vm) \<and>
      (sbm_counters_sum_inv vm \<longrightarrow> sbm_counters_sum_inv vm_b)) \<and>
   (virtio_mem_bbm_set_bb_state vm bb_id bst = Some vm_c \<longrightarrow>
      bbm_bb_states vm_c = (bbm_bb_states vm)[unat (bb_id - bbm_first_bb_id vm) := bst] \<and>
      (\<forall>s. bbm_bb_count vm_c s =
         bbm_bb_count vm s -
           (if s = bbm_bb_states vm ! unat (bb_id - bbm_first_bb_id vm) then 1 else 0) +
           (if s = bst then 1 else 0)) \<and>
      bbm_bb_count_sum vm_c = bbm_bb_count_sum vm \<and>
      bbm_next_bb_id vm_c = bbm_next_bb_id vm \<and> bbm_first_bb_id vm_c = bbm_first_bb_id vm \<and>
      (bbm_counters_sum_inv vm \<longrightarrow> bbm_counters_sum_inv vm_c)) \<and>
   (virtio_mem_bbm_prepare_next_bb k e vm bb_in = Some (rcb, bb, vm_d) \<longrightarrow>
      bbm_first_bb_id vm_d = bbm_first_bb_id vm \<and>
      (if rcb = 0
       then bbm_next_bb_id vm_d = bbm_next_bb_id vm + 1 \<and>
            bbm_bb_count vm_d = (bbm_bb_count vm)(VIRTIO_MEM_BBM_BB_UNUSED :=
               bbm_bb_count vm VIRTIO_MEM_BBM_BB_UNUSED + 1)
       else bbm_next_bb_id vm_d = bbm_next_bb_id vm \<and> bbm_bb_count vm_d = bbm_bb_count vm) \<and>
      (bbm_counters_sum_inv vm \<longrightarrow> bbm_counters_sum_inv vm_d))"
proof (intro conjI impI)
  assume a: "virtio_mem_sbm_set_mb_state vm mb_id st = Some vm_a"
  show "sbm_mb_states vm_a = (sbm_mb_states vm)[unat (mb_id - sbm_first_mb_id vm) := st]"
    using a by (auto simp: virtio_mem_sbm_set_mb_state_def Let_def split: if_splits)
  show "\<forall>s. sbm_mb_count vm_a s =
         sbm_mb_count vm s -
           (if s = sbm_mb_states vm ! unat (mb_id - sbm_first_mb_id vm) then 1 else 0) +
           (if s = st then 1 else 0)"
    using a by (auto simp: virtio_mem_sbm_set_mb_state_def Let_def split: if_splits)
  show s: "sbm_mb_count_sum vm_a = sbm_mb_count_sum vm"
    using a by (rule sbm_set_mb_state_count_sum)
  show n: "sbm_next_mb_id vm_a = sbm_next_mb_id vm" and f: "sbm_first_mb_id vm_a = sbm_first_mb_id vm"
    using sbm_set_mb_state_ids [OF a] by simp_all
  show "sbm_counters_sum_inv vm_a" if "sbm_counters_sum_inv vm"
    using that s n f by (simp add: sbm_counters_sum_inv_def)
next
  assume a: "virtio_mem_bbm_set_bb_state vm bb_id bst = Some vm_c"
  show "bbm_bb_states vm_c = (bbm_bb_states vm)[unat (bb_id - bbm_first_bb_id vm) := bst]"
    using a by (auto simp: virtio_mem_bbm_set_bb_state_def Let_def split: if_splits)
  show "\<forall>s. bbm_bb_count vm_c s =
         bbm_bb_count vm s -
           (if s = bbm_bb_states vm ! unat (bb_id - bbm_first_bb_id vm) then 1 else 0) +
           (if s = bst then 1 else 0)"
    using a by (auto simp: virtio_mem_bbm_set_bb_state_def Let_def split: if_splits)
  show s: "bbm_bb_count_sum vm_c = bbm_bb_count_sum vm"
    using a by (rule bbm_set_bb_state_count_sum)
  show n: "bbm_next_bb_id vm_c = bbm_next_bb_id vm" and f: "bbm_first_bb_id vm_c = bbm_first_bb_id vm"
    using bbm_set_bb_state_ids [OF a] by simp_all
  show "bbm_counters_sum_inv vm_c" if "bbm_counters_sum_inv vm"
    using that s n f by (simp add: bbm_counters_sum_inv_def)
next
  assume a: "virtio_mem_sbm_prepare_next_mb k e vm mb_in = Some (rc, mb, vm_b)"
  show "sbm_first_mb_id vm_b = sbm_first_mb_id vm"
    using sbm_prepare_next_mb_effect [OF a] by simp
  show "if rc = 0
       then sbm_next_mb_id vm_b = sbm_next_mb_id vm + 1 \<and>
            sbm_mb_count vm_b = (sbm_mb_count vm)(VIRTIO_MEM_SBM_MB_UNUSED :=
               sbm_mb_count vm VIRTIO_MEM_SBM_MB_UNUSED + 1)
       else sbm_next_mb_id vm_b = sbm_next_mb_id vm \<and> sbm_mb_count vm_b = sbm_mb_count vm"
    using sbm_prepare_next_mb_effect [OF a] by (simp split: if_splits)
  show "sbm_counters_sum_inv vm_b" if "sbm_counters_sum_inv vm"
    using a that by (rule sbm_prepare_next_mb_inv)
next
  assume a: "virtio_mem_bbm_prepare_next_bb k e vm bb_in = Some (rcb, bb, vm_d)"
  show "bbm_first_bb_id vm_d = bbm_first_bb_id vm"
    using bbm_prepare_next_bb_effect [OF a] by simp
  show "if rcb = 0
       then bbm_next_bb_id vm_d = bbm_next_bb_id vm + 1 \<and>
            bbm_bb_count vm_d = (bbm_bb_count vm)(VIRTIO_MEM_BBM_BB_UNUSED :=
               bbm_bb_count vm VIRTIO_MEM_BBM_BB_UNUSED + 1)
       else bbm_next_bb_id vm_d = bbm_next_bb_id vm \<and> bbm_bb_count vm_d = bbm_bb_count vm"
    using bbm_prepare_next_bb_effect [OF a] by (simp split: if_splits)
  show "bbm_counters_sum_inv vm_d" if "bbm_counters_sum_inv vm"
    using a that by (rule bbm_prepare_next_bb_inv)
qed

lemmas one_page_of_states_defs =
  one_page_of_states_def example_kconf_def calm_env_def one_unused_block_def zeroed_virtio_mem_def

lemma one_page_of_states_sbm_prepare:
  "virtio_mem_sbm_prepare_next_mb example_kconf calm_env one_page_of_states 0 =
     Some (0, 1, one_page_of_states\<lparr>
        sbm_mb_count := (\<lambda>_. 0)(VIRTIO_MEM_SBM_MB_UNUSED := 2), sbm_next_mb_id := 2\<rparr>)"
  by (simp add: virtio_mem_sbm_prepare_next_mb_def virtio_mem_sbm_mb_states_prepare_next_mb_def
     virtio_mem_sbm_sb_states_prepare_next_mb_def one_page_of_states_defs
     ext_call_def PFN_UP_def BITS_TO_LONGS_def grow_array_def Let_def)

lemma one_page_of_states_bbm_prepare:
  "virtio_mem_bbm_prepare_next_bb example_kconf calm_env one_page_of_states 0 =
     Some (0, 1, one_page_of_states\<lparr>
        bbm_bb_count := (\<lambda>_. 0)(VIRTIO_MEM_BBM_BB_UNUSED := 2), bbm_next_bb_id := 2\<rparr>)"
  by (simp add: virtio_mem_bbm_prepare_next_bb_def virtio_mem_bbm_bb_states_prepare_next_bb_def
     one_page_of_states_defs ext_call_def PFN_UP_def BITS_TO_LONGS_def grow_array_def Let_def)

theorem counters_sum_invariant_witness:
  "sbm_counters_sum_inv one_page_of_states \<and> bbm_counters_sum_inv one_page_of_states \<and>
   virtio_mem_sbm_set_mb_state one_page_of_states 0 VIRTIO_MEM_SBM_MB_OFFLINE \<noteq> None \<and>
   virtio_mem_sbm_get_mb_state
     (the (virtio_mem_sbm_set_mb_state one_page_of_states 0 VIRTIO_MEM_SBM_MB_OFFLINE)) 0 =
     Some VIRTIO_MEM_SBM_MB_OFFLINE \<and>
   sbm_mb_count
     (the (virtio_mem_sbm_set_mb_state one_page_of_states 0 VIRTIO_MEM_SBM_MB_OFFLINE))
     VIRTIO_MEM_SBM_MB_UNUSED = 0 \<and>
   sbm_mb_count
     (the (virtio_mem_sbm_set_mb_state one_page_of_states 0 VIRTIO_MEM_SBM_MB_OFFLINE))
     VIRTIO_MEM_SBM_MB_OFFLINE = 1 \<and>
   sbm_mb_count
     (the (virtio_mem_sbm_set_mb_state one_page_of_states 0 VIRTIO_MEM_SBM_MB_OFFLINE))
     VIRTIO_MEM_SBM_MB_KERNEL = 0 \<and>
   sbm_counters_sum_inv
     (the (virtio_mem_sbm_set_mb_state one_page_of_states 0 VIRTIO_MEM_SBM_MB_OFFLINE)) \<and>
   virtio_mem_bbm_set_bb_state one_page_of_states 0 VIRTIO_MEM_BBM_BB_ADDED \<noteq> None \<and>
   virtio_mem_bbm_get_bb_state
     (the (virtio_mem_bbm_set_bb_state one_page_of_states 0 VIRTIO_MEM_BBM_BB_ADDED)) 0 =
     Some VIRTIO_MEM_BBM_BB_ADDED \<and>
   bbm_bb_count
     (the (virtio_mem_bbm_set_bb_state one_page_of_states 0 VIRTIO_MEM_BBM_BB_ADDED))
     VIRTIO_MEM_BBM_BB_UNUSED = 0 \<and>
   bbm_bb_count
     (the (virtio_mem_bbm_set_bb_state one_page_of_states 0 VIRTIO_MEM_BBM_BB_ADDED))
     VIRTIO_MEM_BBM_BB_ADDED = 1 \<and>
   bbm_counters_sum_inv
     (the (virtio_mem_bbm_set_bb_state one_page_of_states 0 VIRTIO_MEM_BBM_BB_ADDED)) \<and>
   fst (the (virtio_mem_sbm_prepare_next_mb example_kconf calm_env one_page_of_states 0)) = 0 \<and>
   sbm_next_mb_id
     (snd (snd (the (virtio_mem_sbm_prepare_next_mb example_kconf calm_env one_page_of_states 0)))) =
     2 \<and>
   sbm_mb_count
     (snd (snd (the (virtio_mem_sbm_prepare_next_mb example_kconf calm_env one_page_of_states 0))))
     VIRTIO_MEM_SBM_MB_UNUSED = 2 \<and>
   virtio_mem_sbm_get_mb_state
     (snd (snd (the (virtio_mem_sbm_prepare_next_mb example_kconf calm_env one_page_of_states 0))))
     1 = Some VIRTIO_MEM_SBM_MB_UNUSED \<and>
   sbm_counters_sum_inv
     (snd (snd (the (virtio_mem_sbm_prepare_next_mb example_kconf calm_env one_page_of_states 0)))) \<and>
   fst (the (virtio_mem_bbm_prepare_next_bb example_kconf calm_env one_page_of_states 0)) = 0 \<and>
   bbm_next_bb_id
     (snd (snd (the (virtio_mem_bbm_prepare_next_bb example_kconf calm_env one_page_of_states 0)))) =
     2 \<and>
   bbm_bb_count
     (snd (snd (the (virtio_mem_bbm_prepare_next_bb example_kconf calm_env one_page_of_states 0))))
     VIRTIO_MEM_BBM_BB_UNUSED = 2 \<and>
   virtio_mem_bbm_get_bb_state
     (snd (snd (the (virtio_mem_bbm_prepare_next_bb example_kconf calm_env one_page_of_states 0))))
     1 = Some VIRTIO_MEM_BBM_BB_UNUSED \<and>
   bbm_counters_sum_inv
     (snd (snd (the (virtio_mem_bbm_prepare_next_bb example_kconf calm_env one_page_of_states 0))))"
proof -
  let ?vm = one_page_of_states
  let ?S = "the (virtio_mem_sbm_set_mb_state ?vm 0 VIRTIO_MEM_SBM_MB_OFFLINE)"
  let ?B = "the (virtio_mem_bbm_set_bb_state ?vm 0 VIRTIO_MEM_BBM_BB_ADDED)"
  let ?P = "the (virtio_mem_sbm_prepare_next_mb example_kconf calm_env ?vm 0)"
  let ?Q = "the (virtio_mem_bbm_prepare_next_bb example_kconf calm_env ?vm 0)"
  have i: "sbm_counters_sum_inv ?vm" "bbm_counters_sum_inv ?vm"
    by (simp_all add: sbm_counters_sum_inv_def bbm_counters_sum_inv_def sbm_mb_count_sum_def
          bbm_bb_count_sum_def one_page_of_states_defs)
  have d: "sbm_first_mb_id ?vm = 0" "bbm_first_bb_id ?vm = 0" "sbm_next_mb_id ?vm = 1"
    "bbm_next_bb_id ?vm = 1"
    "sbm_mb_states ?vm = replicate 4096 VIRTIO_MEM_SBM_MB_UNUSED"
    "bbm_bb_states ?vm = replicate 4096 VIRTIO_MEM_BBM_BB_UNUSED"
    "sbm_mb_count ?vm = (\<lambda>_. 0)(VIRTIO_MEM_SBM_MB_UNUSED := 1)"
    "bbm_bb_count ?vm = (\<lambda>_. 0)(VIRTIO_MEM_BBM_BB_UNUSED := 1)"
    by (simp_all add: one_page_of_states_defs)
  have s: "virtio_mem_sbm_set_mb_state ?vm 0 VIRTIO_MEM_SBM_MB_OFFLINE = Some ?S"
    by (simp add: virtio_mem_sbm_set_mb_state_def d Let_def)
  have b: "virtio_mem_bbm_set_bb_state ?vm 0 VIRTIO_MEM_BBM_BB_ADDED = Some ?B"
    by (simp add: virtio_mem_bbm_set_bb_state_def d Let_def)
  have p: "virtio_mem_sbm_prepare_next_mb example_kconf calm_env ?vm 0 =
      Some (0, 1, snd (snd ?P))"
    by (simp add: one_page_of_states_sbm_prepare)
  have q: "virtio_mem_bbm_prepare_next_bb example_kconf calm_env ?vm 0 =
      Some (0, 1, snd (snd ?Q))"
    by (simp add: one_page_of_states_bbm_prepare)
  note t = counters_sum_invariant [where vm = ?vm and mb_id = 0 and bb_id = 0
        and st = VIRTIO_MEM_SBM_MB_OFFLINE and bst = VIRTIO_MEM_BBM_BB_ADDED
        and k = example_kconf and e = calm_env and mb_in = 0 and bb_in = 0
        and vm_a = ?S and vm_c = ?B and rc = 0 and rcb = 0 and mb = 1 and bb = 1
        and vm_b = "snd (snd ?P)" and vm_d = "snd (snd ?Q)"]
  from t s have ts: "sbm_mb_states ?S = (sbm_mb_states ?vm)[unat (0 - sbm_first_mb_id ?vm) :=
        VIRTIO_MEM_SBM_MB_OFFLINE]"
      "\<forall>s. sbm_mb_count ?S s = sbm_mb_count ?vm s -
           (if s = sbm_mb_states ?vm ! unat (0 - sbm_first_mb_id ?vm) then 1 else 0) +
           (if s = VIRTIO_MEM_SBM_MB_OFFLINE then 1 else 0)"
      "sbm_first_mb_id ?S = sbm_first_mb_id ?vm"
      "sbm_counters_sum_inv ?S"
    using i by blast+
  from t b have tb: "bbm_bb_states ?B = (bbm_bb_states ?vm)[unat (0 - bbm_first_bb_id ?vm) :=
        VIRTIO_MEM_BBM_BB_ADDED]"
      "\<forall>s. bbm_bb_count ?B s = bbm_bb_count ?vm s -
           (if s = bbm_bb_states ?vm ! unat (0 - bbm_first_bb_id ?vm) then 1 else 0) +
           (if s = VIRTIO_MEM_BBM_BB_ADDED then 1 else 0)"
      "bbm_first_bb_id ?B = bbm_first_bb_id ?vm"
      "bbm_counters_sum_inv ?B"
    using i by blast+
  from t p have tp: "sbm_next_mb_id (snd (snd ?P)) = sbm_next_mb_id ?vm + 1"
      "sbm_mb_count (snd (snd ?P)) = (sbm_mb_count ?vm)(VIRTIO_MEM_SBM_MB_UNUSED :=
               sbm_mb_count ?vm VIRTIO_MEM_SBM_MB_UNUSED + 1)"
      "sbm_counters_sum_inv (snd (snd ?P))"
    using i by simp_all
  from t q have tq: "bbm_next_bb_id (snd (snd ?Q)) = bbm_next_bb_id ?vm + 1"
      "bbm_bb_count (snd (snd ?Q)) = (bbm_bb_count ?vm)(VIRTIO_MEM_BBM_BB_UNUSED :=
               bbm_bb_count ?vm VIRTIO_MEM_BBM_BB_UNUSED + 1)"
      "bbm_counters_sum_inv (snd (snd ?Q))"
    using i by simp_all
  have c1: "virtio_mem_sbm_set_mb_state ?vm 0 VIRTIO_MEM_SBM_MB_OFFLINE \<noteq> None"
    using s by blast
  have c2: "virtio_mem_sbm_get_mb_state ?S 0 = Some VIRTIO_MEM_SBM_MB_OFFLINE"
    by (simp add: virtio_mem_sbm_get_mb_state_def ts(1,3) d)
  have c3: "sbm_mb_count ?S VIRTIO_MEM_SBM_MB_UNUSED = 0"
    "sbm_mb_count ?S VIRTIO_MEM_SBM_MB_OFFLINE = 1"
    "sbm_mb_count ?S VIRTIO_MEM_SBM_MB_KERNEL = 0"
    by (simp_all add: ts(2) d)
  have c4: "virtio_mem_bbm_set_bb_state ?vm 0 VIRTIO_MEM_BBM_BB_ADDED \<noteq> None"
    using b by blast
  have c5: "virtio_mem_bbm_get_bb_state ?B 0 = Some VIRTIO_MEM_BBM_BB_ADDED"
    by (simp add: virtio_mem_bbm_get_bb_state_def tb(1,3) d)
  have c6: "bbm_bb_count ?B VIRTIO_MEM_BBM_BB_UNUSED = 0"
    "bbm_bb_count ?B VIRTIO_MEM_BBM_BB_ADDED = 1"
    by (simp_all add: tb(2) d)
  have c7: "fst ?P = 0" "fst ?Q = 0"
    by (simp_all add: one_page_of_states_sbm_prepare one_page_of_states_bbm_prepare)
  have c8: "sbm_next_mb_id (snd (snd ?P)) = 2" "sbm_mb_count (snd (snd ?P)) VIRTIO_MEM_SBM_MB_UNUSED = 2"
    by (simp_all add: tp d)
  have c9: "bbm_next_bb_id (snd (snd ?Q)) = 2" "bbm_bb_count (snd (snd ?Q)) VIRTIO_MEM_BBM_BB_UNUSED = 2"
    by (simp_all add: tq d)
  have c10: "virtio_mem_sbm_get_mb_state (snd (snd ?P)) 1 = Some VIRTIO_MEM_SBM_MB_UNUSED"
    by (simp add: one_page_of_states_sbm_prepare virtio_mem_sbm_get_mb_state_def d)
  have c11: "virtio_mem_bbm_get_bb_state (snd (snd ?Q)) 1 = Some VIRTIO_MEM_BBM_BB_UNUSED"
    by (simp add: one_page_of_states_bbm_prepare virtio_mem_bbm_get_bb_state_def d)
  show ?thesis
    by (intro conjI i c1 c2 c3 ts(4) c4 c5 c6 tb(4) c7 c8 tp(3) c9 tq(3) c10 c11)
qed

subsection \<open>What the calls to the hypervisor and to the memory manager leave unchanged\<close>

lemma host_frame_refl [simp]: "host_frame vm vm"
  by (simp add: host_frame_def)

lemma host_frame_trans: "host_frame a b \<Longrightarrow> host_frame b c \<Longrightarrow> host_frame a c"
  by (simp add: host_frame_def)

lemma host_frame_updates [simp]:
  "host_frame vm (vm'\<lparr>trace := t\<rparr>) = host_frame vm vm'"
  "host_frame vm (vm'\<lparr>config_changed := c\<rparr>) = host_frame vm vm'"
  "host_frame vm (vm'\<lparr>wq_queued := q\<rparr>) = host_frame vm vm'"
  "host_frame vm (vm'\<lparr>plugged_size := p\<rparr>) = host_frame vm vm'"
  "host_frame vm (vm'\<lparr>xa_membuf := x\<rparr>) = host_frame vm vm'"
  "host_frame vm (vm'\<lparr>offline_size := s\<rparr>) = host_frame vm vm'"
  "host_frame vm (vm'\<lparr>resource_name := n\<rparr>) = host_frame vm vm'"
  by (simp_all add: host_frame_def static_of_def sbm_tables_of_def bbm_tables_of_def pages_of_def)

lemma host_frame_retry [simp]: "host_frame vm (virtio_mem_retry vm') = host_frame vm vm'"
  by (simp add: virtio_mem_retry_def)

lemma host_frame_ext_call [simp]:
  "host_frame vm (snd (ext_call e ev vm')) = host_frame vm vm'"
  by (simp add: ext_call_def Let_def virtio_mem_config_changed_def)

lemma plugged_size_ext_call [simp]:
  "plugged_size (snd (ext_call e ev vm)) = plugged_size vm"
  "xa_membuf (snd (ext_call e ev vm)) = xa_membuf vm"
  "offline_size (snd (ext_call e ev vm)) = offline_size vm"
  by (simp_all add: ext_call_def Let_def virtio_mem_config_changed_def virtio_mem_retry_def)

lemma host_frame_updates_l [simp]:
  "host_frame (vm\<lparr>trace := t\<rparr>) vm' = host_frame vm vm'"
  "host_frame (vm\<lparr>config_changed := c\<rparr>) vm' = host_frame vm vm'"
  "host_frame (vm\<lparr>wq_queued := q\<rparr>) vm' = host_frame vm vm'"
  "host_frame (vm\<lparr>plugged_size := p\<rparr>) vm' = host_frame vm vm'"
  "host_frame (vm\<lparr>xa_membuf := x\<rparr>) vm' = host_frame vm vm'"
  "host_frame (vm\<lparr>offline_size := s\<rparr>) vm' = host_frame vm vm'"
  "host_frame (vm\<lparr>resource_name := n\<rparr>) vm' = host_frame vm vm'"
  by (simp_all add: host_frame_def static_of_def sbm_tables_of_def bbm_tables_of_def pages_of_def)

lemma host_frame_retry_l [simp]: "host_frame (virtio_mem_retry vm) vm' = host_frame vm vm'"
  by (simp add: virtio_mem_retry_def)

lemma host_frame_ext_call_l [simp]:
  "host_frame (snd (ext_call e ev vm)) vm' = host_frame vm vm'"
  by (simp add: ext_call_def Let_def virtio_mem_config_changed_def)

lemma send_unplug_request_loop_frame:
  assumes "virtio_mem_send_unplug_request_loop e bs vm a sz = Some y"
  shows "host_frame vm (snd y) \<and> plugged_size (snd y) = plugged_size vm \<and>
         xa_membuf (snd y) = xa_membuf vm"
proof (rule virtio_mem_send_unplug_request_loop.raw_induct
    [where P = "\<lambda>e bs vm a sz y. host_frame vm (snd y) \<and> plugged_size (snd y) = plugged_size vm \<and>
         xa_membuf (snd y) = xa_membuf vm", OF _ assms], goal_cases)
  case (1 loop e bs vm a sz y)
  show ?case
    using 1(2) by (auto split: if_splits option.splits dest!: 1(1))
qed

lemma send_unplug_request_frame:
  assumes "virtio_mem_send_unplug_request e vm a sz memmap = Some (rc, vm')"
  shows "host_frame vm vm' \<and> xa_membuf vm' = xa_membuf vm \<and>
    plugged_size vm' = (if rc = 0 \<and> \<not> memmap then plugged_size vm - sz else plugged_size vm)"
  using assms
  by (auto simp: virtio_mem_send_unplug_request_def split: Option.bind_splits if_splits
      dest!: send_unplug_request_loop_frame)

lemma send_plug_request_loop_frame:
  assumes "virtio_mem_send_plug_request_loop e bs memmap vm a sz = Some y"
  shows "case y of
           Inr vm' \<Rightarrow> host_frame vm vm' \<and>
             plugged_size vm' = (if memmap then plugged_size vm else plugged_size vm + sz)
         | Inl (rc, a', vm') \<Rightarrow> host_frame vm vm' \<and> rc \<noteq> 0 \<and>
             plugged_size vm' = (if memmap then plugged_size vm else plugged_size vm + (a' - a))"
proof (rule virtio_mem_send_plug_request_loop.raw_induct
    [where P = "\<lambda>e bs memmap vm a sz y. case y of
           Inr vm' \<Rightarrow> host_frame vm vm' \<and>
             plugged_size vm' = (if memmap then plugged_size vm else plugged_size vm + sz)
         | Inl (rc, a', vm') \<Rightarrow> host_frame vm vm' \<and> rc \<noteq> 0 \<and>
             plugged_size vm' = (if memmap then plugged_size vm else plugged_size vm + (a' - a))",
     OF _ assms], goal_cases)
  case (1 loop e bs memmap vm a sz y)
  show ?case
    using 1(2)
    by (auto simp: Let_def virtio_mem_convert_error_code_def errno_defs
          split: if_splits prod.splits sum.splits dest!: 1(1) ext_call_snd)
qed

lemma send_plug_request_frame:
  assumes "virtio_mem_send_plug_request e vm a sz memmap = Some (rc, vm')"
  shows "host_frame vm vm' \<and> (memmap \<longrightarrow> plugged_size vm' = plugged_size vm) \<and>
     (rc = 0 \<longrightarrow> \<not> memmap \<longrightarrow> plugged_size vm' = plugged_size vm + sz)"
  using assms
  by (auto simp: virtio_mem_send_plug_request_def Let_def errno_defs
      split: Option.bind_splits if_splits prod.splits sum.splits
      dest!: send_plug_request_loop_frame send_unplug_request_frame ext_call_snd
      intro: host_frame_trans)

lemma plug_memmap_frame:
  assumes "virtio_mem_plug_memmap k e vm a = Some (rc, vm')"
  shows "host_frame vm vm' \<and> plugged_size vm' = plugged_size vm"
  using assms
  by (auto simp: virtio_mem_plug_memmap_def split: if_splits dest!: send_plug_request_frame)

lemma unplug_memmap_frame:
  assumes "virtio_mem_unplug_memmap k e vm a = Some vm'"
  shows "host_frame vm vm' \<and> plugged_size vm' = plugged_size vm"
  using assms
  by (auto simp: virtio_mem_unplug_memmap_def split: if_splits Option.bind_splits
      dest!: send_unplug_request_frame)

lemma add_memory_frame:
  assumes "virtio_mem_add_memory k e vm a sz = Some (rc, vm')"
  shows "host_frame vm vm' \<and> plugged_size vm' = plugged_size vm"
  using assms
  by (auto simp: virtio_mem_add_memory_def Let_def errno_defs
      split: if_splits Option.bind_splits prod.splits
      dest!: plug_memmap_frame unplug_memmap_frame ext_call_snd intro: host_frame_trans)

lemma remove_memory_frame:
  assumes "virtio_mem_remove_memory k e vm a sz = Some (rc, vm')"
  shows "host_frame vm vm' \<and> plugged_size vm' = plugged_size vm"
  using assms
  by (auto simp: virtio_mem_remove_memory_def Let_def virtio_mem_retry_def
      split: if_splits Option.bind_splits prod.splits
      dest!: unplug_memmap_frame ext_call_snd intro: host_frame_trans)

lemma offline_and_remove_memory_frame:
  assumes "virtio_mem_offline_and_remove_memory k e vm a sz = Some (rc, vm')"
  shows "host_frame vm vm' \<and> plugged_size vm' = plugged_size vm"
  using assms
  by (auto simp: virtio_mem_offline_and_remove_memory_def Let_def virtio_mem_retry_def
      split: if_splits Option.bind_splits prod.splits
      dest!: unplug_memmap_frame ext_call_snd intro: host_frame_trans)

subsection \<open>Rollback of a big block that could not be added\<close>

lemma host_frame_bbm:
  "host_frame vm vm' \<Longrightarrow>
     bbm_bb_states vm' = bbm_bb_states vm \<and> bbm_bb_count vm' = bbm_bb_count vm \<and>
     bbm_next_bb_id vm' = bbm_next_bb_id vm \<and> bbm_first_bb_id vm' = bbm_first_bb_id vm \<and>
     bbm_bb_size vm' = bbm_bb_size vm \<and> bbm_last_usable_bb_id vm' = bbm_last_usable_bb_id vm"
  by (simp add: host_frame_def static_of_def bbm_tables_of_def)

lemma host_frame_sbm:
  "host_frame vm vm' \<Longrightarrow>
     sbm_mb_states vm' = sbm_mb_states vm \<and> sbm_mb_count vm' = sbm_mb_count vm \<and>
     sbm_sb_states vm' = sbm_sb_states vm \<and>
     sbm_next_mb_id vm' = sbm_next_mb_id vm \<and> sbm_first_mb_id vm' = sbm_first_mb_id vm \<and>
     sbm_sb_size vm' = sbm_sb_size vm \<and> sbm_sbs_per_mb vm' = sbm_sbs_per_mb vm \<and>
     sbm_last_usable_mb_id vm' = sbm_last_usable_mb_id vm \<and>
     sbm_have_unplugged_mb vm' = sbm_have_unplugged_mb vm"
  by (simp add: host_frame_def static_of_def sbm_tables_of_def)

lemma host_frame_static: "host_frame vm vm' \<Longrightarrow> static_of vm' = static_of vm"
  by (simp add: host_frame_def)

lemma bbm_plug_bb_frame:
  "virtio_mem_bbm_plug_bb e vm bb_id = Some (rc, vm') \<Longrightarrow>
     host_frame vm vm' \<and> (rc = 0 \<longrightarrow> plugged_size vm' = plugged_size vm + bbm_bb_size vm)"
  by (auto simp: virtio_mem_bbm_plug_bb_def dest!: send_plug_request_frame)

lemma bbm_unplug_bb_frame:
  "virtio_mem_bbm_unplug_bb e vm bb_id = Some (rc, vm') \<Longrightarrow>
     host_frame vm vm' \<and>
     plugged_size vm' = (if rc = 0 then plugged_size vm - bbm_bb_size vm else plugged_size vm)"
  by (auto simp: virtio_mem_bbm_unplug_bb_def dest!: send_unplug_request_frame)

lemma bbm_add_bb_frame:
  "virtio_mem_bbm_add_bb k e vm bb_id = Some (rc, vm') \<Longrightarrow>
     host_frame vm vm' \<and> plugged_size vm' = plugged_size vm"
  by (auto simp: virtio_mem_bbm_add_bb_def dest!: add_memory_frame)

lemma count_list_le_length: "count_list xs a \<le> length xs"
  by (induction xs) auto

lemma count_list_less_length:
  "i < length xs \<Longrightarrow> xs ! i \<noteq> a \<Longrightarrow> count_list xs a < length xs"
proof (induction xs arbitrary: i)
  case Nil
  then show ?case by simp
next
  case (Cons x xs)
  show ?case
  proof (cases i)
    case 0
    with Cons.prems show ?thesis
      using count_list_le_length [of xs a] by simp
  next
    case (Suc j)
    with Cons.prems Cons.IH [of j] show ?thesis by simp
  qed
qed

lemma count_list_pos: "i < length xs \<Longrightarrow> xs ! i = a \<Longrightarrow> 0 < count_list xs a"
  by (metis count_list_0_iff nth_mem not_gr_zero)

lemma u64_succ_nonzero:
  fixes x :: u64
  assumes "unat x + 1 < 2 ^ 64"
  shows "x + 1 \<noteq> 0"
proof
  assume "x + 1 = 0"
  then have "x = - 1" by (simp add: eq_neg_iff_add_eq_0)
  then have "unat x = 2 ^ 64 - 1"
    by (simp add: unsigned_minus_1_eq_mask mask_eq_exp_minus_1)
  with assms show False by simp
qed

lemma bbm_counters_exact_unused_block:
  assumes ex: "bbm_counters_exact vm"
    and idx: "unat (bb_id - bbm_first_bb_id vm) < unat (bbm_next_bb_id vm - bbm_first_bb_id vm)"
    and st: "bbm_bb_states vm ! unat (bb_id - bbm_first_bb_id vm) = VIRTIO_MEM_BBM_BB_UNUSED"
  shows "bbm_bb_count vm VIRTIO_MEM_BBM_BB_UNUSED \<noteq> 0"
    and "bbm_bb_count vm VIRTIO_MEM_BBM_BB_ADDED + 1 \<noteq> 0"
    and "unat (bb_id - bbm_first_bb_id vm) < length (bbm_bb_states vm)"
proof -
  let ?n = "unat (bbm_next_bb_id vm - bbm_first_bb_id vm)"
  let ?i = "unat (bb_id - bbm_first_bb_id vm)"
  let ?xs = "take ?n (bbm_bb_states vm)"
  from ex have len: "?n \<le> length (bbm_bb_states vm)"
    and u: "unat (bbm_bb_count vm VIRTIO_MEM_BBM_BB_UNUSED) = count_list ?xs VIRTIO_MEM_BBM_BB_UNUSED"
    and a: "unat (bbm_bb_count vm VIRTIO_MEM_BBM_BB_ADDED) = count_list ?xs VIRTIO_MEM_BBM_BB_ADDED"
    by (simp_all add: bbm_counters_exact_def Let_def)
  from len idx show "?i < length (bbm_bb_states vm)" by simp
  have l: "length ?xs = ?n" using len by simp
  have i: "?i < length ?xs" "?xs ! ?i = VIRTIO_MEM_BBM_BB_UNUSED"
    using idx st l by simp_all
  from count_list_pos [OF i] u show "bbm_bb_count vm VIRTIO_MEM_BBM_BB_UNUSED \<noteq> 0"
    by (metis less_numeral_extra(3) unat_0)
  have "count_list ?xs VIRTIO_MEM_BBM_BB_ADDED < ?n"
    using count_list_less_length [OF i(1), of VIRTIO_MEM_BBM_BB_ADDED] i(2) l by simp
  then have "unat (bbm_bb_count vm VIRTIO_MEM_BBM_BB_ADDED) + 1 < 2 ^ 64"
    using a unsigned_less [of "bbm_next_bb_id vm - bbm_first_bb_id vm", where 'a = nat]
    by simp
  then show "bbm_bb_count vm VIRTIO_MEM_BBM_BB_ADDED + 1 \<noteq> 0"
    by (rule u64_succ_nonzero)
qed



lemma send_plug_request_loop_done:
  "virtio_mem_send_plug_request_loop e bs m vm a 0 = Some (Inr vm)"
  by (subst virtio_mem_send_plug_request_loop.simps) simp

lemma send_plug_request_loop_step:
  "sz \<noteq> 0 \<Longrightarrow> virtio_mem_send_plug_request_loop e block_size memmap vm a sz =
     (let (membuf, vm) = ext_call e (EV_mem_buf_alloc a) vm
        in if membuf < 0 then Some (Inl (virtio_mem_convert_error_code membuf, a, vm))
           else
             let (x, vm) = ext_call e (EV_xa_store a) vm;
                 vm = (if x = 0 then vm\<lparr>xa_membuf := (xa_membuf vm)(a \<mapsto> nat membuf)\<rparr> else vm);
                 vm = (if \<not> memmap then vm\<lparr>plugged_size := plugged_size vm + block_size\<rparr>
                       else vm)
             in virtio_mem_send_plug_request_loop e block_size memmap vm
                  (a + block_size) (sz - block_size))"
  by (subst virtio_mem_send_plug_request_loop.simps) simp

lemma send_unplug_request_loop_done:
  "virtio_mem_send_unplug_request_loop e bs vm a 0 = Some (0, vm)"
  by (subst virtio_mem_send_unplug_request_loop.simps) simp

lemma send_unplug_request_loop_step:
  "sz \<noteq> 0 \<Longrightarrow> virtio_mem_send_unplug_request_loop e block_size vm a sz =
     (case xa_membuf vm a of
             None \<Rightarrow> Some (- EINVAL, vm)
           | Some membuf \<Rightarrow>
               virtio_mem_send_unplug_request_loop e block_size
                 (snd (ext_call e (EV_mem_buf_free membuf) vm))
                 (a + block_size) (sz - block_size))"
  by (subst virtio_mem_send_unplug_request_loop.simps) simp

lemmas run_send_requests =
  send_plug_request_loop_done send_plug_request_loop_step
  send_unplug_request_loop_done send_unplug_request_loop_step
  virtio_mem_send_plug_request_def virtio_mem_send_unplug_request_def
  virtio_mem_convert_error_code_def ext_call_def errno_defs Let_def

lemmas run_bbm_plug_and_add =
  run_send_requests virtio_mem_bbm_plug_bb_def virtio_mem_bbm_unplug_bb_def
  virtio_mem_bbm_add_bb_def virtio_mem_add_memory_def virtio_mem_plug_memmap_def
  virtio_mem_unplug_memmap_def virtio_mem_bb_id_to_phys_def
  virtio_mem_bbm_set_bb_state_def virtio_mem_bbm_get_bb_state_def

lemmas example_defs = example_kconf_def calm_env_def one_unused_block_def zeroed_virtio_mem_def

lemma returned_code:
  "(case x of None \<Rightarrow> False | Some (r, _) \<Rightarrow> r = c) \<Longrightarrow> x = Some (c, snd (the x))"
  by (auto split: option.splits)

lemma one_big_block_exact: "bbm_counters_exact one_big_block"
  by (simp add: bbm_counters_exact_def one_big_block_def one_unused_block_def zeroed_virtio_mem_def)


text \<open>
  Claim C3. In Big Block Mode, when the host plug of an unused big block succeeded and
  adding the big block to Linux fails with \<open>rc\<close>, \<^verbatim>\<open>virtio_mem_bbm_plug_and_add_bb\<close> returns
  \<open>rc\<close>, and the state of the big block afterwards is \<^verbatim>\<open>UNUSED\<close> when the compensating unplug
  succeeded and \<^verbatim>\<open>PLUGGED\<close> when it failed as well. The counters are assumed to count the
  blocks of the table, so that the state setters do not hit their \<^verbatim>\<open>BUG_ON\<close>.
\<close>

theorem bbm_plug_and_add_bb_rollback:
  assumes exact: "bbm_counters_exact vm"
    and idx: "unat (bb_id - bbm_first_bb_id vm) < unat (bbm_next_bb_id vm - bbm_first_bb_id vm)"
    and unused: "virtio_mem_bbm_get_bb_state vm bb_id = Some VIRTIO_MEM_BBM_BB_UNUSED"
    and plug: "virtio_mem_bbm_plug_bb e vm bb_id = Some (0, vm_p)"
    and add: "virtio_mem_bbm_add_bb k e
                (the (virtio_mem_bbm_set_bb_state vm_p bb_id VIRTIO_MEM_BBM_BB_ADDED)) bb_id =
              Some (rc, vm_a)"
    and fails: "rc \<noteq> 0"
    and unplug: "virtio_mem_bbm_unplug_bb e vm_a bb_id = Some (urc, vm_u)"
  shows "\<exists>vm'. virtio_mem_bbm_plug_and_add_bb k e vm bb_id = Some (rc, vm') \<and>
           virtio_mem_bbm_get_bb_state vm' bb_id =
             Some (if urc = 0 then VIRTIO_MEM_BBM_BB_UNUSED else VIRTIO_MEM_BBM_BB_PLUGGED)"
proof -
  let ?i = "unat (bb_id - bbm_first_bb_id vm)"
  from unused have st: "bbm_bb_states vm ! ?i = VIRTIO_MEM_BBM_BB_UNUSED"
    by (simp add: virtio_mem_bbm_get_bb_state_def Let_def split: if_splits)
  note c = bbm_counters_exact_unused_block [OF exact idx st]
  from bbm_plug_bb_frame [OF plug] have fp: "host_frame vm vm_p" by simp
  note tp = host_frame_bbm [OF fp]
  define vm_s where "vm_s = vm_p\<lparr>bbm_bb_states := (bbm_bb_states vm)[?i := VIRTIO_MEM_BBM_BB_ADDED],
      bbm_bb_count := ((bbm_bb_count vm)(VIRTIO_MEM_BBM_BB_UNUSED :=
          bbm_bb_count vm VIRTIO_MEM_BBM_BB_UNUSED - 1))
        (VIRTIO_MEM_BBM_BB_ADDED := bbm_bb_count vm VIRTIO_MEM_BBM_BB_ADDED + 1)\<rparr>"
  have set1: "virtio_mem_bbm_set_bb_state vm_p bb_id VIRTIO_MEM_BBM_BB_ADDED = Some vm_s"
    using c st tp by (simp add: virtio_mem_bbm_set_bb_state_def Let_def vm_s_def)
  from add set1 have add': "virtio_mem_bbm_add_bb k e vm_s bb_id = Some (rc, vm_a)" by simp
  from bbm_add_bb_frame [OF add'] have fa: "host_frame vm_s vm_a" by simp
  from bbm_unplug_bb_frame [OF unplug] have fu: "host_frame vm_a vm_u" by simp
  note tu = host_frame_bbm [OF host_frame_trans [OF fa fu]]
  have su: "bbm_bb_states vm_u = (bbm_bb_states vm)[?i := VIRTIO_MEM_BBM_BB_ADDED]"
    and cu: "bbm_bb_count vm_u VIRTIO_MEM_BBM_BB_ADDED = bbm_bb_count vm VIRTIO_MEM_BBM_BB_ADDED + 1"
    and fu': "bbm_first_bb_id vm_u = bbm_first_bb_id vm"
    using tu tp by (simp_all add: vm_s_def)
  obtain vm' where set2: "virtio_mem_bbm_set_bb_state vm_u bb_id
        (if urc = 0 then VIRTIO_MEM_BBM_BB_UNUSED else VIRTIO_MEM_BBM_BB_PLUGGED) = Some vm'"
      and st': "bbm_bb_states vm' = (bbm_bb_states vm_u)[?i :=
        (if urc = 0 then VIRTIO_MEM_BBM_BB_UNUSED else VIRTIO_MEM_BBM_BB_PLUGGED)]"
      and f': "bbm_first_bb_id vm' = bbm_first_bb_id vm"
    using c su cu fu' by (simp add: virtio_mem_bbm_set_bb_state_def Let_def)
  have "virtio_mem_bbm_plug_and_add_bb k e vm bb_id = Some (rc, vm')"
    using unused plug set1 add' fails unplug set2
    by (simp add: virtio_mem_bbm_plug_and_add_bb_def split: if_splits)
  moreover have "virtio_mem_bbm_get_bb_state vm' bb_id =
      Some (if urc = 0 then VIRTIO_MEM_BBM_BB_UNUSED else VIRTIO_MEM_BBM_BB_PLUGGED)"
    using st' f' su c(3) by (simp add: virtio_mem_bbm_get_bb_state_def Let_def)
  ultimately show ?thesis by blast
qed

theorem bbm_plug_and_add_bb_rollback_witness:
  "fst (the (virtio_mem_bbm_plug_and_add_bb example_kconf add_memory_fails one_big_block 0)) = - 12 \<and>
   virtio_mem_bbm_get_bb_state
     (snd (the (virtio_mem_bbm_plug_and_add_bb example_kconf add_memory_fails one_big_block 0))) 0 =
     Some VIRTIO_MEM_BBM_BB_UNUSED \<and>
   fst (the (virtio_mem_bbm_plug_and_add_bb example_kconf xa_store_and_add_memory_fail
     one_big_block 0)) = - 12 \<and>
   virtio_mem_bbm_get_bb_state
     (snd (the (virtio_mem_bbm_plug_and_add_bb example_kconf xa_store_and_add_memory_fail
        one_big_block 0))) 0 =
     Some VIRTIO_MEM_BBM_BB_PLUGGED"
proof -
  let ?vm = one_big_block
  have idx: "unat (0 - bbm_first_bb_id ?vm) < unat (bbm_next_bb_id ?vm - bbm_first_bb_id ?vm)"
    by (simp add: one_big_block_def one_unused_block_def zeroed_virtio_mem_def)
  have unused: "virtio_mem_bbm_get_bb_state ?vm 0 = Some VIRTIO_MEM_BBM_BB_UNUSED"
    by (simp add: virtio_mem_bbm_get_bb_state_def one_big_block_def example_defs)
  have a: "\<exists>vm'. virtio_mem_bbm_plug_and_add_bb example_kconf add_memory_fails ?vm 0 =
        Some (- 12, vm') \<and>
      virtio_mem_bbm_get_bb_state vm' 0 = Some VIRTIO_MEM_BBM_BB_UNUSED"
  proof -
    let ?e = add_memory_fails
    let ?p = "snd (the (virtio_mem_bbm_plug_bb ?e ?vm 0))"
    let ?s = "the (virtio_mem_bbm_set_bb_state ?p 0 VIRTIO_MEM_BBM_BB_ADDED)"
    let ?a = "snd (the (virtio_mem_bbm_add_bb example_kconf ?e ?s 0))"
    let ?u = "snd (the (virtio_mem_bbm_unplug_bb ?e ?a 0))"
    have plug: "virtio_mem_bbm_plug_bb ?e ?vm 0 = Some (0, ?p)"
      by (rule returned_code)
        (simp add: run_bbm_plug_and_add one_big_block_def example_defs add_memory_fails_def
          xa_store_and_add_memory_fail_def)
    have add: "virtio_mem_bbm_add_bb example_kconf ?e ?s 0 = Some (- 12, ?a)"
      by (rule returned_code)
        (simp add: run_bbm_plug_and_add one_big_block_def example_defs add_memory_fails_def
          xa_store_and_add_memory_fail_def)
    have unplug: "virtio_mem_bbm_unplug_bb ?e ?a 0 = Some (0, ?u)"
      by (rule returned_code)
        (simp add: run_bbm_plug_and_add one_big_block_def example_defs add_memory_fails_def
          xa_store_and_add_memory_fail_def)
    show ?thesis
      using bbm_plug_and_add_bb_rollback [OF one_big_block_exact idx unused plug add _ unplug]
      by simp
  qed
  have b: "\<exists>vm'. virtio_mem_bbm_plug_and_add_bb example_kconf xa_store_and_add_memory_fail ?vm 0 =
        Some (- 12, vm') \<and>
      virtio_mem_bbm_get_bb_state vm' 0 = Some VIRTIO_MEM_BBM_BB_PLUGGED"
  proof -
    let ?e = xa_store_and_add_memory_fail
    let ?p = "snd (the (virtio_mem_bbm_plug_bb ?e ?vm 0))"
    let ?s = "the (virtio_mem_bbm_set_bb_state ?p 0 VIRTIO_MEM_BBM_BB_ADDED)"
    let ?a = "snd (the (virtio_mem_bbm_add_bb example_kconf ?e ?s 0))"
    let ?u = "snd (the (virtio_mem_bbm_unplug_bb ?e ?a 0))"
    have plug: "virtio_mem_bbm_plug_bb ?e ?vm 0 = Some (0, ?p)"
      by (rule returned_code)
        (simp add: run_bbm_plug_and_add one_big_block_def example_defs add_memory_fails_def
          xa_store_and_add_memory_fail_def)
    have add: "virtio_mem_bbm_add_bb example_kconf ?e ?s 0 = Some (- 12, ?a)"
      by (rule returned_code)
        (simp add: run_bbm_plug_and_add one_big_block_def example_defs add_memory_fails_def
          xa_store_and_add_memory_fail_def)
    have unplug: "virtio_mem_bbm_unplug_bb ?e ?a 0 = Some (- 22, ?u)"
      by (rule returned_code)
        (simp add: run_bbm_plug_and_add one_big_block_def example_defs add_memory_fails_def
          xa_store_and_add_memory_fail_def)
    show ?thesis
      using bbm_plug_and_add_bb_rollback [OF one_big_block_exact idx unused plug add _ unplug]
      by simp
  qed
  from a b show ?thesis by auto
qed

subsection \<open>Backoff of the retry loop\<close>

lemma run_wq_retry_last_attempt:
  assumes "virtio_mem_run_wq_retry k e vm = Some y"
  shows "\<exists>vm_a. virtio_mem_run_wq_switch k (fst y) vm_a = Leave (snd y)"
proof (rule virtio_mem_run_wq_retry.raw_induct
    [where P = "\<lambda>k e vm y. \<exists>vm_a. virtio_mem_run_wq_switch k (fst y) vm_a = Leave (snd y)",
      OF _ assms], goal_cases)
  case (1 loop k e vm y)
  from 1(2) obtain rc vm_a where
    c: "(case virtio_mem_run_wq_switch k rc vm_a of
          Goto_retry \<Rightarrow> loop k e vm_a | Leave vm \<Rightarrow> Some (rc, vm)) = Some y"
    by (auto simp: bind_eq_Some_conv)
  show ?case
  proof (cases "virtio_mem_run_wq_switch k rc vm_a")
    case Goto_retry
    with c show ?thesis by (auto dest: 1(1))
  next
    case (Leave vm_l)
    with c show ?thesis by auto
  qed
qed

lemma u32_double:
  fixes x :: u32
  assumes "unat x * 2 < 2 ^ 32"
  shows "unat (x * 2) = 2 * unat x"
proof -
  have "unat x * unat (2 :: u32) < 2 ^ LENGTH(32)" using assms by simp
  then have "unat (x * 2) = unat x * unat (2 :: u32)" by (rule unat_mult_lem [THEN iffD1])
  then show ?thesis by simp
qed

text \<open>
  Claim C8. The \<^verbatim>\<open>switch\<close> of \<^verbatim>\<open>virtio_mem_run_wq\<close> resets \<open>retry_timer_ms\<close> to
  \<^verbatim>\<open>VIRTIO_MEM_RETRY_TIMER_MIN_MS\<close> on result 0 and starts the retry timer with the current
  delay on \<^verbatim>\<open>-ETXTBSY\<close>, \<^verbatim>\<open>-EBUSY\<close> and \<^verbatim>\<open>-ENOMEM\<close>; an expiry of the timer doubles the delay
  (as long as the doubled delay fits 32 bits) and caps it at \<^verbatim>\<open>VIRTIO_MEM_RETRY_TIMER_MAX_MS\<close>;
  an attempt that ends with \<^verbatim>\<open>-EAGAIN\<close> is followed at once by the next attempt, from the
  device as the attempt left it. Hence a run of the worker never ends with \<^verbatim>\<open>-EAGAIN\<close>, it
  ends with the minimal delay when its last attempt gave 0, and with the timer started with
  the delay when its last attempt gave one of the three transient errors.
\<close>

theorem retry_backoff:
  "virtio_mem_run_wq_switch k 0 vm =
     Leave (vm\<lparr>retry_timer_ms := VIRTIO_MEM_RETRY_TIMER_MIN_MS k\<rparr>) \<and>
   (rc = - ETXTBSY \<or> rc = - EBUSY \<or> rc = - ENOMEM \<longrightarrow>
      virtio_mem_run_wq_switch k rc vm = Leave (vm\<lparr>retry_timer := Some (retry_timer_ms vm)\<rparr>)) \<and>
   (unat (retry_timer_ms vm) * 2 < 2 ^ 32 \<longrightarrow>
      unat (retry_timer_ms (virtio_mem_timer_expired k vm)) =
        min (2 * unat (retry_timer_ms vm)) (unat (VIRTIO_MEM_RETRY_TIMER_MAX_MS k))) \<and>
   (virtio_mem_run_wq_attempt k e vm = Some (- EAGAIN, vm_a) \<longrightarrow>
      virtio_mem_run_wq_retry k e vm = virtio_mem_run_wq_retry k e vm_a) \<and>
   (virtio_mem_run_wq_retry k e vm = Some (r, vm_e) \<longrightarrow>
      r \<noteq> - EAGAIN \<and>
      (r = 0 \<longrightarrow> retry_timer_ms vm_e = VIRTIO_MEM_RETRY_TIMER_MIN_MS k) \<and>
      (r = - ETXTBSY \<or> r = - EBUSY \<or> r = - ENOMEM \<longrightarrow>
         retry_timer vm_e = Some (retry_timer_ms vm_e)))"
proof (intro conjI impI)
  show "virtio_mem_run_wq_switch k 0 vm =
     Leave (vm\<lparr>retry_timer_ms := VIRTIO_MEM_RETRY_TIMER_MIN_MS k\<rparr>)"
    by (simp add: virtio_mem_run_wq_switch_def)
next
  assume "rc = - ETXTBSY \<or> rc = - EBUSY \<or> rc = - ENOMEM"
  then show "virtio_mem_run_wq_switch k rc vm =
      Leave (vm\<lparr>retry_timer := Some (retry_timer_ms vm)\<rparr>)"
    by (elim disjE) (simp_all add: virtio_mem_run_wq_switch_def errno_defs)
next
  assume a: "unat (retry_timer_ms vm) * 2 < 2 ^ 32"
  have "retry_timer_ms (virtio_mem_timer_expired k vm) =
      min (retry_timer_ms vm * 2) (VIRTIO_MEM_RETRY_TIMER_MAX_MS k)"
    by (simp add: virtio_mem_timer_expired_def virtio_mem_retry_def Let_def)
  then show "unat (retry_timer_ms (virtio_mem_timer_expired k vm)) =
        min (2 * unat (retry_timer_ms vm)) (unat (VIRTIO_MEM_RETRY_TIMER_MAX_MS k))"
    using u32_double [OF a] by (simp add: min_def word_le_nat_alt)
next
  assume "virtio_mem_run_wq_attempt k e vm = Some (- EAGAIN, vm_a)"
  then show "virtio_mem_run_wq_retry k e vm = virtio_mem_run_wq_retry k e vm_a"
    by (subst virtio_mem_run_wq_retry.simps)
      (simp add: virtio_mem_run_wq_switch_def errno_defs)
next
  assume "virtio_mem_run_wq_retry k e vm = Some (r, vm_e)"
  from run_wq_retry_last_attempt [OF this]
  obtain vm_a where s: "virtio_mem_run_wq_switch k r vm_a = Leave vm_e" by auto
  show "r \<noteq> - EAGAIN" using s
    by (auto simp: virtio_mem_run_wq_switch_def errno_defs split: if_splits)
  show "retry_timer_ms vm_e = VIRTIO_MEM_RETRY_TIMER_MIN_MS k" if "r = 0"
    using s that by (auto simp: virtio_mem_run_wq_switch_def)
  show "retry_timer vm_e = Some (retry_timer_ms vm_e)"
    if "r = - ETXTBSY \<or> r = - EBUSY \<or> r = - ENOMEM"
    using that s
    by (elim disjE) (auto simp: virtio_mem_run_wq_switch_def errno_defs split: if_splits)
qed

lemma bbm_for_each_bb_stop:
  "\<not> (bb_id < bbm_next_bb_id vm \<and> bbm_bb_count vm st \<noteq> 0) \<Longrightarrow>
     virtio_mem_bbm_for_each_bb body st bb_id l vm = Some (Inr (l, vm))"
  by (subst virtio_mem_bbm_for_each_bb.simps) auto

lemma bbm_for_each_bb_step:
  "bb_id < bbm_next_bb_id vm \<Longrightarrow> bbm_bb_count vm st \<noteq> 0 \<Longrightarrow>
     virtio_mem_bbm_for_each_bb body st bb_id l vm =
       do {
         s \<leftarrow> virtio_mem_bbm_get_bb_state vm bb_id;
         r \<leftarrow> (if s = st then body bb_id l vm else Some (Inr (l, vm)));
         case r of
           Inl x \<Rightarrow> Some (Inl x)
         | Inr (l, vm) \<Rightarrow> virtio_mem_bbm_for_each_bb body st (bb_id + 1) l vm
       }"
  by (subst virtio_mem_bbm_for_each_bb.simps) simp

lemma bbm_plug_request_new_done:
  "virtio_mem_bbm_plug_request_new k e bb_id 0 vm = Some (0, vm)"
  by (subst virtio_mem_bbm_plug_request_new.simps) simp

lemma run_wq_retry_again:
  "virtio_mem_run_wq_attempt k e vm = Some (rc, vm_a) \<Longrightarrow>
   virtio_mem_run_wq_switch k rc vm_a = Goto_retry \<Longrightarrow>
   virtio_mem_run_wq_retry k e vm = virtio_mem_run_wq_retry k e vm_a"
  by (subst virtio_mem_run_wq_retry.simps) simp

lemma run_wq_retry_leave:
  "virtio_mem_run_wq_attempt k e vm = Some (rc, vm_a) \<Longrightarrow>
   virtio_mem_run_wq_switch k rc vm_a = Leave vm_l \<Longrightarrow>
   virtio_mem_run_wq_retry k e vm = Some (rc, vm_l)"
  by (subst virtio_mem_run_wq_retry.simps) simp

lemmas run_bbm_attempt =
  virtio_mem_run_wq_attempt_def virtio_mem_send_unplug_all_request_def
  virtio_mem_cleanup_pending_mb_def virtio_mem_plug_request_def
  virtio_mem_bbm_plug_request_def virtio_mem_bbm_plug_and_add_bb_def
  virtio_mem_could_add_memory_def bbm_for_each_bb_stop bbm_for_each_bb_step
  bbm_plug_request_new_done run_bbm_plug_and_add

lemmas waiting_defs = waiting_big_block_def one_big_block_def example_defs

lemma waiting_attempt_1:
  "virtio_mem_run_wq_attempt example_kconf mem_buf_alloc_again_once waiting_big_block =
     Some (- 11, waiting_big_block\<lparr>trace := [EV_kzalloc, EV_mem_buf_alloc 0]\<rparr>)"
  by (simp add: run_bbm_attempt waiting_defs mem_buf_alloc_again_once_def)


theorem retry_backoff_witness:
  "virtio_mem_run_wq_switch example_kconf 0 waiting_big_block =
     Leave (waiting_big_block\<lparr>retry_timer_ms := 50000\<rparr>) \<and>
   virtio_mem_run_wq_switch example_kconf (- EBUSY) waiting_big_block =
     Leave (waiting_big_block\<lparr>retry_timer := Some 200000\<rparr>) \<and>
   unat (retry_timer_ms (virtio_mem_timer_expired example_kconf waiting_big_block)) = 300000 \<and>
   virtio_mem_run_wq_retry example_kconf mem_buf_alloc_again_once waiting_big_block =
     virtio_mem_run_wq_retry example_kconf mem_buf_alloc_again_once
       (waiting_big_block\<lparr>trace := [EV_kzalloc, EV_mem_buf_alloc 0]\<rparr>) \<and>
   fst (the (virtio_mem_run_wq_retry example_kconf mem_buf_alloc_again_once waiting_big_block)) = 0 \<and>
   retry_timer_ms (snd (the (virtio_mem_run_wq_retry example_kconf mem_buf_alloc_again_once
     waiting_big_block))) = 50000 \<and>
   fst (the (virtio_mem_run_wq_retry example_kconf out_of_memory waiting_big_block)) = - ENOMEM \<and>
   retry_timer (snd (the (virtio_mem_run_wq_retry example_kconf out_of_memory
     waiting_big_block))) = Some 200000"
proof -
  let ?k = example_kconf
  let ?vm = waiting_big_block
  let ?e = mem_buf_alloc_again_once
  let ?vm_a = "waiting_big_block\<lparr>trace := [EV_kzalloc, EV_mem_buf_alloc 0]\<rparr>"
  let ?o = out_of_memory
  have ms: "unat (retry_timer_ms ?vm) * 2 < 2 ^ 32" "retry_timer_ms ?vm = 200000"
    by (simp_all add: waiting_defs)
  have k: "VIRTIO_MEM_RETRY_TIMER_MIN_MS ?k = 50000" "VIRTIO_MEM_RETRY_TIMER_MAX_MS ?k = 300000"
    by (simp_all add: example_kconf_def)
  have a1: "virtio_mem_run_wq_attempt ?k ?e ?vm = Some (- EAGAIN, ?vm_a)"
    by (simp add: waiting_attempt_1 errno_defs)
  have a2: "virtio_mem_run_wq_attempt ?k ?e ?vm_a =
      Some (0, snd (the (virtio_mem_run_wq_attempt ?k ?e ?vm_a)))"
    by (rule returned_code) (simp add: run_bbm_attempt waiting_defs mem_buf_alloc_again_once_def)
  have r: "virtio_mem_run_wq_retry ?k ?e ?vm_a =
      Some (0, snd (the (virtio_mem_run_wq_attempt ?k ?e ?vm_a))
        \<lparr>retry_timer_ms := VIRTIO_MEM_RETRY_TIMER_MIN_MS ?k\<rparr>)"
    by (rule run_wq_retry_leave [OF a2]) (simp add: virtio_mem_run_wq_switch_def)
  have a3: "virtio_mem_run_wq_attempt ?k ?o ?vm =
      Some (- ENOMEM, snd (the (virtio_mem_run_wq_attempt ?k ?o ?vm)))"
    by (rule returned_code) (simp add: run_bbm_attempt waiting_defs out_of_memory_def)
  have ro: "virtio_mem_run_wq_retry ?k ?o ?vm =
      Some (- ENOMEM, snd (the (virtio_mem_run_wq_attempt ?k ?o ?vm))
        \<lparr>retry_timer := Some (retry_timer_ms (snd (the (virtio_mem_run_wq_attempt ?k ?o ?vm))))\<rparr>)"
    by (rule run_wq_retry_leave [OF a3]) (simp add: virtio_mem_run_wq_switch_def errno_defs)
  have ms_o: "retry_timer_ms (snd (the (virtio_mem_run_wq_attempt ?k ?o ?vm))) = 200000"
    by (simp add: run_bbm_attempt waiting_defs out_of_memory_def)
  note t1 = retry_backoff [where k = ?k and vm = ?vm and rc = "- EBUSY" and e = ?e
      and vm_a = ?vm_a and r = 0
      and vm_e = "snd (the (virtio_mem_run_wq_retry ?k ?e ?vm))"]
  note t2 = retry_backoff [where k = ?k and vm = ?vm and rc = "- EBUSY" and e = ?o
      and vm_a = ?vm_a and r = "- ENOMEM"
      and vm_e = "snd (the (virtio_mem_run_wq_retry ?k ?o ?vm))"]
  have c1: "virtio_mem_run_wq_switch ?k 0 ?vm = Leave (?vm\<lparr>retry_timer_ms := 50000\<rparr>)"
    using t1 k by simp
  have c2: "virtio_mem_run_wq_switch ?k (- EBUSY) ?vm = Leave (?vm\<lparr>retry_timer := Some 200000\<rparr>)"
    using t1 ms(2) by simp
  have c3: "unat (retry_timer_ms (virtio_mem_timer_expired ?k ?vm)) = 300000"
    using t1 ms k by simp
  have c4: "virtio_mem_run_wq_retry ?k ?e ?vm = virtio_mem_run_wq_retry ?k ?e ?vm_a"
    using t1 a1 by blast
  have re: "virtio_mem_run_wq_retry ?k ?e ?vm =
      Some (0, snd (the (virtio_mem_run_wq_retry ?k ?e ?vm)))"
    using c4 r by simp
  have c5: "retry_timer_ms (snd (the (virtio_mem_run_wq_retry ?k ?e ?vm))) = 50000"
    using t1 re k by simp
  have reo: "virtio_mem_run_wq_retry ?k ?o ?vm =
      Some (- ENOMEM, snd (the (virtio_mem_run_wq_retry ?k ?o ?vm)))"
    using ro by simp
  have c6: "retry_timer (snd (the (virtio_mem_run_wq_retry ?k ?o ?vm))) =
      Some (retry_timer_ms (snd (the (virtio_mem_run_wq_retry ?k ?o ?vm))))"
    using t2 reo by blast
  have c7: "retry_timer_ms (snd (the (virtio_mem_run_wq_retry ?k ?o ?vm))) = 200000"
    using ro ms_o by simp
  have d1: "fst (the (virtio_mem_run_wq_retry ?k ?e ?vm)) = 0"
    using re by (metis fst_conv option.sel)
  have d2: "fst (the (virtio_mem_run_wq_retry ?k ?o ?vm)) = - ENOMEM"
    using reo by (metis fst_conv option.sel)
  have d3: "retry_timer (snd (the (virtio_mem_run_wq_retry ?k ?o ?vm))) = Some 200000"
    using c6 c7 by simp
  show ?thesis by (intro conjI c1 c2 c3 c4 d1 c5 d2 d3)
qed

subsection \<open>Fake-offlining a range\<close>

declare virtio_mem_fake_offline_loop.simps [simp del]

lemma set_fake_offline_trace [simp]:
  "trace (virtio_mem_set_fake_offline vm pfn n onlined) = trace vm"
  by (induction vm pfn n onlined rule: virtio_mem_set_fake_offline.induct) (simp_all add: Let_def)

lemma ext_call_trace [simp]: "trace (snd (ext_call e ev vm)) = trace vm @ [ev]"
  by (simp add: ext_call_def Let_def virtio_mem_config_changed_def virtio_mem_retry_def)

lemma ext_call_pages [simp]: "pages_of (snd (ext_call e ev vm)) = pages_of vm"
  by (simp add: ext_call_def Let_def virtio_mem_config_changed_def virtio_mem_retry_def pages_of_def)

lemma fake_offline_loop_unfold:
  "virtio_mem_fake_offline_loop e vm pfn nr_pages is_movable retry_count =
     (if 5 \<le> retry_count then (- EBUSY, vm)
      else if config_changed vm then (- EAGAIN, vm)
      else
        let rc = fst (ext_call e (EV_alloc_contig_range pfn (pfn + nr_pages)) vm);
            vm = snd (ext_call e (EV_alloc_contig_range pfn (pfn + nr_pages)) vm)
        in if rc = - ENOMEM then (- ENOMEM, vm)
           else if rc = 0
           then (0, (virtio_mem_set_fake_offline vm pfn (unat nr_pages) True)
                      \<lparr>managed_pages :=
                         managed_pages (virtio_mem_set_fake_offline vm pfn (unat nr_pages) True) -
                           int (unat nr_pages)\<rparr>)
           else if is_movable
           then virtio_mem_fake_offline_loop e vm pfn nr_pages is_movable (retry_count + 1)
           else (- EBUSY, vm))"
  by (subst virtio_mem_fake_offline_loop.simps)
    (auto simp: Let_def split: prod.splits)

lemma fake_offline_loop_trace:
  "retry_count \<le> 5 \<Longrightarrow>
     \<exists>n. n + retry_count \<le> 5 \<and>
       trace (snd (virtio_mem_fake_offline_loop e vm pfn nr_pages is_movable retry_count)) =
         trace vm @ replicate n (EV_alloc_contig_range pfn (pfn + nr_pages))"
proof (induction e vm pfn nr_pages is_movable retry_count
    rule: virtio_mem_fake_offline_loop.induct)
  case (1 e vm pfn nr_pages is_movable retry_count)
  let ?ev = "EV_alloc_contig_range pfn (pfn + nr_pages)"
  let ?rc = "fst (ext_call e ?ev vm)"
  let ?vm = "snd (ext_call e ?ev vm)"
  consider (stop) "5 \<le> retry_count \<or> config_changed vm"
    | (once) "retry_count < 5" "\<not> config_changed vm" "?rc = - ENOMEM \<or> ?rc = 0 \<or> \<not> is_movable"
    | (again) "retry_count < 5" "\<not> config_changed vm" "?rc \<noteq> - ENOMEM" "?rc \<noteq> 0" "is_movable"
    by fastforce
  then show ?case
  proof cases
    case stop
    then have "trace (snd (virtio_mem_fake_offline_loop e vm pfn nr_pages is_movable retry_count)) =
        trace vm @ replicate 0 ?ev"
      by (subst fake_offline_loop_unfold) auto
    with 1(2) show ?thesis by (intro exI [of _ 0]) simp
  next
    case once
    then have "trace (snd (virtio_mem_fake_offline_loop e vm pfn nr_pages is_movable retry_count)) =
        trace vm @ replicate 1 ?ev"
      by (subst fake_offline_loop_unfold) (auto simp: Let_def errno_defs)
    with once(1) show ?thesis by (intro exI [of _ 1]) simp
  next
    case again
    have e: "(?rc, ?vm) = ext_call e ?ev vm" by simp
    from again have "\<not> (?rc \<noteq> 0 \<and> \<not> is_movable)" by simp
    from 1(1) [OF again(1) again(2) refl e again(3) this again(4)] again(1)
    obtain n where n: "n + (retry_count + 1) \<le> 5"
      "trace (snd (virtio_mem_fake_offline_loop e ?vm pfn nr_pages is_movable (retry_count + 1))) =
         trace ?vm @ replicate n ?ev"
      by auto
    from again have "virtio_mem_fake_offline_loop e vm pfn nr_pages is_movable retry_count =
        virtio_mem_fake_offline_loop e ?vm pfn nr_pages is_movable (retry_count + 1)"
      by (subst fake_offline_loop_unfold) (simp add: Let_def)
    with n show ?thesis
      by (intro exI [of _ "Suc n"]) (simp add: replicate_append_same)
  qed
qed

lemma fake_offline_loop_result:
  "fst (virtio_mem_fake_offline_loop e vm pfn nr_pages is_movable retry_count) \<in>
     {0, - EAGAIN, - ENOMEM, - EBUSY} \<and>
   (fst (virtio_mem_fake_offline_loop e vm pfn nr_pages is_movable retry_count) \<noteq> 0 \<longrightarrow>
      pages_of (snd (virtio_mem_fake_offline_loop e vm pfn nr_pages is_movable retry_count)) =
        pages_of vm)"
proof (induction e vm pfn nr_pages is_movable retry_count
    rule: virtio_mem_fake_offline_loop.induct)
  case (1 e vm pfn nr_pages is_movable retry_count)
  let ?ev = "EV_alloc_contig_range pfn (pfn + nr_pages)"
  let ?rc = "fst (ext_call e ?ev vm)"
  let ?vm = "snd (ext_call e ?ev vm)"
  show ?case
  proof (cases "retry_count < 5 \<and> \<not> config_changed vm \<and> ?rc \<noteq> - ENOMEM \<and> ?rc \<noteq> 0 \<and> is_movable")
    case True
    have e: "(?rc, ?vm) = ext_call e ?ev vm" by simp
    from True have "\<not> (?rc \<noteq> 0 \<and> \<not> is_movable)" by simp
    note ih = 1 [OF _ _ refl e _ this]
    from True have "virtio_mem_fake_offline_loop e vm pfn nr_pages is_movable retry_count =
        virtio_mem_fake_offline_loop e ?vm pfn nr_pages is_movable (retry_count + 1)"
      by (subst fake_offline_loop_unfold) (simp add: Let_def)
    with ih True show ?thesis by simp
  next
    case False
    then show ?thesis
      by (subst (1 2 3) fake_offline_loop_unfold) (auto simp: Let_def errno_defs)
  qed
qed


lemma set_fake_offline_managed_pages [simp]:
  "managed_pages (virtio_mem_set_fake_offline vm pfn n onlined) = managed_pages vm"
  by (induction vm pfn n onlined rule: virtio_mem_set_fake_offline.induct) (simp_all add: Let_def)

text \<open>
  Claim C7. \<^verbatim>\<open>virtio_mem_fake_offline\<close> asks \<^verbatim>\<open>is_zone_movable_page\<close> once and then runs its loop
  from \<open>retry_count = 0\<close>; when \<open>config_changed\<close> is set at that point it returns \<^verbatim>\<open>-EAGAIN\<close>
  without calling the allocator. It always returns, after at most five calls of
  \<^verbatim>\<open>alloc_contig_range\<close> on the range and nothing else; its result is 0, \<^verbatim>\<open>-EAGAIN\<close>,
  \<^verbatim>\<open>-ENOMEM\<close> or \<^verbatim>\<open>-EBUSY\<close>, and with a result other than 0 the page flags, reference counts
  and the managed page count are as before. Each round of the loop first reads
  \<open>config_changed\<close> and returns \<^verbatim>\<open>-EAGAIN\<close> without calling the allocator when it is set; an
  allocation result \<^verbatim>\<open>-ENOMEM\<close> is returned at once; the result 0 marks the pages fake-offline,
  takes them from the managed page count and returns 0; another failure leads to the next
  round (in \<^verbatim>\<open>ZONE_MOVABLE\<close>) or to \<^verbatim>\<open>-EBUSY\<close>; after five rounds the result is \<^verbatim>\<open>-EBUSY\<close>.
\<close>

theorem fake_offline_bounded_attempts:
  "virtio_mem_fake_offline e vm pfn nr_pages =
     virtio_mem_fake_offline_loop e (snd (ext_call e (EV_is_zone_movable_page pfn) vm)) pfn nr_pages
       (fst (ext_call e (EV_is_zone_movable_page pfn) vm) \<noteq> 0) 0 \<and>
   (config_changed (snd (ext_call e (EV_is_zone_movable_page pfn) vm)) \<longrightarrow>
      virtio_mem_fake_offline e vm pfn nr_pages =
        (- EAGAIN, snd (ext_call e (EV_is_zone_movable_page pfn) vm))) \<and>
   (\<exists>n\<le>5. trace (snd (virtio_mem_fake_offline e vm pfn nr_pages)) =
       trace vm @ EV_is_zone_movable_page pfn #
         replicate n (EV_alloc_contig_range pfn (pfn + nr_pages))) \<and>
   fst (virtio_mem_fake_offline e vm pfn nr_pages) \<in> {0, - EAGAIN, - ENOMEM, - EBUSY} \<and>
   (fst (virtio_mem_fake_offline e vm pfn nr_pages) \<noteq> 0 \<longrightarrow>
      pages_of (snd (virtio_mem_fake_offline e vm pfn nr_pages)) = pages_of vm) \<and>
   (retry_count < 5 \<and> config_changed vm \<longrightarrow>
      virtio_mem_fake_offline_loop e vm pfn nr_pages is_movable retry_count = (- EAGAIN, vm)) \<and>
   (retry_count < 5 \<and> \<not> config_changed vm \<and>
    fst (ext_call e (EV_alloc_contig_range pfn (pfn + nr_pages)) vm) = - ENOMEM \<longrightarrow>
      virtio_mem_fake_offline_loop e vm pfn nr_pages is_movable retry_count =
        (- ENOMEM, snd (ext_call e (EV_alloc_contig_range pfn (pfn + nr_pages)) vm))) \<and>
   (retry_count < 5 \<and> \<not> config_changed vm \<and>
    fst (ext_call e (EV_alloc_contig_range pfn (pfn + nr_pages)) vm) = 0 \<longrightarrow>
      virtio_mem_fake_offline_loop e vm pfn nr_pages is_movable retry_count =
        (0, (virtio_mem_set_fake_offline
               (snd (ext_call e (EV_alloc_contig_range pfn (pfn + nr_pages)) vm))
               pfn (unat nr_pages) True)
            \<lparr>managed_pages :=
               managed_pages (snd (ext_call e (EV_alloc_contig_range pfn (pfn + nr_pages)) vm)) -
                 int (unat nr_pages)\<rparr>)) \<and>
   (retry_count < 5 \<and> \<not> config_changed vm \<and>
    fst (ext_call e (EV_alloc_contig_range pfn (pfn + nr_pages)) vm) \<notin> {0, - ENOMEM} \<longrightarrow>
      virtio_mem_fake_offline_loop e vm pfn nr_pages is_movable retry_count =
        (if is_movable
         then virtio_mem_fake_offline_loop e
                (snd (ext_call e (EV_alloc_contig_range pfn (pfn + nr_pages)) vm))
                pfn nr_pages is_movable (retry_count + 1)
         else (- EBUSY, snd (ext_call e (EV_alloc_contig_range pfn (pfn + nr_pages)) vm)))) \<and>
   (5 \<le> retry_count \<longrightarrow>
      virtio_mem_fake_offline_loop e vm pfn nr_pages is_movable retry_count = (- EBUSY, vm))"
proof -
  let ?m = "fst (ext_call e (EV_is_zone_movable_page pfn) vm) \<noteq> 0"
  let ?vm = "snd (ext_call e (EV_is_zone_movable_page pfn) vm)"
  have f: "virtio_mem_fake_offline e vm pfn nr_pages =
      virtio_mem_fake_offline_loop e ?vm pfn nr_pages ?m 0"
    by (simp add: virtio_mem_fake_offline_def split: prod.splits)
  have g: "config_changed ?vm \<longrightarrow> virtio_mem_fake_offline e vm pfn nr_pages = (- EAGAIN, ?vm)"
    by (simp only: f, subst fake_offline_loop_unfold) simp
  from fake_offline_loop_trace [of 0 e ?vm pfn nr_pages ?m]
  have "\<exists>n\<le>5. trace (snd (virtio_mem_fake_offline e vm pfn nr_pages)) =
       trace vm @ EV_is_zone_movable_page pfn #
         replicate n (EV_alloc_contig_range pfn (pfn + nr_pages))"
    by (simp add: f)
  moreover have "fst (virtio_mem_fake_offline e vm pfn nr_pages) \<in>
      {0, - EAGAIN, - ENOMEM, - EBUSY}"
    using fake_offline_loop_result [of e ?vm pfn nr_pages ?m 0] by (simp only: f)
  moreover have "fst (virtio_mem_fake_offline e vm pfn nr_pages) \<noteq> 0 \<longrightarrow>
      pages_of (snd (virtio_mem_fake_offline e vm pfn nr_pages)) = pages_of vm"
    using fake_offline_loop_result [of e ?vm pfn nr_pages ?m 0] by (simp add: f)
  moreover have "retry_count < 5 \<and> config_changed vm \<longrightarrow>
      virtio_mem_fake_offline_loop e vm pfn nr_pages is_movable retry_count = (- EAGAIN, vm)"
    by (subst fake_offline_loop_unfold) simp
  moreover have "retry_count < 5 \<and> \<not> config_changed vm \<and>
    fst (ext_call e (EV_alloc_contig_range pfn (pfn + nr_pages)) vm) = - ENOMEM \<longrightarrow>
      virtio_mem_fake_offline_loop e vm pfn nr_pages is_movable retry_count =
        (- ENOMEM, snd (ext_call e (EV_alloc_contig_range pfn (pfn + nr_pages)) vm))"
    by (subst fake_offline_loop_unfold) (simp add: Let_def)
  moreover have "retry_count < 5 \<and> \<not> config_changed vm \<and>
    fst (ext_call e (EV_alloc_contig_range pfn (pfn + nr_pages)) vm) = 0 \<longrightarrow>
      virtio_mem_fake_offline_loop e vm pfn nr_pages is_movable retry_count =
        (0, (virtio_mem_set_fake_offline
               (snd (ext_call e (EV_alloc_contig_range pfn (pfn + nr_pages)) vm))
               pfn (unat nr_pages) True)
            \<lparr>managed_pages :=
               managed_pages (snd (ext_call e (EV_alloc_contig_range pfn (pfn + nr_pages)) vm)) -
                 int (unat nr_pages)\<rparr>)"
    by (subst fake_offline_loop_unfold) (simp add: Let_def errno_defs set_fake_offline_managed_pages)
  moreover have "retry_count < 5 \<and> \<not> config_changed vm \<and>
    fst (ext_call e (EV_alloc_contig_range pfn (pfn + nr_pages)) vm) \<notin> {0, - ENOMEM} \<longrightarrow>
      virtio_mem_fake_offline_loop e vm pfn nr_pages is_movable retry_count =
        (if is_movable
         then virtio_mem_fake_offline_loop e
                (snd (ext_call e (EV_alloc_contig_range pfn (pfn + nr_pages)) vm))
                pfn nr_pages is_movable (retry_count + 1)
         else (- EBUSY, snd (ext_call e (EV_alloc_contig_range pfn (pfn + nr_pages)) vm)))"
    by (subst fake_offline_loop_unfold) (simp add: Let_def)
  moreover have "5 \<le> retry_count \<longrightarrow>
      virtio_mem_fake_offline_loop e vm pfn nr_pages is_movable retry_count = (- EBUSY, vm)"
    by (subst fake_offline_loop_unfold) simp
  ultimately show ?thesis using f g by blast
qed

lemma busy_fake_offline:
  "virtio_mem_fake_offline alloc_contig_range_busy one_unused_block 0 8 =
     (- EBUSY, one_unused_block\<lparr>trace :=
        EV_is_zone_movable_page 0 # replicate 5 (EV_alloc_contig_range 0 8)\<rparr>)"
  by (simp add: virtio_mem_fake_offline_def fake_offline_loop_unfold ext_call_def Let_def
      alloc_contig_range_busy_def example_defs errno_defs numeral_eq_Suc)

theorem fake_offline_bounded_attempts_witness:
  "virtio_mem_fake_offline alloc_contig_range_busy one_unused_block 0 8 =
     (- EBUSY, one_unused_block\<lparr>trace :=
        EV_is_zone_movable_page 0 # replicate 5 (EV_alloc_contig_range 0 8)\<rparr>) \<and>
   pages_of (snd (virtio_mem_fake_offline alloc_contig_range_busy one_unused_block 0 8)) =
     pages_of one_unused_block \<and>
   virtio_mem_fake_offline alloc_contig_range_busy
     (one_unused_block\<lparr>config_changed := True\<rparr>) 0 8 =
     (- EAGAIN, one_unused_block\<lparr>trace := [EV_is_zone_movable_page 0], config_changed := True\<rparr>) \<and>
   virtio_mem_fake_offline out_of_memory one_unused_block 0 8 =
     (- ENOMEM, one_unused_block\<lparr>trace :=
        [EV_is_zone_movable_page 0, EV_alloc_contig_range 0 8]\<rparr>) \<and>
   virtio_mem_fake_offline calm_env one_unused_block 0 2 =
     (0, one_unused_block\<lparr>trace := [EV_is_zone_movable_page 0, EV_alloc_contig_range 0 2],
        PageOffline := (\<lambda>_. False)(0 := True, 1 := True), managed_pages := - 2\<rparr>) \<and>
   virtio_mem_fake_offline_loop alloc_contig_range_busy
     (one_unused_block\<lparr>trace := [EV_is_zone_movable_page 0]\<rparr>) 0 8 True 4 =
     virtio_mem_fake_offline_loop alloc_contig_range_busy
       (one_unused_block\<lparr>trace := [EV_is_zone_movable_page 0, EV_alloc_contig_range 0 8]\<rparr>)
       0 8 True 5 \<and>
   virtio_mem_fake_offline_loop alloc_contig_range_busy
     (one_unused_block\<lparr>trace := [EV_is_zone_movable_page 0]\<rparr>) 0 8 False 0 =
     (- EBUSY, one_unused_block\<lparr>trace :=
        [EV_is_zone_movable_page 0, EV_alloc_contig_range 0 8]\<rparr>) \<and>
   virtio_mem_fake_offline_loop alloc_contig_range_busy one_unused_block 0 8 True 5 =
     (- EBUSY, one_unused_block)"
proof -
  let ?b = alloc_contig_range_busy
  let ?vm = one_unused_block
  let ?c = "one_unused_block\<lparr>config_changed := True\<rparr>"
  let ?t = "one_unused_block\<lparr>trace := [EV_is_zone_movable_page 0]\<rparr>"
  let ?ta = "one_unused_block\<lparr>trace := [EV_is_zone_movable_page 0, EV_alloc_contig_range 0 8]\<rparr>"
  note t1 = fake_offline_bounded_attempts [where e = ?b and vm = ?vm and pfn = 0
      and nr_pages = 8 and retry_count = 5 and is_movable = True]
  note t2 = fake_offline_bounded_attempts [where e = ?b and vm = ?c and pfn = 0
      and nr_pages = 8 and retry_count = 0 and is_movable = True]
  note t3 = fake_offline_bounded_attempts [where e = out_of_memory and vm = ?vm and pfn = 0
      and nr_pages = 8 and retry_count = 0 and is_movable = True]
  note t3' = fake_offline_bounded_attempts [where e = out_of_memory and vm = ?t and pfn = 0
      and nr_pages = 8 and retry_count = 0 and is_movable = True]
  note t4 = fake_offline_bounded_attempts [where e = ?b and vm = ?t and pfn = 0
      and nr_pages = 8 and retry_count = 4 and is_movable = True]
  note t5 = fake_offline_bounded_attempts [where e = ?b and vm = ?t and pfn = 0
      and nr_pages = 8 and retry_count = 0 and is_movable = False]
  note t6 = fake_offline_bounded_attempts [where e = calm_env and vm = ?vm and pfn = 0
      and nr_pages = 2 and retry_count = 0 and is_movable = False]
  note t6' = fake_offline_bounded_attempts [where e = calm_env and vm = ?t and pfn = 0
      and nr_pages = 2 and retry_count = 0 and is_movable = False]
  note r1 = t1 [THEN conjunct2, THEN conjunct2]
  note r2 = t2 [THEN conjunct2, THEN conjunct1]
  note e3 = t3 [THEN conjunct1]
  note r3 = t3' [THEN conjunct2, THEN conjunct2]
  note r4 = t4 [THEN conjunct2, THEN conjunct2]
  note r5 = t5 [THEN conjunct2, THEN conjunct2]
  note e6 = t6 [THEN conjunct1]
  note s6 = t6' [THEN conjunct2, THEN conjunct2, THEN conjunct2, THEN conjunct2,
      THEN conjunct2, THEN conjunct2, THEN conjunct2, THEN conjunct1]
  have c1: "virtio_mem_fake_offline ?b ?vm 0 8 =
      (- EBUSY, ?vm\<lparr>trace := EV_is_zone_movable_page 0 # replicate 5 (EV_alloc_contig_range 0 8)\<rparr>)"
    by (rule busy_fake_offline)
  have c2: "pages_of (snd (virtio_mem_fake_offline ?b ?vm 0 8)) = pages_of ?vm"
    using r1 c1 by (simp add: errno_defs)
  have "ext_call ?b (EV_is_zone_movable_page 0) ?c =
      (1, ?vm\<lparr>trace := [EV_is_zone_movable_page 0], config_changed := True\<rparr>)"
    by (simp add: ext_call_def alloc_contig_range_busy_def example_defs)
  then have c3: "virtio_mem_fake_offline ?b ?c 0 8 =
      (- EAGAIN, ?vm\<lparr>trace := [EV_is_zone_movable_page 0], config_changed := True\<rparr>)"
    using r2 by simp
  have zo: "ext_call out_of_memory (EV_is_zone_movable_page 0) ?vm = (- 12, ?t)"
    and ao: "ext_call out_of_memory (EV_alloc_contig_range 0 8) ?t = (- ENOMEM, ?ta)"
    and nt: "\<not> config_changed ?t"
    by (simp_all add: ext_call_def out_of_memory_def example_defs errno_defs)
  have "virtio_mem_fake_offline out_of_memory ?vm 0 8 =
      virtio_mem_fake_offline_loop out_of_memory ?t 0 8 True 0"
    using e3 zo by simp
  moreover have "virtio_mem_fake_offline_loop out_of_memory ?t 0 8 True 0 = (- ENOMEM, ?ta)"
    using r3 ao nt by simp
  ultimately have c4: "virtio_mem_fake_offline out_of_memory ?vm 0 8 = (- ENOMEM, ?ta)"
    by simp
  have zc: "ext_call calm_env (EV_is_zone_movable_page 0) ?vm = (0, ?t)"
    and ac: "ext_call calm_env (EV_alloc_contig_range 0 2) ?t =
      (0, ?vm\<lparr>trace := [EV_is_zone_movable_page 0, EV_alloc_contig_range 0 2]\<rparr>)"
    by (simp_all add: ext_call_def example_defs)
  have "virtio_mem_fake_offline calm_env ?vm 0 2 =
      virtio_mem_fake_offline_loop calm_env ?t 0 2 False 0"
    using e6 zc by simp
  moreover have "virtio_mem_fake_offline_loop calm_env ?t 0 2 False 0 =
      (0, ?vm\<lparr>trace := [EV_is_zone_movable_page 0, EV_alloc_contig_range 0 2],
        PageOffline := (\<lambda>_. False)(0 := True, 1 := True), managed_pages := - 2\<rparr>)"
  proof -
    let ?tc = "?vm\<lparr>trace := [EV_is_zone_movable_page 0, EV_alloc_contig_range 0 2]\<rparr>"
    have u: "unat (2 :: u64) = Suc (Suc 0)" by simp
    have sf: "virtio_mem_set_fake_offline ?tc 0 (unat (2 :: u64)) True =
        ?tc\<lparr>PageOffline := (\<lambda>_. False)(0 := True, 1 := True)\<rparr>"
      by (simp only: u) (simp add: Let_def example_defs)
    have mp: "managed_pages ?tc = 0" by (simp add: example_defs)
    from s6 ac nt have "virtio_mem_fake_offline_loop calm_env ?t 0 2 False 0 =
        (0, (virtio_mem_set_fake_offline ?tc 0 (unat (2 :: u64)) True)
            \<lparr>managed_pages := managed_pages ?tc - int (unat (2 :: u64))\<rparr>)"
      by simp
    then show ?thesis by (simp only: sf mp) simp
  qed
  ultimately have c5: "virtio_mem_fake_offline calm_env ?vm 0 2 =
      (0, ?vm\<lparr>trace := [EV_is_zone_movable_page 0, EV_alloc_contig_range 0 2],
        PageOffline := (\<lambda>_. False)(0 := True, 1 := True), managed_pages := - 2\<rparr>)"
    by simp
  have ab: "ext_call ?b (EV_alloc_contig_range 0 8) ?t = (- 16, ?ta)"
    by (simp add: ext_call_def alloc_contig_range_busy_def example_defs)
  have c6: "virtio_mem_fake_offline_loop ?b ?t 0 8 True 4 =
      virtio_mem_fake_offline_loop ?b ?ta 0 8 True 5"
    using r4 ab nt by (simp add: errno_defs)
  have c7: "virtio_mem_fake_offline_loop ?b ?t 0 8 False 0 = (- EBUSY, ?ta)"
    using r5 ab nt by (simp add: errno_defs)
  have c8: "virtio_mem_fake_offline_loop ?b ?vm 0 8 True 5 = (- EBUSY, ?vm)"
    using r1 by simp
  show ?thesis by (intro conjI c1 c2 c3 c4 c5 c6 c7 c8)
qed

subsection \<open>Memory blocks going online\<close>

text \<open>
  Claim C5 (amended). A \<^verbatim>\<open>MEM_GOING_ONLINE\<close> notification for one memory block of a Sub Block
  Mode device is answered by the state of the block, \<^verbatim>\<open>NOTIFY_OK\<close> for \<^verbatim>\<open>OFFLINE\<close> and
  \<^verbatim>\<open>OFFLINE_PARTIAL\<close> and \<^verbatim>\<open>NOTIFY_BAD\<close> for every other state, unless the device is being
  removed: then the answer is \<^verbatim>\<open>notifier_from_errno(-EBUSY)\<close> whatever the state. The state
  table, the counters and the subblock bitmap are unchanged in every case; the callback
  only sets \<open>hotplug_active\<close> when the device is not being removed.
\<close>

theorem going_online_answer:
  assumes sbm: "in_sbm vm"
    and overlaps: "virtio_mem_overlaps_range vm (start_pfn * PAGE_SIZE k) (nr_pages * PAGE_SIZE k)"
    and block: "nr_pages * PAGE_SIZE k =
      (if memmap_on_memory vm then memory_block_size_bytes k - sbm_sb_size vm
       else memory_block_size_bytes k)"
    and aligned: "IS_ALIGNED
      (start_pfn * PAGE_SIZE k - (if memmap_on_memory vm then sbm_sb_size vm else 0))
      (memory_block_size_bytes k)"
    and state: "virtio_mem_sbm_get_mb_state vm
      (virtio_mem_phys_to_mb_id k (start_pfn * PAGE_SIZE k)) = Some s"
  shows "virtio_mem_sbm_notify_going_online k vm
           (virtio_mem_phys_to_mb_id k (start_pfn * PAGE_SIZE k)) =
           Some (if s = VIRTIO_MEM_SBM_MB_OFFLINE \<or> s = VIRTIO_MEM_SBM_MB_OFFLINE_PARTIAL
                 then NOTIFY_OK k else NOTIFY_BAD k) \<and>
         virtio_mem_memory_notifier_cb k e vm MEM_GOING_ONLINE start_pfn nr_pages =
           Some (if removing vm then notifier_from_errno k (- EBUSY)
                 else if s = VIRTIO_MEM_SBM_MB_OFFLINE \<or> s = VIRTIO_MEM_SBM_MB_OFFLINE_PARTIAL
                 then NOTIFY_OK k else NOTIFY_BAD k,
                 if removing vm then vm else vm\<lparr>hotplug_active := True\<rparr>) \<and>
         sbm_tables_of (if removing vm then vm else vm\<lparr>hotplug_active := True\<rparr>) =
           sbm_tables_of vm"
proof -
  let ?id = "virtio_mem_phys_to_mb_id k (start_pfn * PAGE_SIZE k)"
  have a: "virtio_mem_sbm_notify_going_online k vm ?id =
      Some (if s = VIRTIO_MEM_SBM_MB_OFFLINE \<or> s = VIRTIO_MEM_SBM_MB_OFFLINE_PARTIAL
            then NOTIFY_OK k else NOTIFY_BAD k)"
    using state by (cases s) (simp_all add: virtio_mem_sbm_notify_going_online_def)
  have g: "virtio_mem_sbm_get_mb_state (vm\<lparr>hotplug_active := True\<rparr>) ?id = Some s"
    using state by (simp add: virtio_mem_sbm_get_mb_state_def Let_def split: if_splits)
  have b: "virtio_mem_sbm_notify_going_online k (vm\<lparr>hotplug_active := True\<rparr>) ?id =
      Some (if s = VIRTIO_MEM_SBM_MB_OFFLINE \<or> s = VIRTIO_MEM_SBM_MB_OFFLINE_PARTIAL
            then NOTIFY_OK k else NOTIFY_BAD k)"
    using g by (cases s) (simp_all add: virtio_mem_sbm_notify_going_online_def)
  have c: "virtio_mem_memory_notifier_cb k e vm MEM_GOING_ONLINE start_pfn nr_pages =
      Some (if removing vm then notifier_from_errno k (- EBUSY)
            else if s = VIRTIO_MEM_SBM_MB_OFFLINE \<or> s = VIRTIO_MEM_SBM_MB_OFFLINE_PARTIAL
            then NOTIFY_OK k else NOTIFY_BAD k,
            if removing vm then vm else vm\<lparr>hotplug_active := True\<rparr>)"
    using sbm overlaps block aligned b
    by (simp add: virtio_mem_memory_notifier_cb_def Let_def)
  have d: "sbm_tables_of (if removing vm then vm else vm\<lparr>hotplug_active := True\<rparr>) =
      sbm_tables_of vm"
    by (simp add: sbm_tables_of_def)
  from a c d show ?thesis by (intro conjI)
qed


lemmas two_memory_blocks_defs = two_memory_blocks_def example_defs

theorem going_online_answer_witness:
  "virtio_mem_memory_notifier_cb example_kconf calm_env two_memory_blocks MEM_GOING_ONLINE
     524288 32768 =
     Some (NOTIFY_BAD example_kconf, two_memory_blocks\<lparr>hotplug_active := True\<rparr>) \<and>
   virtio_mem_memory_notifier_cb example_kconf calm_env two_memory_blocks MEM_GOING_ONLINE
     557056 32768 =
     Some (NOTIFY_OK example_kconf, two_memory_blocks\<lparr>hotplug_active := True\<rparr>) \<and>
   sbm_tables_of (two_memory_blocks\<lparr>hotplug_active := True\<rparr>) =
     sbm_tables_of two_memory_blocks"
proof -
  let ?k = example_kconf
  let ?vm = two_memory_blocks
  have s: "in_sbm ?vm" "\<not> removing ?vm" "\<not> memmap_on_memory ?vm"
    by (simp_all add: two_memory_blocks_defs)
  have k: "32768 * PAGE_SIZE ?k = memory_block_size_bytes ?k"
    by (simp add: example_kconf_def)
  have o: "virtio_mem_overlaps_range ?vm (524288 * PAGE_SIZE ?k) (32768 * PAGE_SIZE ?k)"
    "virtio_mem_overlaps_range ?vm (557056 * PAGE_SIZE ?k) (32768 * PAGE_SIZE ?k)"
    by (simp_all add: virtio_mem_overlaps_range_def two_memory_blocks_defs)
  have al: "IS_ALIGNED (524288 * PAGE_SIZE ?k - 0) (memory_block_size_bytes ?k)"
    "IS_ALIGNED (557056 * PAGE_SIZE ?k - 0) (memory_block_size_bytes ?k)"
    by (simp_all add: IS_ALIGNED_def example_kconf_def)
  have g: "virtio_mem_sbm_get_mb_state ?vm (virtio_mem_phys_to_mb_id ?k (524288 * PAGE_SIZE ?k)) =
      Some VIRTIO_MEM_SBM_MB_UNUSED"
    "virtio_mem_sbm_get_mb_state ?vm (virtio_mem_phys_to_mb_id ?k (557056 * PAGE_SIZE ?k)) =
      Some VIRTIO_MEM_SBM_MB_OFFLINE"
    by (simp_all add: virtio_mem_sbm_get_mb_state_def virtio_mem_phys_to_mb_id_def
        two_memory_blocks_defs)
  note t1 = going_online_answer [where vm = ?vm and k = ?k and e = calm_env
      and start_pfn = 524288 and nr_pages = 32768 and s = VIRTIO_MEM_SBM_MB_UNUSED]
  note t2 = going_online_answer [where vm = ?vm and k = ?k and e = calm_env
      and start_pfn = 557056 and nr_pages = 32768 and s = VIRTIO_MEM_SBM_MB_OFFLINE]
  have c1: "virtio_mem_memory_notifier_cb ?k calm_env ?vm MEM_GOING_ONLINE 524288 32768 =
      Some (NOTIFY_BAD ?k, ?vm\<lparr>hotplug_active := True\<rparr>)"
    using t1 s k o(1) al(1) g(1) by simp
  have c2: "virtio_mem_memory_notifier_cb ?k calm_env ?vm MEM_GOING_ONLINE 557056 32768 =
      Some (NOTIFY_OK ?k, ?vm\<lparr>hotplug_active := True\<rparr>)"
    using t2 s k o(2) al(2) g(2) by simp
  have c3: "sbm_tables_of (?vm\<lparr>hotplug_active := True\<rparr>) = sbm_tables_of ?vm"
    using t1 s k o(1) al(1) g(1) by simp
  show ?thesis by (intro conjI c1 c2 c3)
qed

text \<open>
  While the device is being removed, the callback does not look at the state of the block:
  the offline block 17 is not answered with \<^verbatim>\<open>NOTIFY_OK\<close> and the unused block 16 is not
  answered with \<^verbatim>\<open>NOTIFY_BAD\<close>, both get \<^verbatim>\<open>notifier_from_errno(-EBUSY)\<close>.
\<close>

theorem going_online_while_removing:
  "virtio_mem_sbm_get_mb_state (two_memory_blocks\<lparr>removing := True\<rparr>) 17 =
     Some VIRTIO_MEM_SBM_MB_OFFLINE \<and>
   virtio_mem_phys_to_mb_id example_kconf (557056 * PAGE_SIZE example_kconf) = 17 \<and>
   virtio_mem_memory_notifier_cb example_kconf calm_env (two_memory_blocks\<lparr>removing := True\<rparr>)
     MEM_GOING_ONLINE 557056 32768 =
     Some (32785, two_memory_blocks\<lparr>removing := True\<rparr>) \<and>
   virtio_mem_sbm_get_mb_state (two_memory_blocks\<lparr>removing := True\<rparr>) 16 =
     Some VIRTIO_MEM_SBM_MB_UNUSED \<and>
   virtio_mem_phys_to_mb_id example_kconf (524288 * PAGE_SIZE example_kconf) = 16 \<and>
   virtio_mem_memory_notifier_cb example_kconf calm_env (two_memory_blocks\<lparr>removing := True\<rparr>)
     MEM_GOING_ONLINE 524288 32768 =
     Some (32785, two_memory_blocks\<lparr>removing := True\<rparr>) \<and>
   NOTIFY_OK example_kconf = 1 \<and> NOTIFY_BAD example_kconf = 32770"
  by (simp add: virtio_mem_memory_notifier_cb_def virtio_mem_sbm_get_mb_state_def
      virtio_mem_phys_to_mb_id_def virtio_mem_overlaps_range_def IS_ALIGNED_def
      two_memory_blocks_defs errno_defs Let_def)

subsection \<open>A plug request that fails\<close>

lemma u64_multiple_step:
  fixes sz bs :: u64
  assumes "unat sz = Suc n * unat bs" "bs \<noteq> 0"
  shows "sz \<noteq> 0" "unat (sz - bs) = n * unat bs"
proof -
  from assms(2) have p: "0 < unat bs" by (simp add: unat_gt_0)
  with assms(1) have "0 < unat sz" by simp
  then show "sz \<noteq> 0" by (simp add: unat_gt_0)
  from assms(1) have "unat bs \<le> unat sz" by simp
  then have "bs \<le> sz" by (simp add: word_le_nat_alt)
  then have "unat (sz - bs) = unat sz - unat bs" by (rule unat_sub)
  with assms(1) show "unat (sz - bs) = n * unat bs" by simp
qed

lemma unat_of_nat_mult:
  fixes bs :: u64
  assumes "j * unat bs < 2 ^ 64"
  shows "unat (of_nat j * bs) = j * unat bs"
proof (cases "bs = 0")
  case True
  then show ?thesis by simp
next
  case False
  then have "0 < unat bs" by (simp add: unat_gt_0)
  with assms have j: "j < 2 ^ 64"
    by (metis (no_types, lifting) le_less_trans mult.commute mult_le_mono2 mult.right_neutral
        Suc_leI One_nat_def)
  then have u: "unat (of_nat j :: u64) = j" by (simp add: unat_of_nat)
  have "unat (of_nat j :: u64) * unat bs < 2 ^ LENGTH(64)" using assms u by simp
  then have "unat (of_nat j * bs) = unat (of_nat j :: u64) * unat bs"
    by (rule unat_mult_lem [THEN iffD1])
  with u show ?thesis by simp
qed


lemma plug_events_Suc:
  "plug_events a bs (Suc j) = EV_mem_buf_alloc a # EV_xa_store a # plug_events (a + bs) bs j"
  by (simp add: plug_events_def map_upt_Suc algebra_simps del: upt_Suc)

lemma plug_events_stores:
  "EV_xa_store b \<in> set (plug_events a bs j) \<longleftrightarrow> (\<exists>i<j. b = a + of_nat i * bs)"
  by (auto simp: plug_events_def)

lemma send_plug_request_loop_fails:
  "sz \<noteq> 0 \<Longrightarrow> fst (ext_call e (EV_mem_buf_alloc a) vm) < 0 \<Longrightarrow>
     virtio_mem_send_plug_request_loop e bs memmap vm a sz =
       Some (Inl (virtio_mem_convert_error_code (fst (ext_call e (EV_mem_buf_alloc a) vm)), a,
         snd (ext_call e (EV_mem_buf_alloc a) vm)))"
  by (simp add: send_plug_request_loop_step case_prod_beta)

lemma send_plug_request_loop_goes_on:
  "sz \<noteq> 0 \<Longrightarrow> \<not> fst (ext_call e (EV_mem_buf_alloc a) vm) < 0 \<Longrightarrow>
     virtio_mem_send_plug_request_loop e bs memmap vm a sz =
       virtio_mem_send_plug_request_loop e bs memmap
         (let m = fst (ext_call e (EV_mem_buf_alloc a) vm);
              vm = snd (ext_call e (EV_mem_buf_alloc a) vm);
              x = fst (ext_call e (EV_xa_store a) vm);
              vm = snd (ext_call e (EV_xa_store a) vm);
              vm = (if x = 0 then vm\<lparr>xa_membuf := (xa_membuf vm)(a \<mapsto> nat m)\<rparr> else vm)
          in if \<not> memmap then vm\<lparr>plugged_size := plugged_size vm + bs\<rparr> else vm)
         (a + bs) (sz - bs)"
  by (simp add: send_plug_request_loop_step case_prod_beta Let_def)

lemma send_plug_request_loop_runs:
  assumes "unat sz = n * unat bs"
  shows "\<exists>r. virtio_mem_send_plug_request_loop e bs memmap vm a sz = Some r \<and>
     (case r of
        Inr vm_l \<Rightarrow> True
      | Inl (rc, a_f, vm_l) \<Rightarrow>
          \<exists>j<n. a_f = a + of_nat j * bs \<and>
            trace vm_l = trace vm @ plug_events a bs j @ [EV_mem_buf_alloc a_f])"
  using assms
proof (induction n arbitrary: vm a sz)
  case 0
  then have "sz = 0" by (simp add: unat_eq_0)
  then show ?case by (simp add: send_plug_request_loop_done)
next
  case (Suc n)
  show ?case
  proof (cases "bs = 0")
    case True
    with Suc.prems have "sz = 0" by (simp add: unat_eq_0)
    then show ?thesis by (simp add: send_plug_request_loop_done)
  next
    case False
    note st = u64_multiple_step [OF Suc.prems False]
    let ?m = "fst (ext_call e (EV_mem_buf_alloc a) vm)"
    let ?vm_m = "snd (ext_call e (EV_mem_buf_alloc a) vm)"
    show ?thesis
    proof (cases "?m < 0")
      case True
      with st(1) have "virtio_mem_send_plug_request_loop e bs memmap vm a sz =
          Some (Inl (virtio_mem_convert_error_code ?m, a, ?vm_m))"
        by (rule send_plug_request_loop_fails)
      then show ?thesis by (simp add: plug_events_def exI [of _ 0])
    next
      case nonneg: False
      let ?vm_p = "let m = fst (ext_call e (EV_mem_buf_alloc a) vm);
              vm = snd (ext_call e (EV_mem_buf_alloc a) vm);
              x = fst (ext_call e (EV_xa_store a) vm);
              vm = snd (ext_call e (EV_xa_store a) vm);
              vm = (if x = 0 then vm\<lparr>xa_membuf := (xa_membuf vm)(a \<mapsto> nat m)\<rparr> else vm)
          in if \<not> memmap then vm\<lparr>plugged_size := plugged_size vm + bs\<rparr> else vm"
      have t: "trace ?vm_p = trace vm @ [EV_mem_buf_alloc a, EV_xa_store a]"
        by (simp add: Let_def)
      from st(1) nonneg have u: "virtio_mem_send_plug_request_loop e bs memmap vm a sz =
          virtio_mem_send_plug_request_loop e bs memmap ?vm_p (a + bs) (sz - bs)"
        by (rule send_plug_request_loop_goes_on)
      from Suc.IH [OF st(2), of ?vm_p "a + bs"] obtain r where
        r: "virtio_mem_send_plug_request_loop e bs memmap ?vm_p (a + bs) (sz - bs) = Some r"
          "case r of
             Inr vm_l \<Rightarrow> True
           | Inl (rc, a_f, vm_l) \<Rightarrow>
               \<exists>j<n. a_f = a + bs + of_nat j * bs \<and>
                 trace vm_l = trace ?vm_p @ plug_events (a + bs) bs j @ [EV_mem_buf_alloc a_f]"
        by blast
      show ?thesis
      proof (cases r)
        case (Inr vm_l)
        with u r(1) show ?thesis by simp
      next
        case (Inl x)
        obtain rc a_f vm_l where x: "x = (rc, a_f, vm_l)" by (cases x) auto
        from r(2) Inl x obtain j where j: "j < n" "a_f = a + bs + of_nat j * bs"
          "trace vm_l = trace ?vm_p @ plug_events (a + bs) bs j @ [EV_mem_buf_alloc a_f]"
          by auto
        have "Suc j < Suc n" using j(1) by simp
        moreover have "a_f = a + of_nat (Suc j) * bs" using j(2) by (simp add: algebra_simps)
        moreover have "trace vm_l = trace vm @ plug_events a bs (Suc j) @ [EV_mem_buf_alloc a_f]"
          using j(3) t by (simp add: plug_events_Suc)
        ultimately show ?thesis using u r(1) Inl x by auto
      qed
    qed
  qed
qed


lemma send_unplug_request_loop_runs:
  assumes "unat sz = j * unat bs"
  shows "\<exists>rc vm_l. virtio_mem_send_unplug_request_loop e bs vm a sz = Some (rc, vm_l) \<and>
     (\<exists>t. trace vm_l = trace vm @ t \<and> (\<forall>b. EV_xa_store b \<notin> set t)) \<and>
     ((\<forall>i<j. xa_membuf vm (a + of_nat i * bs) \<noteq> None) \<longrightarrow> rc = 0)"
  using assms
proof (induction j arbitrary: vm a sz)
  case 0
  then have "sz = 0" by (simp add: unat_eq_0)
  then show ?case by (simp add: send_unplug_request_loop_done)
next
  case (Suc j)
  show ?case
  proof (cases "bs = 0")
    case True
    with Suc.prems have "sz = 0" by (simp add: unat_eq_0)
    then show ?thesis by (simp add: send_unplug_request_loop_done)
  next
    case False
    note st = u64_multiple_step [OF Suc.prems False]
    show ?thesis
    proof (cases "xa_membuf vm a")
      case None
      with st(1) have "virtio_mem_send_unplug_request_loop e bs vm a sz = Some (- EINVAL, vm)"
        by (simp add: send_unplug_request_loop_step)
      moreover have "\<not> (\<forall>i<Suc j. xa_membuf vm (a + of_nat i * bs) \<noteq> None)"
        using None by (auto intro: exI [of _ 0])
      ultimately show ?thesis by (intro exI [of _ "- EINVAL"] exI [of _ vm]) auto
    next
      case (Some membuf)
      let ?vm = "snd (ext_call e (EV_mem_buf_free membuf) vm)"
      from Some st(1) have u: "virtio_mem_send_unplug_request_loop e bs vm a sz =
          virtio_mem_send_unplug_request_loop e bs ?vm (a + bs) (sz - bs)"
        by (simp add: send_unplug_request_loop_step)
      from Suc.IH [OF st(2), of ?vm "a + bs"] obtain rc vm_l t where
        r: "virtio_mem_send_unplug_request_loop e bs ?vm (a + bs) (sz - bs) = Some (rc, vm_l)"
          "trace vm_l = trace ?vm @ t" "\<forall>b. EV_xa_store b \<notin> set t"
          "(\<forall>i<j. xa_membuf ?vm (a + bs + of_nat i * bs) \<noteq> None) \<longrightarrow> rc = 0"
        by blast
      have c: "rc = 0" if h: "\<forall>i<Suc j. xa_membuf vm (a + of_nat i * bs) \<noteq> None"
      proof -
        have "xa_membuf ?vm (a + bs + of_nat i * bs) \<noteq> None" if "i < j" for i
          using h [rule_format, of "Suc i"] that by (simp add: algebra_simps)
        with r(4) show ?thesis by blast
      qed
      have tr: "trace vm_l = trace vm @ (EV_mem_buf_free membuf # t) \<and>
          (\<forall>b. EV_xa_store b \<notin> set (EV_mem_buf_free membuf # t))"
        using r(2,3) by simp
      have "virtio_mem_send_unplug_request_loop e bs vm a sz = Some (rc, vm_l)"
        using u r(1) by simp
      moreover have "\<exists>t. trace vm_l = trace vm @ t \<and> (\<forall>b. EV_xa_store b \<notin> set t)"
        using tr by (rule exI)
      ultimately show ?thesis using c by blast
    qed
  qed
qed


lemma host_frame_device_block_size:
  "host_frame vm vm' \<Longrightarrow> device_block_size vm' = device_block_size vm"
  by (simp add: host_frame_def static_of_def)

lemma send_unplug_request_loop_frees:
  assumes "unat sz = j * unat bs"
    and "\<forall>i<j. xa_membuf vm (a + of_nat i * bs) \<noteq> None"
    and "bs \<noteq> 0"
  shows "\<exists>vm_l. virtio_mem_send_unplug_request_loop e bs vm a sz = Some (0, vm_l) \<and>
     trace vm_l = trace vm @
       map (\<lambda>i. EV_mem_buf_free (the (xa_membuf vm (a + of_nat i * bs)))) [0..<j]"
  using assms
proof (induction j arbitrary: vm a sz)
  case 0
  then have "sz = 0" by (simp add: unat_eq_0)
  then show ?case by (simp add: send_unplug_request_loop_done)
next
  case (Suc j)
  show ?case
  proof -
    note st = u64_multiple_step [OF Suc.prems(1) Suc.prems(3)]
    from Suc.prems(2) obtain membuf where m: "xa_membuf vm a = Some membuf"
      by (auto dest: spec [of _ 0])
    let ?vm = "snd (ext_call e (EV_mem_buf_free membuf) vm)"
    from m st(1) have u: "virtio_mem_send_unplug_request_loop e bs vm a sz =
        virtio_mem_send_unplug_request_loop e bs ?vm (a + bs) (sz - bs)"
      by (simp add: send_unplug_request_loop_step)
    have h: "\<forall>i<j. xa_membuf ?vm (a + bs + of_nat i * bs) \<noteq> None"
    proof (intro allI impI)
      fix i assume "i < j"
      then show "xa_membuf ?vm (a + bs + of_nat i * bs) \<noteq> None"
        using Suc.prems(2) [rule_format, of "Suc i"] by (simp add: algebra_simps)
    qed
    from Suc.IH [OF st(2) h Suc.prems(3)] obtain vm_l where
      r: "virtio_mem_send_unplug_request_loop e bs ?vm (a + bs) (sz - bs) = Some (0, vm_l)"
        "trace vm_l = trace ?vm @
           map (\<lambda>i. EV_mem_buf_free (the (xa_membuf ?vm (a + bs + of_nat i * bs)))) [0..<j]"
      by blast
    have "trace vm_l = trace vm @
        map (\<lambda>i. EV_mem_buf_free (the (xa_membuf vm (a + of_nat i * bs)))) [0..<Suc j]"
      using r(2) m by (simp add: map_upt_Suc algebra_simps del: upt_Suc)
    with u r(1) show ?thesis by simp
  qed
qed

text \<open>
  Claim C10. A plug request without \<open>memmap\<close>, for a range that does not wrap around the address
  space and whose size is a multiple of the device block size, always returns. When it returns
  0, \<open>plugged_size\<close> has grown by the size. When it returns an error and every block it stored
  a handle for still has its handle (so that the compensating unplug finds each of them),
  \<open>plugged_size\<close> is what it was before the call; the calls made are then \<^verbatim>\<open>kzalloc\<close>, one
  \<^verbatim>\<open>mem_buf_alloc\<close> and one \<^verbatim>\<open>xa_store\<close> for each of the \<open>j\<close> blocks plugged, the failing
  \<^verbatim>\<open>mem_buf_alloc\<close> of block \<open>j\<close>, and one \<^verbatim>\<open>mem_buf_free\<close> for each of the \<open>j\<close> blocks.
\<close>

theorem send_plug_request_restores_plugged_size:
  assumes mult: "unat sz = n * unat (device_block_size vm)"
    and range: "unat a + unat sz \<le> 2 ^ 64"
  shows "\<exists>rc vm'. virtio_mem_send_plug_request e vm a sz False = Some (rc, vm') \<and>
     (rc = 0 \<longrightarrow> plugged_size vm' = plugged_size vm + sz) \<and>
     (rc \<noteq> 0 \<and>
      (\<forall>b. EV_xa_store b \<in> set (drop (length (trace vm)) (trace vm')) \<longrightarrow>
           xa_membuf vm' b \<noteq> None) \<longrightarrow>
      plugged_size vm' = plugged_size vm \<and>
      (fst (ext_call e EV_kzalloc vm) = 0 \<longrightarrow>
         (\<exists>j<n. drop (length (trace vm)) (trace vm') =
            EV_kzalloc # plug_events a (device_block_size vm) j @
            EV_mem_buf_alloc (a + of_nat j * device_block_size vm) #
            map (\<lambda>i. EV_mem_buf_free (the (xa_membuf vm' (a + of_nat i * device_block_size vm))))
              [0..<j])))"
proof -
  let ?bs = "device_block_size vm"
  let ?g = "fst (ext_call e EV_kzalloc vm)"
  let ?vm_k = "snd (ext_call e EV_kzalloc vm)"
  show ?thesis
  proof (cases "?g = 0")
    case False
    then have "virtio_mem_send_plug_request e vm a sz False = Some (- ENOMEM, ?vm_k)"
      by (simp add: virtio_mem_send_plug_request_def case_prod_beta)
    with False show ?thesis by (simp add: errno_defs)
  next
    case True
    from send_plug_request_loop_runs [OF mult, of e False ?vm_k a] obtain r where
      r: "virtio_mem_send_plug_request_loop e ?bs False ?vm_k a sz = Some r"
        "case r of
           Inr vm_l \<Rightarrow> True
         | Inl (rc, a_f, vm_l) \<Rightarrow>
             \<exists>j<n. a_f = a + of_nat j * ?bs \<and>
               trace vm_l = trace ?vm_k @ plug_events a ?bs j @ [EV_mem_buf_alloc a_f]"
      by blast
    show ?thesis
    proof (cases r)
      case (Inr vm_l)
      with True r(1) have res: "virtio_mem_send_plug_request e vm a sz False = Some (0, vm_l)"
        by (simp add: virtio_mem_send_plug_request_def case_prod_beta)
      from send_plug_request_frame [OF res] have "plugged_size vm_l = plugged_size vm + sz"
        by simp
      with res show ?thesis by simp
    next
      case (Inl x)
      obtain rc a_f vm_l where x: "x = (rc, a_f, vm_l)" by (cases x) auto
      from r(2) Inl x obtain j where j: "j < n" "a_f = a + of_nat j * ?bs"
        "trace vm_l = trace ?vm_k @ plug_events a ?bs j @ [EV_mem_buf_alloc a_f]"
        by auto
      from send_plug_request_loop_frame [OF r(1)] Inl x
      have f: "host_frame ?vm_k vm_l" "rc \<noteq> 0"
        "plugged_size vm_l = plugged_size vm + (a_f - a)"
        by simp_all
      from f(1) have "host_frame vm vm_l" by simp
      then have bs_l: "device_block_size vm_l = ?bs"
        by (rule host_frame_device_block_size)
      have bs: "?bs \<noteq> 0"
      proof
        assume "?bs = 0"
        with mult have "sz = 0" by (simp add: unat_eq_0)
        with r(1) Inl show False by (simp add: send_plug_request_loop_done)
      qed
      then have pos: "0 < unat ?bs" by (simp add: unat_gt_0)
      with j(1) have "j * unat ?bs < n * unat ?bs" by simp
      with mult range have lt: "unat a + j * unat ?bs < 2 ^ 64" by linarith
      then have jb: "j * unat ?bs < 2 ^ 64" by simp
      have d: "unat (a_f - a) = j * unat ?bs"
        using j(2) unat_of_nat_mult [OF jb] by simp
      have af: "unat a_f = unat a + j * unat ?bs"
      proof -
        have "unat a + unat (of_nat j * ?bs) < 2 ^ LENGTH(64)"
          using lt unat_of_nat_mult [OF jb] by simp
        then have "unat (a + of_nat j * ?bs) = unat a + unat (of_nat j * ?bs)"
          by (rule unat_add_lem [THEN iffD1])
        then show ?thesis using j(2) unat_of_nat_mult [OF jb] by simp
      qed
      show ?thesis
      proof (cases "a < a_f")
        case False
        then have "unat a_f \<le> unat a" by (simp add: word_less_nat_alt)
        with af pos have j0: "j = 0" by simp
        with j(2) have "a_f = a" by simp
        with f(3) have p: "plugged_size vm_l = plugged_size vm" by simp
        from True r(1) Inl x False
        have res: "virtio_mem_send_plug_request e vm a sz False = Some (rc, vm_l)"
          by (simp add: virtio_mem_send_plug_request_def case_prod_beta)
        have "drop (length (trace vm)) (trace vm_l) =
            EV_kzalloc # plug_events a ?bs 0 @ EV_mem_buf_alloc (a + of_nat 0 * ?bs) #
              map (\<lambda>i. EV_mem_buf_free (the (xa_membuf vm_l (a + of_nat i * ?bs)))) [0..<0]"
          using j(2,3) j0 by (simp add: plug_events_def)
        moreover have "0 < n" using j(1) by simp
        ultimately have "\<exists>j<n. drop (length (trace vm)) (trace vm_l) =
            EV_kzalloc # plug_events a ?bs j @ EV_mem_buf_alloc (a + of_nat j * ?bs) #
              map (\<lambda>i. EV_mem_buf_free (the (xa_membuf vm_l (a + of_nat i * ?bs)))) [0..<j]"
          by blast
        with res p f(2) show ?thesis by blast
      next
        case less: True
        from send_unplug_request_loop_runs [OF d, of e vm_l a] obtain urc vm_u t where
          u: "virtio_mem_send_unplug_request_loop e ?bs vm_l a (a_f - a) = Some (urc, vm_u)"
            "trace vm_u = trace vm_l @ t" "\<forall>b. EV_xa_store b \<notin> set t"
            "(\<forall>i<j. xa_membuf vm_l (a + of_nat i * ?bs) \<noteq> None) \<longrightarrow> urc = 0"
          by blast
        from send_unplug_request_loop_frame [OF u(1)]
        have fu: "plugged_size vm_u = plugged_size vm_l" "xa_membuf vm_u = xa_membuf vm_l"
          by simp_all
        let ?vm' = "if urc \<noteq> 0 then vm_u else vm_u\<lparr>plugged_size := plugged_size vm_u - (a_f - a)\<rparr>"
        have un: "virtio_mem_send_unplug_request e vm_l a (a_f - a) False =
            Some (if urc \<noteq> 0 then urc else 0, ?vm')"
          using u(1) bs_l by (simp add: virtio_mem_send_unplug_request_def)
        from True r(1) Inl x less un
        have res: "virtio_mem_send_plug_request e vm a sz False = Some (rc, ?vm')"
          by (simp add: virtio_mem_send_plug_request_def case_prod_beta)
        have tr: "drop (length (trace vm)) (trace ?vm') =
            EV_kzalloc # plug_events a ?bs j @ EV_mem_buf_alloc a_f # t"
          using u(2) j(3) by simp
        have xa: "xa_membuf ?vm' = xa_membuf vm_l" using fu(2) by simp
        have "plugged_size ?vm' = plugged_size vm \<and>
            (\<exists>j<n. drop (length (trace vm)) (trace ?vm') =
              EV_kzalloc # plug_events a ?bs j @ EV_mem_buf_alloc (a + of_nat j * ?bs) #
                map (\<lambda>i. EV_mem_buf_free (the (xa_membuf ?vm' (a + of_nat i * ?bs)))) [0..<j])"
          if h: "\<forall>b. EV_xa_store b \<in> set (drop (length (trace vm)) (trace ?vm')) \<longrightarrow>
              xa_membuf ?vm' b \<noteq> None"
        proof -
          have hs: "\<forall>i<j. xa_membuf vm_l (a + of_nat i * ?bs) \<noteq> None"
          proof (intro allI impI)
            fix i assume "i < j"
            then have "EV_xa_store (a + of_nat i * ?bs) \<in> set (plug_events a ?bs j)"
              by (auto simp: plug_events_stores)
            then have "EV_xa_store (a + of_nat i * ?bs) \<in>
                set (drop (length (trace vm)) (trace ?vm'))"
              by (simp only: tr) simp
            with h xa show "xa_membuf vm_l (a + of_nat i * ?bs) \<noteq> None" by metis
          qed
          with u(4) have u0: "urc = 0" by blast
          from send_unplug_request_loop_frees [OF d hs bs, of e] u(1)
          have "trace vm_u = trace vm_l @
              map (\<lambda>i. EV_mem_buf_free (the (xa_membuf vm_l (a + of_nat i * ?bs)))) [0..<j]"
            by auto
          with u(2) have t: "t =
              map (\<lambda>i. EV_mem_buf_free (the (xa_membuf vm_l (a + of_nat i * ?bs)))) [0..<j]"
            by simp
          have "drop (length (trace vm)) (trace ?vm') =
              EV_kzalloc # plug_events a ?bs j @ EV_mem_buf_alloc (a + of_nat j * ?bs) #
                map (\<lambda>i. EV_mem_buf_free (the (xa_membuf ?vm' (a + of_nat i * ?bs)))) [0..<j]"
            using tr t j(2) u0 fu(2) by simp
          with j(1) have "\<exists>j<n. drop (length (trace vm)) (trace ?vm') =
              EV_kzalloc # plug_events a ?bs j @ EV_mem_buf_alloc (a + of_nat j * ?bs) #
                map (\<lambda>i. EV_mem_buf_free (the (xa_membuf ?vm' (a + of_nat i * ?bs)))) [0..<j]"
            by blast
          moreover have "plugged_size ?vm' = plugged_size vm" using u0 fu(1) f(3) by simp
          ultimately show ?thesis by blast
        qed
        with res f(2) show ?thesis by blast
      qed
    qed
  qed
qed

lemma third_block_not_plugged:
  "virtio_mem_send_plug_request third_mem_buf_alloc_busy two_memory_blocks 0x80000000 0x600000
     False =
   Some (- EBUSY, two_memory_blocks\<lparr>
     trace := [EV_kzalloc, EV_mem_buf_alloc 0x80000000, EV_xa_store 0x80000000,
       EV_mem_buf_alloc 0x80200000, EV_xa_store 0x80200000, EV_mem_buf_alloc 0x80400000,
       EV_mem_buf_free 0, EV_mem_buf_free 0],
     xa_membuf := [0x80000000 \<mapsto> 0, 0x80200000 \<mapsto> 0]\<rparr>)"
  by (simp add: run_send_requests third_mem_buf_alloc_busy_def two_memory_blocks_defs)

lemma two_blocks_plugged:
  "virtio_mem_send_plug_request calm_env two_memory_blocks 0x80000000 0x400000 False =
   Some (0, two_memory_blocks\<lparr>
     trace := [EV_kzalloc, EV_mem_buf_alloc 0x80000000, EV_xa_store 0x80000000,
       EV_mem_buf_alloc 0x80200000, EV_xa_store 0x80200000],
     plugged_size := 0x400000,
     xa_membuf := [0x80000000 \<mapsto> 0, 0x80200000 \<mapsto> 0]\<rparr>)"
  by (simp add: run_send_requests two_memory_blocks_defs)

theorem send_plug_request_restores_plugged_size_witness:
  "virtio_mem_send_plug_request third_mem_buf_alloc_busy two_memory_blocks 0x80000000 0x600000
     False =
   Some (- EBUSY, two_memory_blocks\<lparr>
     trace := [EV_kzalloc, EV_mem_buf_alloc 0x80000000, EV_xa_store 0x80000000,
       EV_mem_buf_alloc 0x80200000, EV_xa_store 0x80200000, EV_mem_buf_alloc 0x80400000,
       EV_mem_buf_free 0, EV_mem_buf_free 0],
     xa_membuf := [0x80000000 \<mapsto> 0, 0x80200000 \<mapsto> 0]\<rparr>) \<and>
   plugged_size (snd (the (virtio_mem_send_plug_request third_mem_buf_alloc_busy
      two_memory_blocks 0x80000000 0x600000 False))) = plugged_size two_memory_blocks \<and>
   fst (the (virtio_mem_send_plug_request calm_env two_memory_blocks 0x80000000 0x400000
      False)) = 0 \<and>
   plugged_size (snd (the (virtio_mem_send_plug_request calm_env two_memory_blocks 0x80000000
      0x400000 False))) = plugged_size two_memory_blocks + 0x400000"
proof -
  let ?vm = two_memory_blocks
  let ?r = "virtio_mem_send_plug_request third_mem_buf_alloc_busy ?vm 0x80000000 0x600000 False"
  let ?q = "virtio_mem_send_plug_request calm_env ?vm 0x80000000 0x400000 False"
  have m: "unat (0x600000 :: u64) = 3 * unat (device_block_size ?vm)"
    and m2: "unat (0x400000 :: u64) = 2 * unat (device_block_size ?vm)"
    by (simp_all add: two_memory_blocks_defs)
  have g: "unat (0x80000000 :: u64) + unat (0x600000 :: u64) \<le> 2 ^ 64"
    and g2: "unat (0x80000000 :: u64) + unat (0x400000 :: u64) \<le> 2 ^ 64"
    by simp_all
  from send_plug_request_restores_plugged_size [OF m g, of third_mem_buf_alloc_busy]
  obtain rc vm' where r: "?r = Some (rc, vm')"
    and p: "rc \<noteq> 0 \<and>
      (\<forall>b. EV_xa_store b \<in> set (drop (length (trace ?vm)) (trace vm')) \<longrightarrow>
           xa_membuf vm' b \<noteq> None) \<longrightarrow>
      plugged_size vm' = plugged_size ?vm"
    by blast
  from r have rc: "rc = - EBUSY" and vm': "vm' = snd (the ?r)"
    by (simp_all add: third_block_not_plugged)
  have t: "trace vm' = [EV_kzalloc, EV_mem_buf_alloc 0x80000000, EV_xa_store 0x80000000,
       EV_mem_buf_alloc 0x80200000, EV_xa_store 0x80200000, EV_mem_buf_alloc 0x80400000,
       EV_mem_buf_free 0, EV_mem_buf_free 0]"
    and x: "xa_membuf vm' = [0x80000000 \<mapsto> 0, 0x80200000 \<mapsto> 0]"
    and l: "length (trace ?vm) = 0"
    by (simp_all add: vm' third_block_not_plugged) (simp add: two_memory_blocks_defs)
  have "rc \<noteq> 0" using rc by (simp add: errno_defs)
  moreover have "\<forall>b. EV_xa_store b \<in> set (drop (length (trace ?vm)) (trace vm')) \<longrightarrow>
      xa_membuf vm' b \<noteq> None"
    by (auto simp: t x l)
  ultimately have "plugged_size vm' = plugged_size ?vm" using p by blast
  then have c1: "plugged_size (snd (the ?r)) = plugged_size ?vm" using vm' by simp
  from send_plug_request_restores_plugged_size [OF m2 g2, of calm_env]
  obtain rc2 vm2 where r2: "?q = Some (rc2, vm2)"
    and p2: "rc2 = 0 \<longrightarrow> plugged_size vm2 = plugged_size ?vm + 0x400000"
    by blast
  from r2 have rc2: "rc2 = 0" and vm2: "vm2 = snd (the ?q)"
    by (simp_all add: two_blocks_plugged)
  have c2: "fst (the ?q) = 0" using r2 rc2 by simp
  have c3: "plugged_size (snd (the ?q)) = plugged_size ?vm + 0x400000"
    using p2 rc2 vm2 by simp
  show ?thesis by (intro conjI third_block_not_plugged c1 c2 c3)
qed

subsection \<open>Errors the retry loop has no case for\<close>










subsection \<open>What the engine leaves unchanged\<close>

lemma static_of_updates [simp]:
  "static_of (vm\<lparr>trace := t\<rparr>) = static_of vm"
  "static_of (vm\<lparr>config_changed := c\<rparr>) = static_of vm"
  "static_of (vm\<lparr>wq_queued := q\<rparr>) = static_of vm"
  "static_of (vm\<lparr>resource_name := r\<rparr>) = static_of vm"
  "static_of (vm\<lparr>plugged_size := p\<rparr>) = static_of vm"
  "static_of (vm\<lparr>offline_size := s\<rparr>) = static_of vm"
  "static_of (vm\<lparr>xa_membuf := x\<rparr>) = static_of vm"
  "static_of (vm\<lparr>sbm_mb_states := ms\<rparr>) = static_of vm"
  "static_of (vm\<lparr>sbm_mb_count := mc\<rparr>) = static_of vm"
  "static_of (vm\<lparr>sbm_sb_states := ss\<rparr>) = static_of vm"
  "static_of (vm\<lparr>sbm_next_mb_id := nm\<rparr>) = static_of vm"
  "static_of (vm\<lparr>sbm_last_usable_mb_id := lm\<rparr>) = static_of vm"
  "static_of (vm\<lparr>sbm_have_unplugged_mb := h\<rparr>) = static_of vm"
  "static_of (vm\<lparr>bbm_bb_states := bs\<rparr>) = static_of vm"
  "static_of (vm\<lparr>bbm_bb_count := bc\<rparr>) = static_of vm"
  "static_of (vm\<lparr>bbm_next_bb_id := nb\<rparr>) = static_of vm"
  "static_of (vm\<lparr>bbm_last_usable_bb_id := lb\<rparr>) = static_of vm"
  "static_of (vm\<lparr>PageOffline := po\<rparr>) = static_of vm"
  "static_of (vm\<lparr>PageDirty := pd\<rparr>) = static_of vm"
  "static_of (vm\<lparr>PageReserved := pr\<rparr>) = static_of vm"
  "static_of (vm\<lparr>page_ref := rf\<rparr>) = static_of vm"
  "static_of (vm\<lparr>managed_pages := mp\<rparr>) = static_of vm"
  by (simp_all add: static_of_def)

lemma static_of_retry [simp]: "static_of (virtio_mem_retry vm) = static_of vm"
  by (simp add: virtio_mem_retry_def)

lemma plugged_size_retry [simp]: "plugged_size (virtio_mem_retry vm) = plugged_size vm"
  by (simp add: virtio_mem_retry_def)

lemma static_of_ext_call [simp]: "static_of (snd (ext_call e ev vm)) = static_of vm"
  by (simp add: ext_call_def Let_def virtio_mem_config_changed_def)

lemma static_of_set_fake_offline [simp]:
  "static_of (virtio_mem_set_fake_offline vm pfn n onlined) = static_of vm"
  "plugged_size (virtio_mem_set_fake_offline vm pfn n onlined) = plugged_size vm"
  by (induction vm pfn n onlined rule: virtio_mem_set_fake_offline.induct) (simp_all add: Let_def)

lemma static_of_clear_fake_offline [simp]:
  "static_of (virtio_mem_clear_fake_offline vm pfn n onlined) = static_of vm"
  "plugged_size (virtio_mem_clear_fake_offline vm pfn n onlined) = plugged_size vm"
  by (induction vm pfn n onlined rule: virtio_mem_clear_fake_offline.induct)
    (simp_all add: Let_def)

lemma static_of_fake_online_loop [simp]:
  "static_of (virtio_mem_fake_online_loop e order pfn n vm i) = static_of vm"
  "plugged_size (virtio_mem_fake_online_loop e order pfn n vm i) = plugged_size vm"
  by (induction e order pfn n vm i rule: virtio_mem_fake_online_loop.induct)
    (simp_all add: Let_def)

lemma static_of_fake_online [simp]:
  "static_of (virtio_mem_fake_online k e vm pfn nr_pages) = static_of vm"
  "plugged_size (virtio_mem_fake_online k e vm pfn nr_pages) = plugged_size vm"
  by (simp_all add: virtio_mem_fake_online_def Let_def)

lemma static_of_fake_offline_loop [simp]:
  "static_of (snd (virtio_mem_fake_offline_loop e vm pfn nr_pages is_movable retry_count)) =
     static_of vm"
  "plugged_size (snd (virtio_mem_fake_offline_loop e vm pfn nr_pages is_movable retry_count)) =
     plugged_size vm"
  by (induction e vm pfn nr_pages is_movable retry_count
      rule: virtio_mem_fake_offline_loop.induct;
      subst fake_offline_loop_unfold; simp add: Let_def)+

lemma static_of_fake_offline [simp]:
  "static_of (snd (virtio_mem_fake_offline e vm pfn nr_pages)) = static_of vm"
  "plugged_size (snd (virtio_mem_fake_offline e vm pfn nr_pages)) = plugged_size vm"
  by (simp_all add: virtio_mem_fake_offline_def case_prod_beta)

lemma host_frame_static_of: "host_frame vm vm' \<Longrightarrow> static_of vm' = static_of vm"
  by (simp add: host_frame_def)

lemma sbm_set_mb_state_static:
  "virtio_mem_sbm_set_mb_state vm mb_id st = Some vm' \<Longrightarrow>
     static_of vm' = static_of vm \<and> plugged_size vm' = plugged_size vm"
  by (auto simp: virtio_mem_sbm_set_mb_state_def Let_def split: if_splits)

lemma bbm_set_bb_state_static:
  "virtio_mem_bbm_set_bb_state vm bb_id st = Some vm' \<Longrightarrow>
     static_of vm' = static_of vm \<and> plugged_size vm' = plugged_size vm"
  by (auto simp: virtio_mem_bbm_set_bb_state_def Let_def split: if_splits)

lemma sbm_set_sb_plugged_static:
  "virtio_mem_sbm_set_sb_plugged vm mb_id sb_id count = Some vm' \<Longrightarrow>
     static_of vm' = static_of vm \<and> plugged_size vm' = plugged_size vm"
  by (auto simp: virtio_mem_sbm_set_sb_plugged_def split: Option.bind_splits)

lemma sbm_set_sb_unplugged_static:
  "virtio_mem_sbm_set_sb_unplugged vm mb_id sb_id count = Some vm' \<Longrightarrow>
     static_of vm' = static_of vm \<and> plugged_size vm' = plugged_size vm"
  by (auto simp: virtio_mem_sbm_set_sb_unplugged_def split: Option.bind_splits)

lemma static_of_sb_size: "static_of vm' = static_of vm \<Longrightarrow>
    sbm_sb_size vm' = sbm_sb_size vm \<and> sbm_sbs_per_mb vm' = sbm_sbs_per_mb vm \<and>
    sbm_first_mb_id vm' = sbm_first_mb_id vm \<and> bbm_bb_size vm' = bbm_bb_size vm \<and>
    bbm_first_bb_id vm' = bbm_first_bb_id vm \<and> in_sbm vm' = in_sbm vm \<and>
    requested_size vm' = requested_size vm \<and> retry_timer vm' = retry_timer vm \<and>
    broken vm' = broken vm \<and> device_block_size vm' = device_block_size vm \<and>
    memmap_on_memory vm' = memmap_on_memory vm"
  by (simp add: static_of_def)

lemma sbm_unplug_sb_account:
  "virtio_mem_sbm_unplug_sb k e vm mb_id sb_id count = Some (rc, vm') \<Longrightarrow>
     static_of vm' = static_of vm \<and>
     plugged_size vm' =
       (if rc = 0 then plugged_size vm - of_int count * sbm_sb_size vm else plugged_size vm)"
  by (auto simp: virtio_mem_sbm_unplug_sb_def Let_def split: Option.bind_splits if_splits
      dest!: send_unplug_request_frame sbm_set_sb_unplugged_static host_frame_static_of)

lemma sbm_plug_sb_account:
  "virtio_mem_sbm_plug_sb k e vm mb_id sb_id count = Some (rc, vm') \<Longrightarrow>
     static_of vm' = static_of vm \<and>
     (rc = 0 \<longrightarrow> plugged_size vm' = plugged_size vm + of_int count * sbm_sb_size vm)"
  by (auto simp: virtio_mem_sbm_plug_sb_def Let_def split: Option.bind_splits if_splits
      dest!: send_plug_request_frame sbm_set_sb_plugged_static host_frame_static_of)
lemma sbm_unplug_any_sb_raw_loop_account:
  assumes "virtio_mem_sbm_unplug_any_sb_raw_loop k e mb_id nb_sb sb_id vm = Some y"
  shows "static_of (snd (snd y)) = static_of vm \<and>
     plugged_size (snd (snd y)) = plugged_size vm - (nb_sb - fst (snd y)) * sbm_sb_size vm"
proof (rule virtio_mem_sbm_unplug_any_sb_raw_loop.raw_induct
    [where P = "\<lambda>k e mb_id nb_sb sb_id vm y. static_of (snd (snd y)) = static_of vm \<and>
     plugged_size (snd (snd y)) = plugged_size vm - (nb_sb - fst (snd y)) * sbm_sb_size vm",
     OF _ assms], goal_cases)
  case (1 loop k e mb_id nb_sb sb_id vm y)
  show ?case
  proof (cases "nb_sb = 0")
    case True
    with 1(2) show ?thesis by auto
  next
    case False
    with 1(2) obtain s where s: "sbm_skip_unplugged_sb vm mb_id sb_id = Some s"
      and r: "(if s < 0 then Some (0, nb_sb, vm)
        else do {
          (count, sb_id) \<leftarrow> sbm_extend_plugged_down vm mb_id nb_sb 1 s;
          (rc, vm) \<leftarrow> virtio_mem_sbm_unplug_sb k e vm mb_id sb_id count;
          if rc \<noteq> 0 then Some (rc, nb_sb, vm)
          else loop k e mb_id (nb_sb - of_int count) (sb_id - 1) vm
        }) = Some y"
      by (auto simp: bind_eq_Some_conv)
    show ?thesis
    proof (cases "s < 0")
      case True
      with r show ?thesis by auto
    next
      case nonneg: False
      with r obtain count sb rc vm1 where
        u: "virtio_mem_sbm_unplug_sb k e vm mb_id sb count = Some (rc, vm1)"
        and c: "(if rc \<noteq> 0 then Some (rc, nb_sb, vm1)
           else loop k e mb_id (nb_sb - of_int count) (sb - 1) vm1) = Some y"
        by (auto simp: bind_eq_Some_conv)
      note a = sbm_unplug_sb_account [OF u]
      show ?thesis
      proof (cases "rc = 0")
        case False
        with c a show ?thesis by auto
      next
        case True
        with c have "loop k e mb_id (nb_sb - of_int count) (sb - 1) vm1 = Some y" by simp
        from 1(1) [OF this] a True static_of_sb_size [of vm1 vm]
        show ?thesis by (simp add: algebra_simps)
      qed
    qed
  qed
qed

lemma sbm_unplug_any_sb_raw_account:
  "virtio_mem_sbm_unplug_any_sb_raw k e vm mb_id nb_sb = Some (rc, nb', vm') \<Longrightarrow>
     static_of vm' = static_of vm \<and>
     plugged_size vm' = plugged_size vm - (nb_sb - nb') * sbm_sb_size vm"
  by (auto simp: virtio_mem_sbm_unplug_any_sb_raw_def dest!: sbm_unplug_any_sb_raw_loop_account)

lemma sbm_unplug_mb_static:
  "virtio_mem_sbm_unplug_mb k e vm mb_id = Some (rc, vm') \<Longrightarrow> static_of vm' = static_of vm"
  by (auto simp: virtio_mem_sbm_unplug_mb_def split: Option.bind_splits
      dest!: sbm_unplug_any_sb_raw_account)

lemma sbm_remove_mb_static:
  "virtio_mem_sbm_remove_mb k e vm mb_id = Some (rc, vm') \<Longrightarrow>
     static_of vm' = static_of vm \<and> plugged_size vm' = plugged_size vm"
  by (auto simp: virtio_mem_sbm_remove_mb_def dest!: remove_memory_frame host_frame_static_of)

lemma sbm_offline_and_remove_mb_static:
  "virtio_mem_sbm_offline_and_remove_mb k e vm mb_id = Some (rc, vm') \<Longrightarrow>
     static_of vm' = static_of vm \<and> plugged_size vm' = plugged_size vm"
  by (auto simp: virtio_mem_sbm_offline_and_remove_mb_def
      dest!: offline_and_remove_memory_frame host_frame_static_of)

lemma sbm_try_remove_unplugged_mb_static:
  "virtio_mem_sbm_try_remove_unplugged_mb k e vm mb_id = Some (rc, vm') \<Longrightarrow>
     static_of vm' = static_of vm \<and> plugged_size vm' = plugged_size vm"
  by (auto simp: virtio_mem_sbm_try_remove_unplugged_mb_def
      split: Option.bind_splits if_splits
      dest!: sbm_offline_and_remove_mb_static sbm_set_mb_state_static)

lemma sbm_unplug_any_sb_offline_account:
  "virtio_mem_sbm_unplug_any_sb_offline k e vm mb_id nb_sb = Some (rc, nb', vm') \<Longrightarrow>
     static_of vm' = static_of vm \<and>
     plugged_size vm' = plugged_size vm - (nb_sb - nb') * sbm_sb_size vm"
  by (auto simp: virtio_mem_sbm_unplug_any_sb_offline_def
      split: Option.bind_splits if_splits
      dest!: sbm_unplug_any_sb_raw_account sbm_set_mb_state_static sbm_remove_mb_static)

lemma fake_offline_static:
  "virtio_mem_fake_offline e vm pfn nr_pages = (rc, vm') \<Longrightarrow>
     static_of vm' = static_of vm \<and> plugged_size vm' = plugged_size vm"
  by (metis snd_conv static_of_fake_offline)

lemma sbm_unplug_sb_online_account:
  "virtio_mem_sbm_unplug_sb_online k e vm mb_id sb_id count = Some (rc, vm') \<Longrightarrow>
     static_of vm' = static_of vm \<and>
     plugged_size vm' =
       (if rc = 0 then plugged_size vm - of_int count * sbm_sb_size vm else plugged_size vm)"
  by (auto simp: virtio_mem_sbm_unplug_sb_online_def Let_def
      split: Option.bind_splits if_splits virtio_mem_sbm_mb_state.splits prod.splits
      dest!: sbm_unplug_sb_account sbm_set_mb_state_static fake_offline_static
      dest: static_of_sb_size)
lemma sbm_unplug_any_sb_online_loop_account:
  assumes "virtio_mem_sbm_unplug_any_sb_online_loop k e mb_id nb_sb sb_id vm = Some y"
  shows "case y of
           Inl (rc, nb', vm') \<Rightarrow> static_of vm' = static_of vm \<and>
             plugged_size vm' = plugged_size vm - (nb_sb - nb') * sbm_sb_size vm
         | Inr (nb', vm') \<Rightarrow> static_of vm' = static_of vm \<and>
             plugged_size vm' = plugged_size vm - (nb_sb - nb') * sbm_sb_size vm"
proof (rule virtio_mem_sbm_unplug_any_sb_online_loop.raw_induct
    [where P = "\<lambda>k e mb_id nb_sb sb_id vm y. case y of
           Inl (rc, nb', vm') \<Rightarrow> static_of vm' = static_of vm \<and>
             plugged_size vm' = plugged_size vm - (nb_sb - nb') * sbm_sb_size vm
         | Inr (nb', vm') \<Rightarrow> static_of vm' = static_of vm \<and>
             plugged_size vm' = plugged_size vm - (nb_sb - nb') * sbm_sb_size vm",
     OF _ assms], goal_cases)
  case (1 loop k e mb_id nb_sb sb_id vm y)
  show ?case
  proof (cases "0 \<le> sb_id \<and> nb_sb \<noteq> 0")
    case False
    with 1(2) show ?thesis by auto
  next
    case True
    with 1(2) obtain s where
      r: "(if s < 0 then Some (Inr (nb_sb, vm))
        else do {
          (rc, vm) \<leftarrow> virtio_mem_sbm_unplug_sb_online k e vm mb_id s 1;
          if rc = - EBUSY then loop k e mb_id nb_sb (s - 1) vm
          else if rc \<noteq> 0 then Some (Inl (rc, nb_sb, vm))
          else loop k e mb_id (nb_sb - 1) (s - 1) vm
        }) = Some y"
      by (auto simp: bind_eq_Some_conv)
    show ?thesis
    proof (cases "s < 0")
      case True
      with r show ?thesis by auto
    next
      case False
      with r obtain rc vm1 where
        u: "virtio_mem_sbm_unplug_sb_online k e vm mb_id s 1 = Some (rc, vm1)"
        and c: "(if rc = - EBUSY then loop k e mb_id nb_sb (s - 1) vm1
          else if rc \<noteq> 0 then Some (Inl (rc, nb_sb, vm1))
          else loop k e mb_id (nb_sb - 1) (s - 1) vm1) = Some y"
        by (auto simp: bind_eq_Some_conv)
      note a = sbm_unplug_sb_online_account [OF u]
      note sz = static_of_sb_size [of vm1 vm]
      consider (busy) "rc = - EBUSY" | (fail) "rc \<noteq> - EBUSY" "rc \<noteq> 0" | (ok) "rc = 0"
        by (auto simp: errno_defs)
      then show ?thesis
      proof cases
        case busy
        with c have "loop k e mb_id nb_sb (s - 1) vm1 = Some y" by simp
        from 1(1) [OF this] a busy sz show ?thesis
          by (auto simp: errno_defs split: sum.splits)
      next
        case fail
        with c a show ?thesis by auto
      next
        case ok
        with c have "loop k e mb_id (nb_sb - 1) (s - 1) vm1 = Some y"
          by (simp add: errno_defs)
        from 1(1) [OF this] a ok sz show ?thesis
          by (auto simp: algebra_simps split: sum.splits)
      qed
    qed
  qed
qed

lemma sbm_unplug_any_sb_online_unplugged_account:
  "virtio_mem_sbm_unplug_any_sb_online_unplugged k e vm mb_id nb_sb = Some (rc, nb', vm') \<Longrightarrow>
     static_of vm' = static_of vm \<and> plugged_size vm' = plugged_size vm \<and> nb' = nb_sb \<and> rc = 0"
  by (auto simp: virtio_mem_sbm_unplug_any_sb_online_unplugged_def
      split: Option.bind_splits if_splits dest!: sbm_try_remove_unplugged_mb_static)

lemma sbm_unplug_any_sb_online_fallback_account:
  "virtio_mem_sbm_unplug_any_sb_online_fallback k e vm mb_id nb_sb = Some (rc, nb', vm') \<Longrightarrow>
     static_of vm' = static_of vm \<and>
     plugged_size vm' = plugged_size vm - (nb_sb - nb') * sbm_sb_size vm"
  by (auto simp: virtio_mem_sbm_unplug_any_sb_online_fallback_def
      split: Option.bind_splits sum.splits
      dest!: sbm_unplug_any_sb_online_loop_account sbm_unplug_any_sb_online_unplugged_account)

lemma sbm_unplug_any_sb_online_account:
  assumes "virtio_mem_sbm_unplug_any_sb_online k e vm mb_id nb_sb = Some (rc, nb', vm')"
  shows "static_of vm' = static_of vm \<and>
     plugged_size vm' = plugged_size vm - (nb_sb - nb') * sbm_sb_size vm"
proof -
  from assms obtain whole where
    c: "(if whole
       then do {
         (rc, vm) \<leftarrow> virtio_mem_sbm_unplug_sb_online k e vm mb_id 0 (int (sbm_sbs_per_mb vm));
         if rc = 0
         then virtio_mem_sbm_unplug_any_sb_online_unplugged k e vm mb_id
                (nb_sb - of_nat (sbm_sbs_per_mb vm))
         else if rc \<noteq> - EBUSY \<and> rc \<noteq> - ENOMEM then Some (rc, nb_sb, vm)
         else virtio_mem_sbm_unplug_any_sb_online_fallback k e vm mb_id nb_sb
       }
       else virtio_mem_sbm_unplug_any_sb_online_fallback k e vm mb_id nb_sb) = Some (rc, nb', vm')"
    unfolding virtio_mem_sbm_unplug_any_sb_online_def by (auto simp: bind_eq_Some_conv)
  show ?thesis
  proof (cases whole)
    case False
    with c show ?thesis by (auto dest!: sbm_unplug_any_sb_online_fallback_account)
  next
    case True
    with c obtain rc1 vm1 where
      u: "virtio_mem_sbm_unplug_sb_online k e vm mb_id 0 (int (sbm_sbs_per_mb vm)) =
          Some (rc1, vm1)"
      and d: "(if rc1 = 0
         then virtio_mem_sbm_unplug_any_sb_online_unplugged k e vm1 mb_id
                (nb_sb - of_nat (sbm_sbs_per_mb vm1))
         else if rc1 \<noteq> - EBUSY \<and> rc1 \<noteq> - ENOMEM then Some (rc1, nb_sb, vm1)
         else virtio_mem_sbm_unplug_any_sb_online_fallback k e vm1 mb_id nb_sb) =
        Some (rc, nb', vm')"
      by (auto simp: bind_eq_Some_conv)
    note a = sbm_unplug_sb_online_account [OF u]
    note sz = static_of_sb_size [of vm1 vm]
    consider (ok) "rc1 = 0" | (fail) "rc1 \<noteq> 0" "rc1 \<noteq> - EBUSY \<and> rc1 \<noteq> - ENOMEM"
      | (busy) "rc1 \<noteq> 0" "\<not> (rc1 \<noteq> - EBUSY \<and> rc1 \<noteq> - ENOMEM)"
      by blast
    then show ?thesis
    proof cases
      case ok
      with d have "virtio_mem_sbm_unplug_any_sb_online_unplugged k e vm1 mb_id
          (nb_sb - of_nat (sbm_sbs_per_mb vm1)) = Some (rc, nb', vm')" by simp
      from sbm_unplug_any_sb_online_unplugged_account [OF this] a ok sz
      show ?thesis by simp
    next
      case fail
      with d a show ?thesis by auto
    next
      case busy
      with d have "virtio_mem_sbm_unplug_any_sb_online_fallback k e vm1 mb_id nb_sb =
          Some (rc, nb', vm')" by auto
      from sbm_unplug_any_sb_online_fallback_account [OF this] a busy sz
      show ?thesis by simp
    qed
  qed
qed

lemma sbm_unplug_any_sb_account:
  "virtio_mem_sbm_unplug_any_sb k e vm mb_id nb_sb = Some (rc, nb', vm') \<Longrightarrow>
     static_of vm' = static_of vm \<and>
     plugged_size vm' = plugged_size vm - (nb_sb - nb') * sbm_sb_size vm"
  by (auto simp: virtio_mem_sbm_unplug_any_sb_def
      split: Option.bind_splits virtio_mem_sbm_mb_state.splits
      dest!: sbm_unplug_any_sb_online_account sbm_unplug_any_sb_offline_account)

end
